theory Spec2Isabelle
  imports Complex_Main "HOL-Library.Word" "HOL-Library.Sublist"
begin

section \<open>Machine types and vendor statuses\<close>

text \<open>
  The benchmark arguments \<open>state.range(i)\<close> are \<open>int64_t\<close>, the output dimensions the
  vendor library writes are \<open>int\<close>, byte counts are \<open>size_t\<close>. Products of them wrap
  around as two's complement words. Counter values are \<open>double\<close> in the code; they are
  embedded as reals, so the rounding of values beyond 53 bits is not part of the model.
\<close>

type_synonym int64 = "64 word"
type_synonym int32 = "32 word"
type_synonym size_t = "64 word"

definition double_of_int64 :: "int64 \<Rightarrow> real" where
  "double_of_int64 x = real_of_int (sint x)"

definition double_of_int32 :: "int32 \<Rightarrow> real" where
  "double_of_int32 x = real_of_int (sint x)"

definition double_of_size_t :: "size_t \<Rightarrow> real" where
  "double_of_size_t x = real (unat x)"

text \<open>The template parameter \<open>T\<close> of every benchmark: the element type.\<close>

datatype dtype = Int8 | Int32 | Half | Float | Double

definition is_half_v :: "dtype \<Rightarrow> bool" where
  "is_half_v T = (T = Half)"

definition is_integral :: "dtype \<Rightarrow> bool" where
  "is_integral T = (T = Int8 \<or> T = Int32)"

fun sizeof :: "dtype \<Rightarrow> size_t" where
  "sizeof Int8 = 1"
| "sizeof Int32 = 4"
| "sizeof Half = 2"
| "sizeof Float = 4"
| "sizeof Double = 8"

text \<open>
  \<open>const T alpha = state.range(4)\<close> followed by its use as a counter value: the
  integral element types truncate, the floating ones keep the value (up to rounding).
\<close>

fun convert_T :: "dtype \<Rightarrow> int64 \<Rightarrow> real" where
  "convert_T Int8 x = real_of_int (sint (ucast x :: 8 word))"
| "convert_T Int32 x = real_of_int (sint (ucast x :: 32 word))"
| "convert_T Half x = real_of_int (sint x)"
| "convert_T Float x = real_of_int (sint x)"
| "convert_T Double x = real_of_int (sint x)"

text \<open>
  A status returned by a call of the vendor libraries (\<open>cudnnStatus_t\<close>,
  \<open>cudaError_t\<close>, \<open>cublasStatus_t\<close>): the enum's number, 0 for success in all three.
  \<open>PRINT_IF_ERROR\<close> and \<open>IS_ERROR\<close> (error.hpp, not among the sources) are read as
  their callers use them: true exactly for a status that is not success; the log line
  \<open>PRINT_IF_ERROR\<close> writes is not modelled.
\<close>

type_synonym status = nat

definition IS_ERROR :: "status \<Rightarrow> bool" where
  "IS_ERROR s = (s \<noteq> 0)"

definition PRINT_IF_ERROR :: "status \<Rightarrow> bool" where
  "PRINT_IF_ERROR s = IS_ERROR s"

datatype library = CUDNN | CUDA | CUBLAS

text \<open>What a C++ \<open>throw\<close> can carry, as the three handlers of the dispatchers tell them apart.\<close>

datatype exn = Std_exception string | Std_string string | Other_exception

section \<open>The benchmark library's state\<close>

text \<open>
  An event of the run, in the order the calls are made: a call of a vendor function (its
  name, with the argument that tells two call sites apart, and the scalar arguments the
  claims speak about), or the construction of one of the helper objects \<open>Tensor\<close>,
  \<open>Filter\<close> and \<open>DeviceMemory\<close> (the variable's name and the sizes passed).
\<close>

datatype event = Call string "int list" | Construct string "int list"

datatype counter_flags = kDefaults | kAvgThreadsRate

type_synonym counter = "real \<times> counter_flags"

text \<open>
  \<open>benchmark::State\<close> as the benchmarks use it. \<open>ranges\<close> holds the arguments of the
  case (the registration supplies every argument a body reads). \<open>trace\<close> is not a field
  of the library's class: it records the calls the benchmark makes, so that statements
  about which calls happen, and in which order, can be made.
\<close>

record bench_state =
  ranges :: "nat \<Rightarrow> int64"
  max_iterations :: nat
  started :: bool
  finished :: bool
  total_iterations :: nat
  error_occurred :: bool
  error_message :: string
  timer_running :: bool
  manual_times :: "real list"
  counters :: "string \<rightharpoonup> counter"
  items_processed :: int64
  trace :: "event list"

definition range_arg :: "bench_state \<Rightarrow> nat \<Rightarrow> int64" where
  "range_arg st i = ranges st i"

definition emit :: "event \<Rightarrow> bench_state \<Rightarrow> bench_state" where
  "emit ev st = st\<lparr>trace := trace st @ [ev]\<rparr>"

text \<open>
  \<open>State::SkipWithError\<close>: the case is marked as failed, the first message given is the
  one kept, the running timer is stopped.
\<close>

definition SkipWithError :: "string \<Rightarrow> bench_state \<Rightarrow> bench_state" where
  "SkipWithError msg st =
     st\<lparr>error_occurred := True,
        error_message := (if error_occurred st then error_message st else msg),
        total_iterations := 0,
        timer_running := False\<rparr>"

definition PauseTiming :: "bench_state \<Rightarrow> bench_state" where
  "PauseTiming st = st\<lparr>timer_running := False\<rparr>"

definition ResumeTiming :: "bench_state \<Rightarrow> bench_state" where
  "ResumeTiming st = st\<lparr>timer_running := True\<rparr>"

definition SetIterationTime :: "real \<Rightarrow> bench_state \<Rightarrow> bench_state" where
  "SetIterationTime seconds st = st\<lparr>manual_times := manual_times st @ [seconds]\<rparr>"

definition SetItemsProcessed :: "int64 \<Rightarrow> bench_state \<Rightarrow> bench_state" where
  "SetItemsProcessed n st = st\<lparr>items_processed := n\<rparr>"

definition iterations :: "bench_state \<Rightarrow> nat" where
  "iterations st = (if started st then max_iterations st - total_iterations st else 0)"

text \<open>
  \<open>state.counters.insert({...})\<close> on a \<open>std::map\<close>: the pairs are inserted in order,
  and a key that is already present keeps its value.
\<close>

fun map_insert_all :: "(string \<times> counter) list \<Rightarrow> (string \<rightharpoonup> counter) \<Rightarrow> (string \<rightharpoonup> counter)" where
  "map_insert_all [] m = m"
| "map_insert_all ((k, v) # kvs) m = map_insert_all kvs (if m k = None then m(k \<mapsto> v) else m)"

definition counters_insert :: "(string \<times> counter) list \<Rightarrow> bench_state \<Rightarrow> bench_state" where
  "counters_insert kvs st = st\<lparr>counters := map_insert_all kvs (counters st)\<rparr>"

definition plain :: "real \<Rightarrow> counter" where
  "plain v = (v, kDefaults)"

text \<open>
  The loop \<open>for (auto _ : state)\<close>. Its iterator is created with \<open>max_iterations\<close>
  iterations to run, none when the state is already skipped; \<open>SkipWithError\<close> inside
  the loop does not change that number, only \<open>break\<close> leaves the loop early. The body
  returns whether it left the loop by \<open>break\<close>.
\<close>

definition StartKeepRunning :: "bench_state \<Rightarrow> bench_state" where
  "StartKeepRunning st =
     st\<lparr>started := True,
        total_iterations := (if error_occurred st then 0 else max_iterations st),
        timer_running := (\<not> error_occurred st)\<rparr>"

definition FinishKeepRunning :: "bench_state \<Rightarrow> bench_state" where
  "FinishKeepRunning st =
     st\<lparr>timer_running := (if error_occurred st then timer_running st else False),
        total_iterations := 0,
        finished := True\<rparr>"

fun run_iterations :: "(nat \<Rightarrow> bench_state \<Rightarrow> bool \<times> bench_state) \<Rightarrow> nat \<Rightarrow> nat \<Rightarrow> bench_state \<Rightarrow> bench_state" where
  "run_iterations body i 0 st = FinishKeepRunning st"
| "run_iterations body i (Suc n) st =
     (case body i st of
        (True, st') \<Rightarrow> st'
      | (False, st') \<Rightarrow> run_iterations body (Suc i) n st')"

definition range_for :: "(nat \<Rightarrow> bench_state \<Rightarrow> bool \<times> bench_state) \<Rightarrow> bench_state \<Rightarrow> bench_state" where
  "range_for body st =
     (let st0 = StartKeepRunning st
      in run_iterations body 0 (if error_occurred st0 then 0 else max_iterations st0) st0)"

section \<open>The environment of a run\<close>

text \<open>
  The helper classes \<open>Tensor\<close>, \<open>Filter\<close> and \<open>DeviceMemory\<close> (helper.hpp, not among
  the sources) are taken as parameters: a constructor either leaves a valid object, or an
  invalid one, and in the second case it may itself have skipped the case with a message.
\<close>

datatype helper_result = Valid | Invalid "string option"

definition is_valid :: "helper_result \<Rightarrow> bool" where
  "is_valid r = (r = Valid)"

text \<open>
  Everything a run reads from outside the benchmark function: the build flags, the
  globals of init.hpp, the status each vendor call returns (by the call's name and, for a
  call made before the loop, its occurrence, for a call of the timed loop, the
  iteration), the values the vendor queries write, the outcome of the helper
  constructors, whether building a \<open>std::vector\<close> of a given length throws, and the
  helpers \<open>utils::detail::error_string\<close> and \<open>detail::calc_conv_out_dim\<close>.
\<close>

record env =
  CUDNN_SUPPORTS_TENSOR_OPS :: bool
  LOW_PRECISION_NHWC_MODE :: bool
  has_cuda :: bool
  SupportsTensorCore :: bool
  api_status :: "string \<Rightarrow> nat \<Rightarrow> status"
  error_string :: "library \<Rightarrow> status \<Rightarrow> string"
  elapsed_msec :: "nat \<Rightarrow> real"
  tensor_result :: "string \<Rightarrow> helper_result"
  memory_result :: "string \<Rightarrow> helper_result"
  layout_of :: "string \<Rightarrow> int"
  vector_exn :: "string \<Rightarrow> size_t \<Rightarrow> exn option"
  output_dim :: "int32 \<times> int32 \<times> int32 \<times> int32"
  queried_bytes :: "string \<Rightarrow> size_t"
  advised_algo :: int
  perf_results :: "(int \<times> real \<times> size_t \<times> int) list"
  block_error_message :: "string \<Rightarrow> library \<Rightarrow> status \<Rightarrow> string"
  calc_conv_out_dim :: "int64 \<Rightarrow> int64 \<Rightarrow> int64 \<Rightarrow> int64 \<Rightarrow> int64 \<Rightarrow> int64"

definition construct :: "string \<Rightarrow> int list \<Rightarrow> helper_result \<Rightarrow> bench_state \<Rightarrow> bench_state" where
  "construct name sizes r st =
     (case r of
        Valid \<Rightarrow> emit (Construct name sizes) st
      | Invalid None \<Rightarrow> emit (Construct name sizes) st
      | Invalid (Some msg) \<Rightarrow> SkipWithError msg (emit (Construct name sizes) st))"

text \<open>The result of a function body: it returns, or an exception leaves it.\<close>

datatype outcome = Normal bench_state | Thrown exn bench_state

fun state_of :: "outcome \<Rightarrow> bench_state" where
  "state_of (Normal st) = st"
| "state_of (Thrown x st) = st"

fun map_outcome :: "(bench_state \<Rightarrow> bench_state) \<Rightarrow> outcome \<Rightarrow> outcome" where
  "map_outcome f (Normal st) = Normal (f st)"
| "map_outcome f (Thrown x st) = Thrown x (f st)"

text \<open>
  The statements the benchmark bodies are made of. Each takes the rest of the body as its
  last argument, and leaves the body where the source returns.

  \<open>if (PRINT_IF_ERROR(call(...))) { state.SkipWithError(msg); return; }\<close>
\<close>

definition checked ::
  "env \<Rightarrow> string \<Rightarrow> nat \<Rightarrow> int list \<Rightarrow> string \<Rightarrow> bench_state \<Rightarrow> (bench_state \<Rightarrow> outcome) \<Rightarrow> outcome" where
  "checked e name k args msg st rest =
     (let st1 = emit (Call name args) st
      in if PRINT_IF_ERROR (api_status e name k) then Normal (SkipWithError msg st1) else rest st1)"

text \<open>
  The same statement under a condition: a call that a build flag compiles in or out, or
  \<open>if (cond && PRINT_IF_ERROR(call(...))) {...}\<close>, where the call is made only if
  \<open>cond\<close> holds.
\<close>

definition checked_if ::
  "bool \<Rightarrow> env \<Rightarrow> string \<Rightarrow> nat \<Rightarrow> int list \<Rightarrow> string \<Rightarrow> bench_state \<Rightarrow> (bench_state \<Rightarrow> outcome) \<Rightarrow> outcome" where
  "checked_if cond e name k args msg st rest =
     (if cond then checked e name k args msg st rest else rest st)"

text \<open>
  \<open>auto x = Tensor<T>(state, {...}); if (!x.is_valid) { return; }\<close>, and the same for
  \<open>Filter\<close>. The layout argument of the two templates stays with the helper.
\<close>

definition with_tensor ::
  "env \<Rightarrow> string \<Rightarrow> int list \<Rightarrow> bench_state \<Rightarrow> (bench_state \<Rightarrow> outcome) \<Rightarrow> outcome" where
  "with_tensor e name shape st rest =
     (let st1 = construct name shape (tensor_result e name) st
      in if \<not> is_valid (tensor_result e name) then Normal st1 else rest st1)"

text \<open>\<open>DeviceMemory<T> x(state, ..., byte_count); if (!x.is_valid) { return; }\<close>\<close>

definition with_memory ::
  "env \<Rightarrow> string \<Rightarrow> size_t \<Rightarrow> bench_state \<Rightarrow> (bench_state \<Rightarrow> outcome) \<Rightarrow> outcome" where
  "with_memory e name byte_count st rest =
     (let st1 = construct name [uint byte_count] (memory_result e name) st
      in if \<not> is_valid (memory_result e name) then Normal st1 else rest st1)"

text \<open>\<open>auto v = std::vector<T>(n);\<close>: the only statement of the bodies that can throw.\<close>

definition with_vector ::
  "env \<Rightarrow> string \<Rightarrow> size_t \<Rightarrow> bench_state \<Rightarrow> (bench_state \<Rightarrow> outcome) \<Rightarrow> outcome" where
  "with_vector e name n st rest =
     (case vector_exn e name n of Some x \<Rightarrow> Thrown x st | None \<Rightarrow> rest st)"

text \<open>\<open>defer(call)\<close>: the call is made when the scope is left, however it is left.\<close>

definition defer_call :: "string \<Rightarrow> outcome \<Rightarrow> outcome" where
  "defer_call name out = map_outcome (emit (Call name [])) out"

text \<open>
  The dispatcher every benchmark file repeats around its inner function:
  \<open>try { inner(state); } catch (const std::exception& e) {...} catch (const std::string& e)
  {...} catch (...) {...}\<close>.
\<close>

fun try_catch :: "string \<Rightarrow> outcome \<Rightarrow> bench_state" where
  "try_catch name (Normal st) = st"
| "try_catch name (Thrown (Std_exception what) st) = SkipWithError (''Exception in '' @ name @ what) st"
| "try_catch name (Thrown (Std_string e) st) = SkipWithError (''Exception in '' @ name @ e) st"
| "try_catch name (Thrown Other_exception st) = SkipWithError (''unknown exception in '' @ name) st"

text \<open>\<open>fmt::format("{}", n)\<close> for an integer.\<close>

fun string_of_nat :: "nat \<Rightarrow> string" where
  "string_of_nat n =
     (if n < 10 then [''0123456789'' ! n]
      else string_of_nat (n div 10) @ [''0123456789'' ! (n mod 10)])"

definition string_of_int :: "int \<Rightarrow> string" where
  "string_of_int i = (if i < 0 then CHR ''-'' # string_of_nat (nat (- i)) else string_of_nat (nat i))"

text \<open>The conversion of an \<open>int64_t\<close> to an \<open>int\<close> parameter or variable.\<close>

definition narrow :: "int64 \<Rightarrow> int32" where
  "narrow x = ucast x"

section \<open>The timed block\<close>

text \<open>A vendor call of the timed loop: it is recorded, and its status is the environment's.\<close>

definition vendor_call :: "env \<Rightarrow> string \<Rightarrow> int list \<Rightarrow> nat \<Rightarrow> bench_state \<Rightarrow> status \<times> bench_state" where
  "vendor_call e name args i st = (api_status e name i, emit (Call name args) st)"

text \<open>
  One iteration of a timed loop, with the text of its messages and the vendor call it
  times left open. The loop of cudnn_scale_tensor.cpp is the instance
  \<open>scale_tensor_loop_body\<close> below.
\<close>

definition timed_loop_body ::
  "env \<Rightarrow> (library \<Rightarrow> status \<Rightarrow> string) \<Rightarrow> string \<Rightarrow> library \<Rightarrow> string \<Rightarrow> int list
     \<Rightarrow> nat \<Rightarrow> bench_state \<Rightarrow> bool \<times> bench_state" where
  "timed_loop_body e msg launch_msg lib name args i st =
     (let st1 = emit (Call ''cudaEventRecord(start)'' []) st;
          (stmt_err, st2) = vendor_call e name args i st1;
          st3 = emit (Call ''cudaEventRecord(stop)'' []) st2;
          (cuda_err, st4) = vendor_call e ''cudaEventSynchronize'' [] i st3;
          st5 = PauseTiming st4
      in if PRINT_IF_ERROR stmt_err then (True, SkipWithError (msg lib stmt_err) st5)
         else if PRINT_IF_ERROR cuda_err then (True, SkipWithError (msg CUDA cuda_err) st5)
         else
           let (time_err, st6) = vendor_call e ''cudaEventElapsedTime'' [] i st5
           in if PRINT_IF_ERROR time_err then (True, SkipWithError launch_msg st6)
              else (False, ResumeTiming (SetIterationTime (elapsed_msec e i / 1000) st6)))"

text \<open>
  Modelled from the spec: the macro \<open>BENCHMARK_BLOCK(err, { err = vendorCall(...); })\<close>,
  whose header is not among the sources. The spec's words are that a benchmark "invokes
  the vendor API inside a timed loop" and skips the case "if the vendor call returns an
  error code"; the loop is taken to be the one cudnn_scale_tensor.cpp writes out (two
  events created, then \<open>for (auto _ : state)\<close> around the bracketed call). The text of
  the macro's messages is the environment's \<open>block_error_message\<close>.
\<close>

definition BENCHMARK_BLOCK :: "env \<Rightarrow> string \<Rightarrow> library \<Rightarrow> string \<Rightarrow> int list \<Rightarrow> bench_state \<Rightarrow> bench_state" where
  "BENCHMARK_BLOCK e bench lib name args st =
     (let s1 = emit (Call ''cudaEventCreate(start)'' []) st;
          s2 = emit (Call ''cudaEventCreate(stop)'' []) s1
      in range_for (timed_loop_body e (block_error_message e bench) (block_error_message e bench CUDA 0)
                      lib name args) s2)"

section \<open>cudnn_scale_tensor.cpp\<close>

definition SCALE_TENSOR_NAME :: string where
  "SCALE_TENSOR_NAME = ''CUDNN/SCALE_TENSOR''"

text \<open>The body of the timed loop, lines 63 to 90.\<close>

definition scale_tensor_loop_body :: "env \<Rightarrow> nat \<Rightarrow> bench_state \<Rightarrow> bool \<times> bench_state" where
  "scale_tensor_loop_body e i st =
     (let st1 = emit (Call ''cudaEventRecord(start)'' []) st;
          cudnn_err = api_status e ''cudnnScaleTensor'' i;
          st2 = emit (Call ''cudnnScaleTensor'' []) st1;
          st3 = emit (Call ''cudaEventRecord(stop)'' []) st2;
          cuda_err = api_status e ''cudaEventSynchronize'' i;
          st4 = emit (Call ''cudaEventSynchronize'' []) st3;
          st5 = PauseTiming st4
      in if PRINT_IF_ERROR cudnn_err then
           (True, SkipWithError (SCALE_TENSOR_NAME @ '' failed to perform cudnnAddTensor because of ''
                                 @ error_string e CUDNN cudnn_err) st5)
         else if PRINT_IF_ERROR cuda_err then
           (True, SkipWithError (SCALE_TENSOR_NAME @ '' failed to perform cudnnAddTensor because of ''
                                 @ error_string e CUDA cuda_err) st5)
         else
           let st6 = emit (Call ''cudaEventElapsedTime'' []) st5
           in if PRINT_IF_ERROR (api_status e ''cudaEventElapsedTime'' i) then
                (True, SkipWithError (SCALE_TENSOR_NAME @ '' failed to launch kernel'') st6)
              else
                (False, ResumeTiming (SetIterationTime (elapsed_msec e i / 1000) st6)))"

definition iLAYER_CUDNN_SCALE_TENSOR_Impl :: "dtype \<Rightarrow> env \<Rightarrow> bench_state \<Rightarrow> outcome" where
  "iLAYER_CUDNN_SCALE_TENSOR_Impl T e state =
     (if \<not> has_cuda e then
        Normal (SkipWithError (SCALE_TENSOR_NAME @ '' no CUDA device found'') state)
      else
        let in_n = range_arg state 0;
            in_c = range_arg state 1;
            in_h = range_arg state 2;
            in_w = range_arg state 3;
            alpha = convert_T T (range_arg state 4)
        in
        with_tensor e ''input_tensor'' [sint in_n, sint in_c, sint in_h, sint in_w] state (\<lambda>s1.
        let input_bytes = sizeof T * in_n * in_w * in_h * in_c in
        with_vector e ''input'' (input_bytes div sizeof T) s1 (\<lambda>s2.
        with_memory e ''input_memory'' input_bytes s2 (\<lambda>s3.
        let s4 = emit (Call ''cudaEventCreate(start)'' []) s3;
            s5 = emit (Call ''cudaEventCreate(stop)'' []) s4;
            s6 = range_for (scale_tensor_loop_body e) s5;
            s7 = counters_insert
                   [(''input_size'', plain (double_of_int64 (in_n * in_c * in_h * in_w))),
                    (''input_n'', plain (double_of_int64 in_n)),
                    (''input_c'', plain (double_of_int64 in_c)),
                    (''input_h'', plain (double_of_int64 in_h)),
                    (''input_w'', plain (double_of_int64 in_w)),
                    (''x_tensor_layout'', plain (real_of_int (layout_of e ''x_tensor''))),
                    (''alpha'', plain alpha)] s6
        in Normal (SetItemsProcessed
                     (word_of_nat (iterations s7) * in_n * in_c * in_h * in_w) s7)))))"

definition LAYER_CUDNN_SCALE_TENSOR_Impl :: "dtype \<Rightarrow> env \<Rightarrow> bench_state \<Rightarrow> bench_state" where
  "LAYER_CUDNN_SCALE_TENSOR_Impl T e state =
     try_catch SCALE_TENSOR_NAME (iLAYER_CUDNN_SCALE_TENSOR_Impl T e state)"

section \<open>The batch normalisation benchmark (forward)\<close>

definition BATCHNORM_FWD_NAME :: string where
  "BATCHNORM_FWD_NAME = ''CUDNN/BATCHNORM_FWD''"

datatype cudnnBatchNormMode_t =
  CUDNN_BATCHNORM_PER_ACTIVATION | CUDNN_BATCHNORM_SPATIAL | CUDNN_BATCHNORM_SPATIAL_PERSISTENT
  | BatchNormMode_other int

fun batchnorm_mode_int :: "cudnnBatchNormMode_t \<Rightarrow> int" where
  "batchnorm_mode_int CUDNN_BATCHNORM_PER_ACTIVATION = 0"
| "batchnorm_mode_int CUDNN_BATCHNORM_SPATIAL = 1"
| "batchnorm_mode_int CUDNN_BATCHNORM_SPATIAL_PERSISTENT = 2"
| "batchnorm_mode_int (BatchNormMode_other i) = i"

fun batchnorm_compute_flops :: "int64 \<Rightarrow> int64 \<Rightarrow> int64 \<Rightarrow> int64 \<Rightarrow> cudnnBatchNormMode_t \<Rightarrow> real" where
  "batchnorm_compute_flops in_n in_c in_h in_w (BatchNormMode_other i) = - 1"
| "batchnorm_compute_flops in_n in_c in_h in_w mode = double_of_int64 (in_n * in_c * in_h * in_w)"

definition iLAYER_CUDNN_BATCHNORM_FWD_Impl ::
  "dtype \<Rightarrow> cudnnBatchNormMode_t \<Rightarrow> bool \<Rightarrow> env \<Rightarrow> bench_state \<Rightarrow> outcome" where
  "iLAYER_CUDNN_BATCHNORM_FWD_Impl T batchnorm_mode is_training e state =
     (if \<not> has_cuda e then
        Normal (SkipWithError (BATCHNORM_FWD_NAME @ '' no CUDA device found'') state)
      else
        let in_n = range_arg state 0;
            in_c = range_arg state 1;
            in_h = range_arg state 2;
            in_w = range_arg state 3;
            out_n = in_n; out_c = in_c; out_h = in_h; out_w = in_w
        in
        with_tensor e ''x_tensor'' [sint in_n, sint in_c, sint in_h, sint in_w] state (\<lambda>s1.
        checked e ''cudnnCreateTensorDescriptor'' 0 []
          (BATCHNORM_FWD_NAME @ '' failed to cudnnCreateTensorDescriptor'') s1 (\<lambda>s2.
        checked e ''cudnnDeriveBNTensorDescriptor'' 0 [batchnorm_mode_int batchnorm_mode]
          (BATCHNORM_FWD_NAME @ '' failed to cudnnDeriveBNTensorDescriptor'') s2 (\<lambda>s3.
        checked e ''cudnnGetTensorSizeInBytes'' 0 []
          (BATCHNORM_FWD_NAME @ '' failed to cudnnGetTensorSizeInBytes'') s3 (\<lambda>s4.
        let scale_bias_bytes = queried_bytes e ''scale_bias_bytes'' in
        with_vector e ''scale_bias'' (scale_bias_bytes div sizeof T) s4 (\<lambda>s5.
        let input_bytes = in_n * in_c * in_w * in_h * sizeof T in
        with_vector e ''input'' (input_bytes div sizeof T) s5 (\<lambda>s6.
        with_memory e ''x_memory'' input_bytes s6 (\<lambda>s7.
        with_memory e ''y_memory'' input_bytes s7 (\<lambda>s8.
        with_memory e ''scale_memory'' scale_bias_bytes s8 (\<lambda>s9.
        with_memory e ''bias_memory'' scale_bias_bytes s9 (\<lambda>s10.
        with_memory e ''batch_mean_memory'' scale_bias_bytes s10 (\<lambda>s11.
        with_memory e ''batch_var_memory'' scale_bias_bytes s11 (\<lambda>s12.
        with_memory e ''saved_mean_memory'' scale_bias_bytes s12 (\<lambda>s13.
        with_memory e ''saved_in_var_memory'' scale_bias_bytes s13 (\<lambda>s14.
        with_memory e ''estimated_mean_memory'' scale_bias_bytes s14 (\<lambda>s15.
        with_memory e ''estimated_var_memory'' scale_bias_bytes s15 (\<lambda>s16.
        let s17 = BENCHMARK_BLOCK e BATCHNORM_FWD_NAME CUDNN
                    (if is_training then ''cudnnBatchNormalizationForwardTraining''
                     else ''cudnnBatchNormalizationForwardInference'')
                    [batchnorm_mode_int batchnorm_mode] s16;
            s18 = counters_insert
                    [(''input_size'', plain (double_of_int64 (in_n * in_c * in_h * in_w))),
                     (''input_batch_size'', plain (double_of_int64 in_n)),
                     (''input_channels'', plain (double_of_int64 in_c)),
                     (''input_height'', plain (double_of_int64 in_h)),
                     (''input_width'', plain (double_of_int64 in_w)),
                     (''output_size'', plain (double_of_int64 (out_n * out_c * out_h * out_w))),
                     (''output_batch_size'', plain (double_of_int64 out_n)),
                     (''output_channels'', plain (double_of_int64 out_c)),
                     (''output_height'', plain (double_of_int64 out_h)),
                     (''output_width'', plain (double_of_int64 out_w)),
                     (''is_training'', plain (if is_training then 1 else 0)),
                     (''x_tensor_layout'', plain (real_of_int (layout_of e ''x_tensor''))),
                     (''batchnorm_mode'', plain (real_of_int (batchnorm_mode_int batchnorm_mode)))] s17;
            predicted_flops = batchnorm_compute_flops in_n in_c in_h in_w batchnorm_mode;
            s19 = counters_insert
                    [(''predicted_flops_count'', plain predicted_flops),
                     (''predicted_flops'', (predicted_flops * real (iterations s18), kAvgThreadsRate))] s18
        in Normal (SetItemsProcessed
                     (word_of_nat (iterations s19) * in_n * in_c * in_h * in_w) s19))))))))))))))))))"

definition LAYER_CUDNN_BATCHNORM_FWD_Impl ::
  "dtype \<Rightarrow> cudnnBatchNormMode_t \<Rightarrow> bool \<Rightarrow> env \<Rightarrow> bench_state \<Rightarrow> bench_state" where
  "LAYER_CUDNN_BATCHNORM_FWD_Impl T batchnorm_mode is_training e state =
     try_catch BATCHNORM_FWD_NAME (iLAYER_CUDNN_BATCHNORM_FWD_Impl T batchnorm_mode is_training e state)"

section \<open>The matrix multiplication benchmark\<close>

definition GEMM_FWD_NAME :: string where
  "GEMM_FWD_NAME = ''CUBLAS/GEMM_FWD''"

datatype cublasOperation_t = CUBLAS_OP_N | CUBLAS_OP_T

fun op_int :: "cublasOperation_t \<Rightarrow> int" where
  "op_int CUBLAS_OP_N = 0"
| "op_int CUBLAS_OP_T = 1"

text \<open>\<open>fmt::format("CUBLAS/{} ...", IMPLEMENTATION_NAME)\<close>, with \<open>IMPLEMENTATION_NAME\<close> the benchmark's name.\<close>

definition gemm_message :: "string \<Rightarrow> string" where
  "gemm_message what = ''CUBLAS/'' @ GEMM_FWD_NAME @ what"

definition iLAYER_CUBLAS_GEMM_FWD_Impl :: "dtype \<Rightarrow> env \<Rightarrow> bench_state \<Rightarrow> outcome" where
  "iLAYER_CUBLAS_GEMM_FWD_Impl T e state =
     (if \<not> has_cuda e then
        Normal (SkipWithError (GEMM_FWD_NAME @ '' no CUDA device found'') state)
      else
        let M = range_arg state 0;
            N = range_arg state 1;
            K = range_arg state 2;
            transA = (if range_arg state 3 = 0 then CUBLAS_OP_N else CUBLAS_OP_T);
            transB = (if range_arg state 4 = 0 then CUBLAS_OP_N else CUBLAS_OP_T);
            alpha = range_arg state 5;
            beta = range_arg state 6;
            lda = narrow (if transA = CUBLAS_OP_N then M else K);
            ldb = narrow (if transB = CUBLAS_OP_N then K else N);
            s1 = counters_insert
                   [(''M'', plain (double_of_int64 M)),
                    (''N'', plain (double_of_int64 N)),
                    (''K'', plain (double_of_int64 K)),
                    (''alpha'', plain (double_of_int64 alpha)),
                    (''beta'', plain (double_of_int64 beta)),
                    (''lda'', plain (double_of_int32 lda)),
                    (''ldb'', plain (double_of_int32 ldb)),
                    (''transA'', plain (if transA = CUBLAS_OP_N then 0 else 1)),
                    (''transB'', plain (if transB = CUBLAS_OP_N then 0 else 1))] state
        in
        with_vector e ''a'' (M * K) s1 (\<lambda>s2.
        with_vector e ''b'' (K * N) s2 (\<lambda>s3.
        with_vector e ''c'' (M * N) s3 (\<lambda>s4.
        checked e ''cublasSetMathMode'' 0 [if is_half_v T then 1 else 0]
          (gemm_message '' failed to set math mode to defaultt'') s4 (\<lambda>s5.
        checked e ''cudaMalloc'' 0 [uint (M * K * sizeof T)]
          (gemm_message '' device memory allocation failed for matrix A'') s5 (\<lambda>s6.
        defer_call ''cudaFree(d_a)'' (
        checked e ''cudaMalloc'' 1 [uint (K * N * sizeof T)]
          (gemm_message '' device memory allocation failed for matrix B'') s6 (\<lambda>s7.
        defer_call ''cudaFree(d_b)'' (
        checked e ''cudaMalloc'' 2 [uint (M * N * sizeof T)]
          (gemm_message '' device memory allocation failed for matrix C'') s7 (\<lambda>s8.
        defer_call ''cudaFree(d_c)'' (
        checked e ''cublasSetMatrix'' 0 [sint (narrow M), sint (narrow K)]
          (gemm_message '' setting of A matrix failed'') s8 (\<lambda>s9.
        checked e ''cublasSetMatrix'' 1 [sint (narrow K), sint (narrow N)]
          (gemm_message '' setting of B matrix failed'') s9 (\<lambda>s10.
        checked e ''cublasSetMatrix'' 2 [sint (narrow M), sint (narrow N)]
          (gemm_message '' setting of C matrix failed'') s10 (\<lambda>s11.
        let s12 =
              (if is_half_v T then
                 BENCHMARK_BLOCK e GEMM_FWD_NAME CUBLAS ''cublasGemmEx''
                   [op_int CUBLAS_OP_N, op_int CUBLAS_OP_N, sint (narrow M), sint (narrow N), sint (narrow K),
                    sint (narrow M), sint (narrow K), sint (narrow M)] s11
               else
                 BENCHMARK_BLOCK e GEMM_FWD_NAME CUBLAS ''cublasSgemm''
                   [op_int transA, op_int transB, sint (narrow M), sint (narrow N), sint (narrow K),
                    sint lda, sint ldb, sint (narrow M)] s11);
            predicted_flops = 2 * double_of_int64 M * double_of_int64 N * double_of_int64 K;
            s13 = counters_insert
                    [(''predicted_flops_count'', plain predicted_flops),
                     (''predicted_flops'', (predicted_flops * real (iterations s12), kAvgThreadsRate))] s12
        in Normal (SetItemsProcessed (word_of_nat (iterations s13) * M * N * K) s13)))))))))))))))"

text \<open>The dispatcher, with its specialisation for \<open>int8_t\<close>, which runs the \<open>float\<close> benchmark.\<close>

definition LAYER_CUBLAS_GEMM_FWD_Impl :: "dtype \<Rightarrow> env \<Rightarrow> bench_state \<Rightarrow> bench_state" where
  "LAYER_CUBLAS_GEMM_FWD_Impl T e state =
     try_catch GEMM_FWD_NAME (iLAYER_CUBLAS_GEMM_FWD_Impl (if T = Int8 then Float else T) e state)"

section \<open>The convolution benchmarks\<close>

text \<open>
  The enums of cudnn.h the convolution benchmarks take as template arguments, cast to
  \<open>int\<close> and from \<open>-1\<close>, with the numbers cudnn.h gives them.
\<close>

type_synonym cudnnConvolutionFwdAlgo_t = int

definition CUDNN_CONVOLUTION_FWD_ALGO_IMPLICIT_GEMM :: cudnnConvolutionFwdAlgo_t where
  "CUDNN_CONVOLUTION_FWD_ALGO_IMPLICIT_GEMM = 0"
definition CUDNN_CONVOLUTION_FWD_ALGO_IMPLICIT_PRECOMP_GEMM :: cudnnConvolutionFwdAlgo_t where
  "CUDNN_CONVOLUTION_FWD_ALGO_IMPLICIT_PRECOMP_GEMM = 1"
definition CUDNN_CONVOLUTION_FWD_ALGO_GEMM :: cudnnConvolutionFwdAlgo_t where
  "CUDNN_CONVOLUTION_FWD_ALGO_GEMM = 2"
definition CUDNN_CONVOLUTION_FWD_ALGO_DIRECT :: cudnnConvolutionFwdAlgo_t where
  "CUDNN_CONVOLUTION_FWD_ALGO_DIRECT = 3"
definition CUDNN_CONVOLUTION_FWD_ALGO_FFT :: cudnnConvolutionFwdAlgo_t where
  "CUDNN_CONVOLUTION_FWD_ALGO_FFT = 4"
definition CUDNN_CONVOLUTION_FWD_ALGO_FFT_TILING :: cudnnConvolutionFwdAlgo_t where
  "CUDNN_CONVOLUTION_FWD_ALGO_FFT_TILING = 5"
definition CUDNN_CONVOLUTION_FWD_ALGO_WINOGRAD :: cudnnConvolutionFwdAlgo_t where
  "CUDNN_CONVOLUTION_FWD_ALGO_WINOGRAD = 6"
definition CUDNN_CONVOLUTION_FWD_ALGO_WINOGRAD_NONFUSED :: cudnnConvolutionFwdAlgo_t where
  "CUDNN_CONVOLUTION_FWD_ALGO_WINOGRAD_NONFUSED = 7"
definition CUDNN_CONVOLUTION_FWD_ALGO_COUNT :: cudnnConvolutionFwdAlgo_t where
  "CUDNN_CONVOLUTION_FWD_ALGO_COUNT = 8"

type_synonym cudnnConvolutionBwdDataAlgo_t = int

definition CUDNN_CONVOLUTION_BWD_DATA_ALGO_0 :: cudnnConvolutionBwdDataAlgo_t where
  "CUDNN_CONVOLUTION_BWD_DATA_ALGO_0 = 0"
definition CUDNN_CONVOLUTION_BWD_DATA_ALGO_1 :: cudnnConvolutionBwdDataAlgo_t where
  "CUDNN_CONVOLUTION_BWD_DATA_ALGO_1 = 1"
definition CUDNN_CONVOLUTION_BWD_DATA_ALGO_FFT :: cudnnConvolutionBwdDataAlgo_t where
  "CUDNN_CONVOLUTION_BWD_DATA_ALGO_FFT = 2"
definition CUDNN_CONVOLUTION_BWD_DATA_ALGO_FFT_TILING :: cudnnConvolutionBwdDataAlgo_t where
  "CUDNN_CONVOLUTION_BWD_DATA_ALGO_FFT_TILING = 3"
definition CUDNN_CONVOLUTION_BWD_DATA_ALGO_WINOGRAD :: cudnnConvolutionBwdDataAlgo_t where
  "CUDNN_CONVOLUTION_BWD_DATA_ALGO_WINOGRAD = 4"
definition CUDNN_CONVOLUTION_BWD_DATA_ALGO_WINOGRAD_NONFUSED :: cudnnConvolutionBwdDataAlgo_t where
  "CUDNN_CONVOLUTION_BWD_DATA_ALGO_WINOGRAD_NONFUSED = 5"
definition CUDNN_CONVOLUTION_BWD_DATA_ALGO_COUNT :: cudnnConvolutionBwdDataAlgo_t where
  "CUDNN_CONVOLUTION_BWD_DATA_ALGO_COUNT = 6"

type_synonym cudnnMathType_t = int

definition CUDNN_DEFAULT_MATH :: cudnnMathType_t where
  "CUDNN_DEFAULT_MATH = 0"
definition CUDNN_TENSOR_OP_MATH :: cudnnMathType_t where
  "CUDNN_TENSOR_OP_MATH = 1"

type_synonym cudnnConvolutionMode_t = int

definition CUDNN_CONVOLUTION :: cudnnConvolutionMode_t where
  "CUDNN_CONVOLUTION = 0"
definition CUDNN_CROSS_CORRELATION :: cudnnConvolutionMode_t where
  "CUDNN_CROSS_CORRELATION = 1"

type_synonym cudnnActivationMode_t = int

definition CUDNN_ACTIVATION_SIGMOID :: cudnnActivationMode_t where
  "CUDNN_ACTIVATION_SIGMOID = 0"
definition CUDNN_ACTIVATION_RELU :: cudnnActivationMode_t where
  "CUDNN_ACTIVATION_RELU = 1"
definition CUDNN_ACTIVATION_TANH :: cudnnActivationMode_t where
  "CUDNN_ACTIVATION_TANH = 2"
definition CUDNN_ACTIVATION_CLIPPED_RELU :: cudnnActivationMode_t where
  "CUDNN_ACTIVATION_CLIPPED_RELU = 3"
definition CUDNN_ACTIVATION_ELU :: cudnnActivationMode_t where
  "CUDNN_ACTIVATION_ELU = 4"
definition CUDNN_ACTIVATION_IDENTITY :: cudnnActivationMode_t where
  "CUDNN_ACTIVATION_IDENTITY = 5"

text \<open>The workspace the convolution benchmarks fall back to: 1 GiB.\<close>

definition fallback_workspace_bytes :: size_t where
  "fallback_workspace_bytes = 1073741824"

text \<open>
  The loop over the results of \<open>cudnnFind...Algorithm\<close>: the counters of the first result
  for the benchmark's algorithm are the ones inserted.
\<close>

fun insert_perf_results :: "int \<Rightarrow> (int \<times> real \<times> size_t \<times> int) list \<Rightarrow> bench_state \<Rightarrow> bench_state" where
  "insert_perf_results alg [] st = st"
| "insert_perf_results alg ((algo, time, memory, determinism) # rest) st =
     insert_perf_results alg rest
       (if algo = alg then
          counters_insert
            [(''advised_time'', plain time),
             (''advised_memory'', plain (double_of_size_t memory)),
             (''advised_determinism'', plain (real_of_int determinism))] st
        else st)"

subsection \<open>Forward convolution\<close>

definition CONV_FWD_NAME :: string where
  "CONV_FWD_NAME = ''CUDNN/CONV_FWD''"

text \<open>The lambda \<open>compute_flops\<close> of the forward convolution.\<close>

definition conv_fwd_compute_flops ::
  "int64 \<Rightarrow> int64 \<Rightarrow> int64 \<Rightarrow> int64 \<Rightarrow> int64 \<Rightarrow> int64 \<Rightarrow> int64 \<Rightarrow> int32 \<Rightarrow> int32
     \<Rightarrow> cudnnConvolutionFwdAlgo_t \<Rightarrow> real" where
  "conv_fwd_compute_flops N K C H W R S P Q alg =
     (if alg = CUDNN_CONVOLUTION_FWD_ALGO_IMPLICIT_GEMM
         \<or> alg = CUDNN_CONVOLUTION_FWD_ALGO_IMPLICIT_PRECOMP_GEMM
         \<or> alg = CUDNN_CONVOLUTION_FWD_ALGO_GEMM then
        double_of_int64 K * double_of_int64 C * double_of_int64 R * double_of_int64 S
        * double_of_int64 N * double_of_int32 P * double_of_int32 Q
      else if alg = CUDNN_CONVOLUTION_FWD_ALGO_FFT \<or> alg = CUDNN_CONVOLUTION_FWD_ALGO_FFT_TILING then
        (double_of_int64 N * double_of_int64 C * double_of_int64 K * double_of_int64 H * double_of_int64 W)
        + (double_of_int64 N * double_of_int64 C + double_of_int64 C * double_of_int64 K
           + double_of_int64 N * double_of_int64 K)
          * (double_of_int64 H * double_of_int64 W)
          * log 2 (double_of_int64 H * double_of_int64 W)
      else - 1)"

text \<open>
  The body of the forward convolution is written in three parts: the counters of lines
  236 to 263, the rest of the body from the timed block on (lines 219 to 330), and the
  function itself, which ends by running that rest.
\<close>

definition conv_fwd_counters ::
  "env \<Rightarrow> cudnnConvolutionFwdAlgo_t \<Rightarrow> cudnnMathType_t \<Rightarrow> cudnnConvolutionMode_t
     \<Rightarrow> int64 \<Rightarrow> int64 \<Rightarrow> int64 \<Rightarrow> int64 \<Rightarrow> int64 \<Rightarrow> int64 \<Rightarrow> int64
     \<Rightarrow> int64 \<Rightarrow> int64 \<Rightarrow> int64 \<Rightarrow> int64 \<Rightarrow> int64 \<Rightarrow> int64
     \<Rightarrow> int32 \<Rightarrow> int32 \<Rightarrow> int32 \<Rightarrow> int32 \<Rightarrow> size_t \<Rightarrow> int \<Rightarrow> (string \<times> counter) list" where
  "conv_fwd_counters e convolution_algorithm math_type conv_mode
     batch_size channels height width num_filters filter_height filter_width
     pad_height pad_width stride_height stride_width dilation_height dilation_width
     out_n out_c out_h out_w workspace_bytes advised_convolution_algorithm =
     [(''input_size'', plain (double_of_int64 (batch_size * channels * height * width))),
      (''input_batch_size'', plain (double_of_int64 batch_size)),
      (''input_channels'', plain (double_of_int64 channels)),
      (''input_height'', plain (double_of_int64 height)),
      (''input_width'', plain (double_of_int64 width)),
      (''num_filters'', plain (double_of_int64 num_filters)),
      (''filter_height'', plain (double_of_int64 filter_height)),
      (''filter_width'', plain (double_of_int64 filter_width)),
      (''pad_height'', plain (double_of_int64 pad_height)),
      (''pad_width'', plain (double_of_int64 pad_width)),
      (''stride_height'', plain (double_of_int64 stride_height)),
      (''stride_width'', plain (double_of_int64 stride_width)),
      (''dilation_height'', plain (double_of_int64 dilation_height)),
      (''dilation_width'', plain (double_of_int64 dilation_width)),
      (''output_size'', plain (double_of_int32 (out_n * out_c * out_h * out_w))),
      (''output_batch_size'', plain (double_of_int32 out_n)),
      (''output_channels'', plain (double_of_int32 out_c)),
      (''output_height'', plain (double_of_int32 out_h)),
      (''output_width'', plain (double_of_int32 out_w)),
      (''conv_mode'', plain (real_of_int conv_mode)),
      (''workspace_bytes'', plain (double_of_size_t workspace_bytes)),
      (''workspace_megabytes'', plain (double_of_size_t workspace_bytes / 1048576)),
      (''convolution_algorithm'', plain (real_of_int convolution_algorithm)),
      (''advised_convolution_algorithm'', plain (real_of_int advised_convolution_algorithm)),
      (''x_tensor_layout'', plain (real_of_int (layout_of e ''x_tensor''))),
      (''y_tensor_layout'', plain (real_of_int (layout_of e ''y_tensor''))),
      (''w_filter_layout'', plain (real_of_int (layout_of e ''w_filter''))),
      (''math_type'', plain (real_of_int math_type))]"

definition conv_fwd_measure_and_report ::
  "env \<Rightarrow> cudnnConvolutionFwdAlgo_t \<Rightarrow> (string \<times> counter) list
     \<Rightarrow> int64 \<Rightarrow> int64 \<Rightarrow> int64 \<Rightarrow> int64 \<Rightarrow> int64 \<Rightarrow> int64 \<Rightarrow> int64 \<Rightarrow> int32 \<Rightarrow> int32
     \<Rightarrow> int64 \<Rightarrow> size_t \<Rightarrow> int \<Rightarrow> bench_state \<Rightarrow> bench_state" where
  "conv_fwd_measure_and_report e convolution_algorithm shape_counters N K C H W R S P Q
     group_count workspace_bytes advised_convolution_algorithm s17 =
     (let s18 = BENCHMARK_BLOCK e CONV_FWD_NAME CUDNN ''cudnnConvolutionForward''
                  [convolution_algorithm, uint workspace_bytes] s17;
          s19 = counters_insert shape_counters s18;
          predicted_flops = conv_fwd_compute_flops N K C H W R S P Q convolution_algorithm
                            / double_of_int64 group_count;
          s20 = counters_insert
                  [(''predicted_flops_count'', plain predicted_flops),
                   (''predicted_flops'', (predicted_flops * real (iterations s19), kAvgThreadsRate))] s19;
          predicted_advised_flops = conv_fwd_compute_flops N K C H W R S P Q advised_convolution_algorithm;
          s21 = (if advised_convolution_algorithm \<noteq> - 1 then
                   counters_insert
                     [(''predicted_advised_flops_count'', plain predicted_advised_flops),
                      (''predicted_advised_flops'',
                       (predicted_advised_flops * real (iterations s20), kAvgThreadsRate))] s20
                 else s20);
          s22 = emit (Call ''cudnnFindConvolutionForwardAlgorithm'' [10]) s21;
          s23 = (if PRINT_IF_ERROR (api_status e ''cudnnFindConvolutionForwardAlgorithm'' 0) then
                   SkipWithError (CONV_FWD_NAME @ '' failed to perform cudnnFindConvolutionForwardAlgorithm'') s22
                 else s22);
          s24 = insert_perf_results convolution_algorithm (take 10 (perf_results e)) s23
      in SetItemsProcessed (word_of_nat (iterations s24) * N * K * C * W * H) s24)"

definition iLAYER_CUDNN_CONV_FWD_Impl ::
  "dtype \<Rightarrow> cudnnConvolutionFwdAlgo_t \<Rightarrow> cudnnMathType_t \<Rightarrow> env \<Rightarrow> bench_state \<Rightarrow> outcome" where
  "iLAYER_CUDNN_CONV_FWD_Impl T convolution_algorithm math_type0 e state =
     (if \<not> has_cuda e then
        Normal (SkipWithError (CONV_FWD_NAME @ '' no CUDA device found'') state)
      else if CUDNN_SUPPORTS_TENSOR_OPS e
              \<and> (is_half_v T \<or> math_type0 = CUDNN_TENSOR_OP_MATH) \<and> \<not> SupportsTensorCore e then
        Normal (SkipWithError (CONV_FWD_NAME @ ''no Tensorcore support on current device'') state)
      else
        let math_type = (if CUDNN_SUPPORTS_TENSOR_OPS e
                         then (if is_half_v T then CUDNN_TENSOR_OP_MATH else math_type0) else 0);
            conv_mode = CUDNN_CROSS_CORRELATION;
            batch_size = range_arg state 0;
            channels = range_arg state 1;
            height = range_arg state 2;
            width = range_arg state 3;
            num_filters = range_arg state 4;
            filter_height = range_arg state 5;
            filter_width = range_arg state 6;
            pad_height = range_arg state 7;
            pad_width = range_arg state 8;
            stride_height = range_arg state 9;
            stride_width = range_arg state 10;
            dilation_height = range_arg state 11;
            dilation_width = range_arg state 12;
            group = (if range_arg state 13 = 0 then 1 else range_arg state 13)
        in
        checked e ''cudnnCreateConvolutionDescriptor'' 0 []
          (CONV_FWD_NAME @ '' failed to cudnnCreateConvolutionDescriptor'') state (\<lambda>s1.
        checked e ''cudnnSetConvolution2dDescriptor'' 0
          [sint pad_height, sint pad_width, sint stride_height, sint stride_width,
           sint dilation_height, sint dilation_width, conv_mode]
          (CONV_FWD_NAME @ '' failed to cudnnSetConvolution2dDescriptor'') s1 (\<lambda>s2.
        defer_call ''cudnnDestroyConvolutionDescriptor'' (
        checked_if (0 < sint group) e ''cudnnSetConvolutionGroupCount'' 0 [sint group]
          (CONV_FWD_NAME @ '' failed to cudnnSetConvolutionGroupCount'') s2 (\<lambda>s3.
        checked_if (CUDNN_SUPPORTS_TENSOR_OPS e) e ''cudnnSetConvolutionMathType'' 0 [math_type]
          (CONV_FWD_NAME @ '' failed to cudnnSetConvolutionMathType'') s3 (\<lambda>s4.
        with_tensor e ''x_tensor'' [sint batch_size, sint channels, sint height, sint width] s4 (\<lambda>s5.
        with_tensor e ''w_filter''
          [sint num_filters, sint channels, sint filter_height, sint filter_width, sint group] s5 (\<lambda>s6.
        checked e ''cudnnGetConvolution2dForwardOutputDim'' 0 []
          (CONV_FWD_NAME @ '' failed to cudnnGetConvolution2dForwardOutputDim because of ''
           @ error_string e CUDNN (api_status e ''cudnnGetConvolution2dForwardOutputDim'' 0)
           @ ''. x_shape = ['' @ string_of_int (sint batch_size) @ ''x'' @ string_of_int (sint channels)
           @ ''x'' @ string_of_int (sint height) @ ''x'' @ string_of_int (sint width)
           @ ''], w_shape=['' @ string_of_int (sint num_filters) @ ''x'' @ string_of_int (sint channels)
           @ ''x'' @ string_of_int (sint filter_width) @ ''x'' @ string_of_int (sint filter_height)
           @ ''], group='' @ string_of_int (sint group)) s6 (\<lambda>s7.
        case output_dim e of (out_n, out_c, out_h, out_w) \<Rightarrow>
        with_tensor e ''y_tensor'' [sint out_n, sint out_c, sint out_h, sint out_w] s7 (\<lambda>s8.
        let s9 = emit (Call ''cudnnGetConvolutionForwardAlgorithm'' []) s8;
            advised_convolution_algorithm =
              (if api_status e ''cudnnGetConvolutionForwardAlgorithm'' 0 \<noteq> 0 then - 1 else advised_algo e);
            s10 = (if T = Int8 then s9
                   else emit (Call ''cudnnGetConvolutionForwardWorkspaceSize'' [convolution_algorithm]) s9);
            workspace_bytes =
              (if T = Int8 then fallback_workspace_bytes
               else if PRINT_IF_ERROR (api_status e ''cudnnGetConvolutionForwardWorkspaceSize'' 0)
                    then fallback_workspace_bytes
                    else queried_bytes e ''workspace_bytes'');
            input_bytes = (ucast (batch_size * channels * height * width * sizeof T) :: int32);
            kernel_bytes = (ucast (num_filters * channels * filter_height * filter_width * sizeof T) :: int32)
        in
        with_vector e ''input'' ((scast input_bytes :: size_t) div sizeof T) s10 (\<lambda>s11.
        with_vector e ''kernel'' ((scast kernel_bytes :: size_t) div sizeof T) s11 (\<lambda>s12.
        let output_bytes = sizeof T * scast out_n * scast out_c * scast out_h * scast out_w in
        with_memory e ''workspace_memory'' workspace_bytes s12 (\<lambda>s13.
        with_memory e ''x_memory'' (scast input_bytes) s13 (\<lambda>s14.
        with_memory e ''w_memory'' (scast kernel_bytes) s14 (\<lambda>s15.
        with_memory e ''y_memory'' output_bytes s15 (\<lambda>s16.
        checked_if (CUDNN_SUPPORTS_TENSOR_OPS e) e ''cudnnSetConvolutionMathType'' 1 [math_type]
          (CONV_FWD_NAME @ '' failed to cudnnSetConvolutionMathType'') s16 (\<lambda>s17.
        Normal (conv_fwd_measure_and_report e convolution_algorithm
                  (conv_fwd_counters e convolution_algorithm math_type conv_mode
                     batch_size channels height width num_filters filter_height filter_width
                     pad_height pad_width stride_height stride_width dilation_height dilation_width
                     out_n out_c out_h out_w workspace_bytes advised_convolution_algorithm)
                  batch_size num_filters channels height width filter_height filter_width out_h out_w
                  group workspace_bytes advised_convolution_algorithm s17)
        )))))))))))))))))"

definition LAYER_CUDNN_CONV_FWD_Impl ::
  "dtype \<Rightarrow> cudnnConvolutionFwdAlgo_t \<Rightarrow> cudnnMathType_t \<Rightarrow> env \<Rightarrow> bench_state \<Rightarrow> bench_state" where
  "LAYER_CUDNN_CONV_FWD_Impl T convolution_algorithm math_type e state =
     try_catch CONV_FWD_NAME (iLAYER_CUDNN_CONV_FWD_Impl T convolution_algorithm math_type e state)"

subsection \<open>Backward convolution with respect to the data\<close>

definition CONV_BWD_DATA_NAME :: string where
  "CONV_BWD_DATA_NAME = ''CUDNN/CONV_BWD_DATA''"

definition conv_bwd_data_compute_flops ::
  "int64 \<Rightarrow> int64 \<Rightarrow> int64 \<Rightarrow> int64 \<Rightarrow> int64 \<Rightarrow> int64 \<Rightarrow> int64 \<Rightarrow> int32 \<Rightarrow> int32
     \<Rightarrow> cudnnConvolutionBwdDataAlgo_t \<Rightarrow> real" where
  "conv_bwd_data_compute_flops N K C H W R S P Q alg =
     (if alg = CUDNN_CONVOLUTION_BWD_DATA_ALGO_0 \<or> alg = CUDNN_CONVOLUTION_BWD_DATA_ALGO_1 then
        double_of_int64 K * double_of_int64 C * double_of_int64 R * double_of_int64 S
        * double_of_int64 N * double_of_int32 P * double_of_int32 Q
      else if alg = CUDNN_CONVOLUTION_BWD_DATA_ALGO_FFT
              \<or> alg = CUDNN_CONVOLUTION_BWD_DATA_ALGO_FFT_TILING then
        (double_of_int64 N * double_of_int64 C * double_of_int64 K * double_of_int64 H * double_of_int64 W)
        + (double_of_int64 N * double_of_int64 C + double_of_int64 C * double_of_int64 K
           + double_of_int64 N * double_of_int64 K)
          * (double_of_int64 H * double_of_int64 W)
          * log 2 (double_of_int64 H * double_of_int64 W)
      else - 1)"

text \<open>The same three parts: the counters (lines 637 to 663), the rest from the timed block on.\<close>

definition conv_bwd_data_counters ::
  "env \<Rightarrow> cudnnConvolutionBwdDataAlgo_t
     \<Rightarrow> int64 \<Rightarrow> int64 \<Rightarrow> int64 \<Rightarrow> int64 \<Rightarrow> int64 \<Rightarrow> int64 \<Rightarrow> int64
     \<Rightarrow> int64 \<Rightarrow> int64 \<Rightarrow> int64 \<Rightarrow> int64 \<Rightarrow> int64 \<Rightarrow> int64
     \<Rightarrow> int32 \<Rightarrow> int32 \<Rightarrow> int32 \<Rightarrow> int32 \<Rightarrow> size_t \<Rightarrow> int \<Rightarrow> (string \<times> counter) list" where
  "conv_bwd_data_counters e convolution_algorithm
     batch_size channels height width num_filters filter_height filter_width
     pad_height pad_width stride_height stride_width dilation_height dilation_width
     out_n out_c out_h out_w workspace_bytes advised_convolution_algorithm =
     [(''input_size'', plain (double_of_int64 (batch_size * channels * height * width))),
      (''input_batch_size'', plain (double_of_int64 batch_size)),
      (''input_channels'', plain (double_of_int64 channels)),
      (''input_height'', plain (double_of_int64 height)),
      (''input_width'', plain (double_of_int64 width)),
      (''num_filters'', plain (double_of_int64 num_filters)),
      (''filter_height'', plain (double_of_int64 filter_height)),
      (''filter_width'', plain (double_of_int64 filter_width)),
      (''pad_height'', plain (double_of_int64 pad_height)),
      (''pad_width'', plain (double_of_int64 pad_width)),
      (''stride_height'', plain (double_of_int64 stride_height)),
      (''stride_width'', plain (double_of_int64 stride_width)),
      (''dilation_height'', plain (double_of_int64 dilation_height)),
      (''dilation_width'', plain (double_of_int64 dilation_width)),
      (''output_size'', plain (double_of_int32 (out_n * out_c * out_h * out_w))),
      (''output_batch_size'', plain (double_of_int32 out_n)),
      (''output_channels'', plain (double_of_int32 out_c)),
      (''output_height'', plain (double_of_int32 out_h)),
      (''output_width'', plain (double_of_int32 out_w)),
      (''workspace_bytes'', plain (double_of_size_t workspace_bytes)),
      (''workspace_megabytes'', plain (double_of_size_t workspace_bytes / 1048576)),
      (''convolution_algorithm'', plain (real_of_int convolution_algorithm)),
      (''advised_convolution_algorithm'', plain (real_of_int advised_convolution_algorithm)),
      (''x_tensor_layout'', plain (real_of_int (layout_of e ''x_tensor''))),
      (''y_tensor_layout'', plain (real_of_int (layout_of e ''y_tensor''))),
      (''w_filter_layout'', plain (real_of_int (layout_of e ''w_filter''))),
      (''math_type'', plain 0)]"

definition conv_bwd_data_measure_and_report ::
  "env \<Rightarrow> cudnnConvolutionBwdDataAlgo_t \<Rightarrow> (string \<times> counter) list
     \<Rightarrow> int64 \<Rightarrow> int64 \<Rightarrow> int64 \<Rightarrow> int64 \<Rightarrow> int64 \<Rightarrow> int64 \<Rightarrow> int64 \<Rightarrow> int32 \<Rightarrow> int32
     \<Rightarrow> int64 \<Rightarrow> size_t \<Rightarrow> int \<Rightarrow> bench_state \<Rightarrow> bench_state" where
  "conv_bwd_data_measure_and_report e convolution_algorithm shape_counters N K C H W R S P Q
     group_count workspace_bytes advised_convolution_algorithm s17 =
     (let s18 = BENCHMARK_BLOCK e CONV_BWD_DATA_NAME CUDNN ''cudnnConvolutionBackwardData''
                  [convolution_algorithm, uint workspace_bytes] s17;
          s19 = counters_insert shape_counters s18;
          predicted_flops = conv_bwd_data_compute_flops N K C H W R S P Q convolution_algorithm
                            / double_of_int64 group_count;
          s20 = counters_insert
                  [(''predicted_flops_count'', plain predicted_flops),
                   (''predicted_flops'', (predicted_flops * real (iterations s19), kAvgThreadsRate))] s19;
          predicted_advised_flops =
            conv_bwd_data_compute_flops N K C H W R S P Q advised_convolution_algorithm;
          s21 = (if advised_convolution_algorithm \<noteq> - 1 then
                   counters_insert
                     [(''predicted_advised_flops_count'', plain predicted_advised_flops),
                      (''predicted_advised_flops'',
                       (predicted_advised_flops * real (iterations s20), kAvgThreadsRate))] s20
                 else s20);
          s22 = emit (Call ''cudnnFindConvolutionBackwardDataAlgorithm'' [10]) s21;
          s23 = (if PRINT_IF_ERROR (api_status e ''cudnnFindConvolutionBackwardDataAlgorithm'' 0) then
                   SkipWithError
                     (CONV_BWD_DATA_NAME @ '' failed to perform cudnnFindConvolutionBackwardDataAlgorithm'') s22
                 else s22);
          s24 = insert_perf_results convolution_algorithm (take 10 (perf_results e)) s23
      in SetItemsProcessed (word_of_nat (iterations s24) * N * K * C * W * H) s24)"

definition iLAYER_CUDNN_CONV_BWD_DATA_Impl ::
  "dtype \<Rightarrow> cudnnConvolutionBwdDataAlgo_t \<Rightarrow> cudnnMathType_t \<Rightarrow> env \<Rightarrow> bench_state \<Rightarrow> outcome" where
  "iLAYER_CUDNN_CONV_BWD_DATA_Impl T convolution_algorithm math_type e state =
     (if \<not> has_cuda e then
        Normal (SkipWithError (CONV_BWD_DATA_NAME @ '' no CUDA device found'') state)
      else if CUDNN_SUPPORTS_TENSOR_OPS e
              \<and> math_type = CUDNN_TENSOR_OP_MATH \<and> \<not> SupportsTensorCore e then
        Normal (SkipWithError (CONV_BWD_DATA_NAME @ ''no Tensorcore support on current device'') state)
      else
        let conv_mode = CUDNN_CONVOLUTION;
            batch_size = range_arg state 0;
            channels = range_arg state 1;
            height = range_arg state 2;
            width = range_arg state 3;
            num_filters = range_arg state 4;
            filter_width = range_arg state 5;
            filter_height = range_arg state 6;
            pad_width = range_arg state 7;
            pad_height = range_arg state 8;
            stride_width = range_arg state 9;
            stride_height = range_arg state 10;
            dilation_height = range_arg state 11;
            dilation_width = range_arg state 12;
            group = (if range_arg state 13 = 0 then 1 else range_arg state 13)
        in
        checked e ''cudnnCreateConvolutionDescriptor'' 0 []
          (CONV_BWD_DATA_NAME @ '' failed to cudnnCreateConvolutionDescriptor'') state (\<lambda>s1.
        checked e ''cudnnSetConvolution2dDescriptor'' 0
          [sint pad_height, sint pad_width, sint stride_height, sint stride_width,
           sint dilation_height, sint dilation_width, conv_mode]
          (CONV_BWD_DATA_NAME @ '' failed to cudnnSetConvolution2dDescriptor'') s1 (\<lambda>s2.
        defer_call ''cudnnDestroyConvolutionDescriptor'' (
        checked_if (CUDNN_SUPPORTS_TENSOR_OPS e) e ''cudnnSetConvolutionMathType'' 0 [math_type]
          (CONV_BWD_DATA_NAME @ '' failed to cudnnSetConvolutionMathType'') s2 (\<lambda>s3.
        checked e ''cudnnSetConvolutionGroupCount'' 0 [sint group]
          (CONV_BWD_DATA_NAME @ '' failed to cudnnSetConvolutionGroupCount'') s3 (\<lambda>s4.
        with_tensor e ''dx_tensor'' [sint batch_size, sint channels, sint height, sint width] s4 (\<lambda>s5.
        with_tensor e ''w_filter''
          [sint num_filters, sint channels, sint filter_height, sint filter_width] s5 (\<lambda>s6.
        checked e ''cudnnGetConvolution2dForwardOutputDim'' 0 []
          (CONV_BWD_DATA_NAME @ '' failed to cudnnGetConvolution2dForwardOutputDim because of ''
           @ error_string e CUDNN (api_status e ''cudnnGetConvolution2dForwardOutputDim'' 0)) s6 (\<lambda>s7.
        case output_dim e of (out_n, out_c, out_h, out_w) \<Rightarrow>
        with_tensor e ''dy_tensor'' [sint out_n, sint out_c, sint out_h, sint out_w] s7 (\<lambda>s8.
        let s9 = emit (Call ''cudnnGetConvolutionBackwardDataAlgorithm'' []) s8;
            advised_convolution_algorithm =
              (if IS_ERROR (api_status e ''cudnnGetConvolutionBackwardDataAlgorithm'' 0)
               then - 1 else advised_algo e);
            s10 = (if T = Int8 then s9
                   else emit (Call ''cudnnGetConvolutionBackwardDataWorkspaceSize'' [convolution_algorithm]) s9);
            workspace_bytes =
              (if T = Int8 then fallback_workspace_bytes
               else if PRINT_IF_ERROR (api_status e ''cudnnGetConvolutionBackwardDataWorkspaceSize'' 0)
                    then fallback_workspace_bytes
                    else queried_bytes e ''workspace_bytes'');
            input_bytes = (ucast (batch_size * channels * height * width * sizeof T) :: int32);
            kernel_bytes = (ucast (num_filters * channels * filter_height * filter_width * sizeof T) :: int32)
        in
        with_vector e ''input'' ((scast input_bytes :: size_t) div sizeof T) s10 (\<lambda>s11.
        with_vector e ''kernel'' ((scast kernel_bytes :: size_t) div sizeof T) s11 (\<lambda>s12.
        let output_bytes = sizeof T * scast out_n * scast out_c * scast out_h * scast out_w in
        with_vector e ''output'' (output_bytes div sizeof T) s12 (\<lambda>s13.
        with_memory e ''workspace_memory'' workspace_bytes s13 (\<lambda>s14.
        with_memory e ''w_memory'' (scast kernel_bytes) s14 (\<lambda>s15.
        with_memory e ''dy_memory'' output_bytes s15 (\<lambda>s16.
        with_memory e ''dx_memory'' (scast input_bytes) s16 (\<lambda>s17.
        Normal (conv_bwd_data_measure_and_report e convolution_algorithm
                  (conv_bwd_data_counters e convolution_algorithm
                     batch_size channels height width num_filters filter_height filter_width
                     pad_height pad_width stride_height stride_width dilation_height dilation_width
                     out_n out_c out_h out_w workspace_bytes advised_convolution_algorithm)
                  batch_size num_filters channels height width filter_height filter_width out_h out_w
                  group workspace_bytes advised_convolution_algorithm s17)
        )))))))))))))))))"

definition LAYER_CUDNN_CONV_BWD_DATA_Impl ::
  "dtype \<Rightarrow> cudnnConvolutionBwdDataAlgo_t \<Rightarrow> cudnnMathType_t \<Rightarrow> env \<Rightarrow> bench_state \<Rightarrow> bench_state" where
  "LAYER_CUDNN_CONV_BWD_DATA_Impl T convolution_algorithm math_type e state =
     try_catch CONV_BWD_DATA_NAME
       (iLAYER_CUDNN_CONV_BWD_DATA_Impl T convolution_algorithm math_type e state)"

subsection \<open>Forward convolution fused with bias and activation\<close>

definition CONV_BIAS_ACTIVATION_FWD_NAME :: string where
  "CONV_BIAS_ACTIVATION_FWD_NAME = ''CUDNN/CONV_BIAS_ACTIVATION_FWD''"

text \<open>The same three parts: the counters (lines 252 to 281), the rest from the timed block on.\<close>

definition conv_bias_activation_counters ::
  "env \<Rightarrow> cudnnConvolutionFwdAlgo_t \<Rightarrow> cudnnActivationMode_t \<Rightarrow> cudnnMathType_t \<Rightarrow> cudnnConvolutionMode_t
     \<Rightarrow> int64 \<Rightarrow> int64 \<Rightarrow> int64 \<Rightarrow> int64 \<Rightarrow> int64 \<Rightarrow> int64 \<Rightarrow> int64
     \<Rightarrow> int64 \<Rightarrow> int64 \<Rightarrow> int64 \<Rightarrow> int64 \<Rightarrow> int64 \<Rightarrow> int64
     \<Rightarrow> int32 \<Rightarrow> int32 \<Rightarrow> int32 \<Rightarrow> int32 \<Rightarrow> size_t \<Rightarrow> int \<Rightarrow> (string \<times> counter) list" where
  "conv_bias_activation_counters e convolution_algorithm activation_mode math_type conv_mode
     batch_size channels height width num_filters filter_height filter_width
     pad_height pad_width stride_height stride_width dilation_height dilation_width
     out_n out_c out_h out_w workspace_bytes advised_convolution_algorithm =
     [(''input_size'', plain (double_of_int64 (batch_size * channels * height * width))),
      (''input_batch_size'', plain (double_of_int64 batch_size)),
      (''input_channels'', plain (double_of_int64 channels)),
      (''input_height'', plain (double_of_int64 height)),
      (''input_width'', plain (double_of_int64 width)),
      (''num_filters'', plain (double_of_int64 num_filters)),
      (''filter_height'', plain (double_of_int64 filter_height)),
      (''filter_width'', plain (double_of_int64 filter_width)),
      (''pad_height'', plain (double_of_int64 pad_height)),
      (''pad_width'', plain (double_of_int64 pad_width)),
      (''stride_height'', plain (double_of_int64 stride_height)),
      (''stride_width'', plain (double_of_int64 stride_width)),
      (''dilation_height'', plain (double_of_int64 dilation_height)),
      (''dilation_width'', plain (double_of_int64 dilation_width)),
      (''output_size'', plain (double_of_int32 (out_n * out_c * out_h * out_w))),
      (''output_batch_size'', plain (double_of_int32 out_n)),
      (''output_channels'', plain (double_of_int32 out_c)),
      (''output_height'', plain (double_of_int32 out_h)),
      (''output_width'', plain (double_of_int32 out_w)),
      (''conv_mode'', plain (real_of_int conv_mode)),
      (''workspace_bytes'', plain (double_of_size_t workspace_bytes)),
      (''workspace_megabytes'', plain (double_of_size_t workspace_bytes / 1048576)),
      (''convolution_algorithm'', plain (real_of_int convolution_algorithm)),
      (''advised_convolution_algorithm'', plain (real_of_int advised_convolution_algorithm)),
      (''math_type'', plain (real_of_int math_type)),
      (''x_tensor_layout'', plain (real_of_int (layout_of e ''x_tensor''))),
      (''y_tensor_layout'', plain (real_of_int (layout_of e ''y_tensor''))),
      (''bias_tensor_layout'', plain (real_of_int (layout_of e ''bias_tensor''))),
      (''w_filter_layout'', plain (real_of_int (layout_of e ''w_filter''))),
      (''activation_mode'', plain (real_of_int activation_mode))]"

definition conv_bias_activation_measure_and_report ::
  "env \<Rightarrow> cudnnConvolutionFwdAlgo_t \<Rightarrow> (string \<times> counter) list
     \<Rightarrow> int64 \<Rightarrow> int64 \<Rightarrow> int64 \<Rightarrow> int64 \<Rightarrow> int64 \<Rightarrow> size_t \<Rightarrow> bench_state \<Rightarrow> bench_state" where
  "conv_bias_activation_measure_and_report e convolution_algorithm shape_counters N K C H W
     workspace_bytes s23 =
     (let s24 = BENCHMARK_BLOCK e CONV_BIAS_ACTIVATION_FWD_NAME CUDNN ''cudnnConvolutionBiasActivationForward''
                  [convolution_algorithm, uint workspace_bytes] s23;
          s25 = counters_insert shape_counters s24;
          s26 = emit (Call ''cudnnFindConvolutionForwardAlgorithm'' [20]) s25;
          s27 = (if PRINT_IF_ERROR (api_status e ''cudnnFindConvolutionForwardAlgorithm'' 0) then
                   SkipWithError
                     (CONV_BIAS_ACTIVATION_FWD_NAME @ '' failed to perform cudnnFindConvolutionForwardAlgorithm'') s26
                 else s26);
          s28 = insert_perf_results convolution_algorithm (take 20 (perf_results e)) s27
      in SetItemsProcessed (word_of_nat (iterations s28) * N * K * C * W * H) s28)"

definition iLAYER_CUDNN_CONV_BIAS_ACTIVATION_FWD_Impl ::
  "dtype \<Rightarrow> cudnnConvolutionFwdAlgo_t \<Rightarrow> cudnnActivationMode_t \<Rightarrow> cudnnMathType_t
     \<Rightarrow> env \<Rightarrow> bench_state \<Rightarrow> outcome" where
  "iLAYER_CUDNN_CONV_BIAS_ACTIVATION_FWD_Impl T convolution_algorithm activation_mode math_type0 e state =
     (if \<not> has_cuda e then
        Normal (SkipWithError (CONV_BIAS_ACTIVATION_FWD_NAME @ '' no CUDA device found'') state)
      else if CUDNN_SUPPORTS_TENSOR_OPS e
              \<and> (is_half_v T \<or> CUDNN_DEFAULT_MATH = CUDNN_TENSOR_OP_MATH) \<and> \<not> SupportsTensorCore e then
        Normal (SkipWithError
                  (CONV_BIAS_ACTIVATION_FWD_NAME @ ''no Tensorcore support on current device'') state)
      else
        let math_type = (if CUDNN_SUPPORTS_TENSOR_OPS e
                         then (if is_half_v T then CUDNN_TENSOR_OP_MATH else CUDNN_DEFAULT_MATH) else 0);
            batch_size = range_arg state 0;
            channels = range_arg state 1;
            height = range_arg state 2;
            width = range_arg state 3;
            num_filters = range_arg state 4;
            filter_width = range_arg state 5;
            filter_height = range_arg state 6;
            pad_width = range_arg state 7;
            pad_height = range_arg state 8;
            stride_width = range_arg state 9;
            stride_height = range_arg state 10;
            dilation_height = range_arg state 11;
            dilation_width = range_arg state 12;
            group = (if range_arg state 13 = 0 then 1 else range_arg state 13);
            conv_mode = CUDNN_CROSS_CORRELATION
        in
        checked e ''cudnnCreateConvolutionDescriptor'' 0 []
          (CONV_BIAS_ACTIVATION_FWD_NAME @ '' failed to cudnnCreateConvolutionDescriptor'') state (\<lambda>s1.
        checked e ''cudnnSetConvolution2dDescriptor'' 0
          [sint pad_height, sint pad_width, sint stride_height, sint stride_width,
           sint dilation_height, sint dilation_width, conv_mode]
          (CONV_BIAS_ACTIVATION_FWD_NAME @ '' failed to cudnnSetConvolution2dDescriptor'') s1 (\<lambda>s2.
        defer_call ''cudnnDestroyConvolutionDescriptor'' (
        checked e ''cudnnCreateActivationDescriptor'' 0 []
          (CONV_BIAS_ACTIVATION_FWD_NAME @ '' failed to cudnnCreateActivationDescriptor'') s2 (\<lambda>s3.
        checked e ''cudnnSetActivationDescriptor'' 0 [activation_mode]
          (CONV_BIAS_ACTIVATION_FWD_NAME @ '' failed to cudnnSetActivationDescriptor'') s3 (\<lambda>s4.
        defer_call ''cudnnDestroyActivationDescriptor'' (
        checked_if (0 < sint group) e ''cudnnSetConvolutionGroupCount'' 0 [sint group]
          (CONV_BIAS_ACTIVATION_FWD_NAME @ '' failed to cudnnSetConvolutionGroupCount'') s4 (\<lambda>s5.
        let s6 = (if CUDNN_SUPPORTS_TENSOR_OPS e
                  then emit (Call ''cudnnSetConvolutionMathType'' [math_type]) s5 else s5)
        in
        with_tensor e ''x_tensor'' [sint batch_size, sint channels, sint height, sint width] s6 (\<lambda>s7.
        with_tensor e ''w_filter''
          [sint num_filters, sint channels, sint filter_height, sint filter_width, sint group] s7 (\<lambda>s8.
        checked e ''cudnnGetConvolution2dForwardOutputDim'' 0 []
          (CONV_BIAS_ACTIVATION_FWD_NAME @ '' failed to cudnnGetConvolution2dForwardOutputDim because of ''
           @ error_string e CUDNN (api_status e ''cudnnGetConvolution2dForwardOutputDim'' 0)) s8 (\<lambda>s9.
        case output_dim e of (out_n, out_c, out_h, out_w) \<Rightarrow>
        with_tensor e ''y_tensor'' [sint out_n, sint out_c, sint out_h, sint out_w] s9 (\<lambda>s10.
        with_tensor e ''bias_tensor'' [1, sint out_c, 1, 1] s10 (\<lambda>s11.
        let s12 = emit (Call ''cudnnGetConvolutionForwardAlgorithm'' []) s11;
            advised_convolution_algorithm =
              (if api_status e ''cudnnGetConvolutionForwardAlgorithm'' 0 \<noteq> 0 then - 1 else advised_algo e);
            s13 = (if T = Int8 then s12
                   else emit (Call ''cudnnGetConvolutionForwardWorkspaceSize'' [convolution_algorithm]) s12);
            workspace_bytes =
              (if T = Int8 then fallback_workspace_bytes
               else if PRINT_IF_ERROR (api_status e ''cudnnGetConvolutionForwardWorkspaceSize'' 0)
                    then fallback_workspace_bytes
                    else queried_bytes e ''workspace_bytes'');
            input_bytes = (ucast (batch_size * channels * height * width * sizeof T) :: int32);
            kernel_bytes = (ucast (num_filters * channels * filter_height * filter_width * sizeof T) :: int32)
        in
        with_vector e ''input'' ((scast input_bytes :: size_t) div sizeof T) s13 (\<lambda>s14.
        with_vector e ''kernel'' ((scast kernel_bytes :: size_t) div sizeof T) s14 (\<lambda>s15.
        let output_bytes = sizeof T * scast out_n * scast out_c * scast out_h * scast out_w in
        with_vector e ''output'' (output_bytes div sizeof T) s15 (\<lambda>s16.
        let bias_bytes = sizeof T * 1 * scast out_c * 1 * 1 in
        with_vector e ''bias'' (bias_bytes div sizeof T) s16 (\<lambda>s17.
        with_memory e ''workspace_memory'' workspace_bytes s17 (\<lambda>s18.
        with_memory e ''x_memory'' (scast input_bytes) s18 (\<lambda>s19.
        with_memory e ''w_memory'' (scast kernel_bytes) s19 (\<lambda>s20.
        with_memory e ''y_memory'' output_bytes s20 (\<lambda>s21.
        with_memory e ''z_memory'' output_bytes s21 (\<lambda>s22.
        with_memory e ''bias_memory'' bias_bytes s22 (\<lambda>s23.
        Normal (conv_bias_activation_measure_and_report e convolution_algorithm
                  (conv_bias_activation_counters e convolution_algorithm activation_mode math_type conv_mode
                     batch_size channels height width num_filters filter_height filter_width
                     pad_height pad_width stride_height stride_width dilation_height dilation_width
                     out_n out_c out_h out_w workspace_bytes advised_convolution_algorithm)
                  batch_size num_filters channels height width workspace_bytes s23)
        )))))))))))))))))))))))"

definition LAYER_CUDNN_CONV_BIAS_ACTIVATION_FWD_Impl ::
  "dtype \<Rightarrow> cudnnConvolutionFwdAlgo_t \<Rightarrow> cudnnActivationMode_t \<Rightarrow> cudnnMathType_t
     \<Rightarrow> env \<Rightarrow> bench_state \<Rightarrow> bench_state" where
  "LAYER_CUDNN_CONV_BIAS_ACTIVATION_FWD_Impl T convolution_algorithm activation_mode math_type e state =
     try_catch CONV_BIAS_ACTIVATION_FWD_NAME
       (iLAYER_CUDNN_CONV_BIAS_ACTIVATION_FWD_Impl T convolution_algorithm activation_mode math_type e state)"

subsection \<open>Backward convolution with respect to the bias\<close>

definition CONV_BWD_BIAS_NAME :: string where
  "CONV_BWD_BIAS_NAME = ''CUDNN/CONV_BWD_BIAS''"

text \<open>This benchmark has no dispatcher around it: an exception leaves it.\<close>

definition LAYER_CUDNN_CONV_BWD_BIAS_Impl :: "dtype \<Rightarrow> env \<Rightarrow> bench_state \<Rightarrow> outcome" where
  "LAYER_CUDNN_CONV_BWD_BIAS_Impl T e state =
     (if \<not> has_cuda e then
        Normal (SkipWithError (CONV_BWD_BIAS_NAME @ '' no CUDA device found'') state)
      else
        let batch_size = range_arg state 0;
            channels = range_arg state 1;
            height = range_arg state 2;
            width = range_arg state 3;
            num_filters = range_arg state 4;
            filter_width = range_arg state 5;
            filter_height = range_arg state 6;
            pad_width = range_arg state 7;
            pad_height = range_arg state 8;
            stride_width = range_arg state 9;
            stride_height = range_arg state 10;
            dilation_height = range_arg state 11;
            dilation_width = range_arg state 12;
            out_n = batch_size;
            out_w = calc_conv_out_dim e width filter_width pad_width stride_width dilation_width;
            out_h = calc_conv_out_dim e height filter_height pad_height stride_height dilation_height;
            out_c = num_filters
        in
        with_tensor e ''db_tensor'' [sint out_c] state (\<lambda>s1.
        with_tensor e ''dy_tensor'' [sint out_n, sint out_c, sint out_h, sint out_w] s1 (\<lambda>s2.
        let output_bytes = sizeof T * out_n * out_c * out_h * out_w in
        with_vector e ''output'' (output_bytes div sizeof T) s2 (\<lambda>s3.
        let bias_bytes = (ucast (1 * out_c * 1 * 1 * sizeof T) :: int32) in
        with_vector e ''bias'' ((scast bias_bytes :: size_t) div sizeof T) s3 (\<lambda>s4.
        with_memory e ''dy_memory'' output_bytes s4 (\<lambda>s5.
        with_memory e ''db_memory'' (scast bias_bytes) s5 (\<lambda>s6.
        let s7 = BENCHMARK_BLOCK e CONV_BWD_BIAS_NAME CUDNN ''cudnnConvolutionBackwardBias'' [] s6;
            s8 = counters_insert
                   [(''input_size'', plain (double_of_int64 (batch_size * channels * height * width))),
                    (''input_height'', plain (double_of_int64 height)),
                    (''input_width'', plain (double_of_int64 width)),
                    (''input_channels'', plain (double_of_int64 channels)),
                    (''input_batch_size'', plain (double_of_int64 batch_size)),
                    (''num_filters'', plain (double_of_int64 num_filters)),
                    (''filter_height'', plain (double_of_int64 filter_height)),
                    (''filter_width'', plain (double_of_int64 filter_width)),
                    (''pad_height'', plain (double_of_int64 pad_height)),
                    (''pad_width'', plain (double_of_int64 pad_width)),
                    (''stride_height'', plain (double_of_int64 stride_height)),
                    (''stride_width'', plain (double_of_int64 stride_width)),
                    (''dilation_height'', plain (double_of_int64 dilation_height)),
                    (''dilation_width'', plain (double_of_int64 dilation_width)),
                    (''output_size'', plain (double_of_int64 (out_n * out_c * out_h * out_w))),
                    (''output_height'', plain (double_of_int64 out_h)),
                    (''output_width'', plain (double_of_int64 out_w)),
                    (''output_channels'', plain (double_of_int64 out_c)),
                    (''x_tensor_layout'', plain (real_of_int (layout_of e ''x_tensor''))),
                    (''y_tensor_layout'', plain (real_of_int (layout_of e ''y_tensor''))),
                    (''w_filter_layout'', plain (real_of_int (layout_of e ''w_filter''))),
                    (''output_batch_size'', plain (double_of_int64 out_n))] s7;
            N = batch_size; K = num_filters; C = channels; H = height; W = width
        in Normal (SetItemsProcessed (word_of_nat (iterations s8) * N * K * C * W * H) s8)
        )))))))"

section \<open>The element-wise benchmarks\<close>

subsection \<open>Backward pooling\<close>

text \<open>The file of the backward pooling benchmark defines its name as that of the forward one.\<close>

definition POOLING_BWD_NAME :: string where
  "POOLING_BWD_NAME = ''CUDNN/POOLING_FWD''"

definition iLAYER_CUDNN_POOLING_BWD_Impl :: "dtype \<Rightarrow> int \<Rightarrow> env \<Rightarrow> bench_state \<Rightarrow> outcome" where
  "iLAYER_CUDNN_POOLING_BWD_Impl T pooling_mode e state =
     (if \<not> has_cuda e then
        Normal (SkipWithError (POOLING_BWD_NAME @ '' no CUDA device found'') state)
      else
        let in_n = range_arg state 0;
            in_c = range_arg state 1;
            in_h = range_arg state 2;
            in_w = range_arg state 3;
            win_h = range_arg state 4;
            win_w = range_arg state 5;
            vert_padding = range_arg state 6;
            hori_padding = range_arg state 7;
            vert_stride = range_arg state 8;
            hori_stride = range_arg state 9
        in
        with_tensor e ''x_tensor'' [sint in_n, sint in_c, sint in_h, sint in_w] state (\<lambda>s1.
        checked e ''cudnnCreatePoolingDescriptor'' 0 []
          (POOLING_BWD_NAME @ '' failed to cudnnCreatePoolingDescriptor'') s1 (\<lambda>s2.
        checked e ''cudnnSetPooling2dDescriptor'' 0
          [pooling_mode, sint win_h, sint win_w, sint vert_padding, sint hori_padding,
           sint vert_stride, sint hori_stride]
          (POOLING_BWD_NAME @ '' failed to cudnnSetPooling2dDescriptor'') s2 (\<lambda>s3.
        defer_call ''cudnnDestroyPoolingDescriptor'' (
        checked e ''cudnnGetPooling2dForwardOutputDim'' 0 []
          (POOLING_BWD_NAME @ '' failed to cudnnGetPooling2dForwardOutputDim'') s3 (\<lambda>s4.
        case output_dim e of (out_n, out_c, out_h, out_w) \<Rightarrow>
        with_tensor e ''y_tensor'' [sint out_n, sint out_c, sint out_h, sint out_w] s4 (\<lambda>s5.
        let input_bytes = in_n * in_w * in_h * in_c * sizeof T in
        with_vector e ''input'' (input_bytes div sizeof T) s5 (\<lambda>s6.
        let output_bytes = scast (out_n * out_w * out_h * out_c) * sizeof T in
        with_vector e ''output'' (output_bytes div sizeof T) s6 (\<lambda>s7.
        with_memory e ''x_memory'' input_bytes s7 (\<lambda>s8.
        with_memory e ''dx_memory'' input_bytes s8 (\<lambda>s9.
        with_memory e ''y_memory'' output_bytes s9 (\<lambda>s10.
        let s11 = construct ''dy_memory'' [uint output_bytes] (memory_result e ''dy_memory'') s10 in
        if \<not> is_valid (memory_result e ''y_memory'') then Normal s11
        else
        let s12 = BENCHMARK_BLOCK e POOLING_BWD_NAME CUDNN ''cudnnPoolingBackward'' [] s11;
            s13 = counters_insert
                    [(''input_size'', plain (double_of_int64 (in_n * in_c * in_h * in_w))),
                     (''input_batch_size'', plain (double_of_int64 in_n)),
                     (''input_channels'', plain (double_of_int64 in_c)),
                     (''input_height'', plain (double_of_int64 in_h)),
                     (''input_width'', plain (double_of_int64 in_w)),
                     (''output_size'', plain (double_of_int32 (out_n * out_c * out_h * out_w))),
                     (''output_batch_size'', plain (double_of_int32 out_n)),
                     (''output_channels'', plain (double_of_int32 out_c)),
                     (''output_height'', plain (double_of_int32 out_h)),
                     (''output_width'', plain (double_of_int32 out_w)),
                     (''window_height'', plain (double_of_int64 win_h)),
                     (''window_width'', plain (double_of_int64 win_w)),
                     (''vertical_padding'', plain (double_of_int64 vert_padding)),
                     (''horizontal_padding'', plain (double_of_int64 hori_padding)),
                     (''vertical_stride'', plain (double_of_int64 vert_stride)),
                     (''horizontal_stride'', plain (double_of_int64 hori_stride)),
                     (''x_tensor_layout'', plain (real_of_int (layout_of e ''x_tensor''))),
                     (''y_tensor_layout'', plain (real_of_int (layout_of e ''y_tensor''))),
                     (''pooling_mode'', plain (real_of_int pooling_mode))] s12;
            predicted_flops = double_of_int64 (in_n * in_c * in_h * in_w);
            s14 = counters_insert
                    [(''predicted_flops_count'', plain predicted_flops),
                     (''predicted_flops'', (predicted_flops * real (iterations s13), kAvgThreadsRate))] s13
        in Normal (SetItemsProcessed (word_of_nat (iterations s14) * in_n * in_c * in_h * in_w) s14)
        ))))))))))))"

definition LAYER_CUDNN_POOLING_BWD_Impl :: "dtype \<Rightarrow> int \<Rightarrow> env \<Rightarrow> bench_state \<Rightarrow> bench_state" where
  "LAYER_CUDNN_POOLING_BWD_Impl T pooling_mode e state =
     try_catch POOLING_BWD_NAME (iLAYER_CUDNN_POOLING_BWD_Impl T pooling_mode e state)"

subsection \<open>Backward activation\<close>

definition ACTIVATION_BWD_NAME :: string where
  "ACTIVATION_BWD_NAME = ''CUDNN/ACTIVATION_BWD''"

definition activation_compute_flops ::
  "int64 \<Rightarrow> int64 \<Rightarrow> int64 \<Rightarrow> int64 \<Rightarrow> cudnnActivationMode_t \<Rightarrow> real" where
  "activation_compute_flops in_n in_c in_h in_w mode =
     (if mode = CUDNN_ACTIVATION_IDENTITY then 0
      else if mode = CUDNN_ACTIVATION_SIGMOID \<or> mode = CUDNN_ACTIVATION_RELU
              \<or> mode = CUDNN_ACTIVATION_TANH \<or> mode = CUDNN_ACTIVATION_CLIPPED_RELU
              \<or> mode = CUDNN_ACTIVATION_ELU then
        double_of_int64 (in_n * in_c * in_h * in_w)
      else - 1)"

text \<open>This benchmark has no dispatcher around it either.\<close>

definition LAYER_CUDNN_ACTIVATION_BWD_Impl ::
  "dtype \<Rightarrow> cudnnActivationMode_t \<Rightarrow> env \<Rightarrow> bench_state \<Rightarrow> outcome" where
  "LAYER_CUDNN_ACTIVATION_BWD_Impl T activation_mode e state =
     (if \<not> has_cuda e then
        Normal (SkipWithError (ACTIVATION_BWD_NAME @ '' no CUDA device found'') state)
      else
        let in_n = range_arg state 0;
            in_c = range_arg state 1;
            in_h = (if range_arg state 2 = - 1 then 1 else range_arg state 2);
            in_w = (if range_arg state 3 = - 1 then 1 else range_arg state 3);
            out_n = in_n; out_c = in_c; out_h = in_h; out_w = in_w
        in
        with_tensor e ''x_tensor'' [sint in_n, sint in_c, sint in_h, sint in_w] state (\<lambda>s1.
        let input_bytes = in_n * in_c * in_w * in_h * sizeof T in
        with_vector e ''input'' (input_bytes div sizeof T) s1 (\<lambda>s2.
        with_memory e ''x_memory'' input_bytes s2 (\<lambda>s3.
        with_memory e ''dx_memory'' input_bytes s3 (\<lambda>s4.
        with_memory e ''y_memory'' input_bytes s4 (\<lambda>s5.
        with_memory e ''dy_memory'' input_bytes s5 (\<lambda>s6.
        checked e ''cudnnCreateActivationDescriptor'' 0 []
          (ACTIVATION_BWD_NAME @ '' failed to cudnnCreateActivationDescriptor'') s6 (\<lambda>s7.
        checked e ''cudnnSetActivationDescriptor'' 0 [activation_mode]
          (ACTIVATION_BWD_NAME @ '' failed to cudnnSetActivationDescriptor'') s7 (\<lambda>s8.
        let s9 = BENCHMARK_BLOCK e ACTIVATION_BWD_NAME CUDNN ''cudnnActivationBackward'' [] s8;
            s10 = counters_insert
                    [(''input_size'', plain (double_of_int64 (in_n * in_c * in_h * in_w))),
                     (''input_batch_size'', plain (double_of_int64 in_n)),
                     (''input_channels'', plain (double_of_int64 in_c)),
                     (''input_height'', plain (double_of_int64 in_h)),
                     (''input_width'', plain (double_of_int64 in_w)),
                     (''output_size'', plain (double_of_int64 (out_n * out_c * out_h * out_w))),
                     (''output_batch_size'', plain (double_of_int64 out_n)),
                     (''output_channels'', plain (double_of_int64 out_c)),
                     (''output_height'', plain (double_of_int64 out_h)),
                     (''output_width'', plain (double_of_int64 out_w)),
                     (''x_tensor_layout'', plain (real_of_int (layout_of e ''x_tensor''))),
                     (''activation_mode'', plain (real_of_int activation_mode))] s9;
            predicted_flops = activation_compute_flops in_n in_c in_h in_w activation_mode;
            s11 = counters_insert
                    [(''predicted_flops_count'', plain predicted_flops),
                     (''predicted_flops'', (predicted_flops * real (iterations s10), kAvgThreadsRate))] s10
        in Normal (SetItemsProcessed (word_of_nat (iterations s11) * in_n * in_c * in_h * in_w) s11)
        )))))))))"

definition LAYER_CUDNN_IDENTITY_BWD_Impl ::
  "dtype \<Rightarrow> cudnnActivationMode_t \<Rightarrow> env \<Rightarrow> bench_state \<Rightarrow> outcome" where
  "LAYER_CUDNN_IDENTITY_BWD_Impl T activation_mode e state =
     LAYER_CUDNN_ACTIVATION_BWD_Impl T activation_mode e state"

subsection \<open>Forward dropout\<close>

definition DROPOUT_FWD_NAME :: string where
  "DROPOUT_FWD_NAME = ''CUDNN/DROPOUT_FWD''"

definition iLAYER_CUDNN_DROPOUT_FWD_Impl :: "dtype \<Rightarrow> env \<Rightarrow> bench_state \<Rightarrow> outcome" where
  "iLAYER_CUDNN_DROPOUT_FWD_Impl T e state =
     (if \<not> has_cuda e then
        Normal (SkipWithError (DROPOUT_FWD_NAME @ '' no CUDA device found'') state)
      else
        let in_n = range_arg state 0;
            in_c = range_arg state 1;
            in_h = (if range_arg state 2 = - 1 then 1 else range_arg state 2);
            in_w = (if range_arg state 3 = - 1 then 1 else range_arg state 3);
            dropout = (1 / 2 :: real);
            out_n = in_n; out_c = in_c; out_h = in_h; out_w = in_w
        in
        with_tensor e ''x_tensor'' [sint in_n, sint in_c, sint in_h, sint in_w] state (\<lambda>s1.
        checked e ''cudnnCreateDropoutDescriptor'' 0 []
          (DROPOUT_FWD_NAME @ '' failed to cudnnCreateDropoutDescriptor'') s1 (\<lambda>s2.
        checked e ''cudnnDropoutGetStatesSize'' 0 []
          (DROPOUT_FWD_NAME @ '' failed to cudnnDropoutGetStatesSize'') s2 (\<lambda>s3.
        let states_bytes = queried_bytes e ''states_bytes'' in
        with_memory e ''states_memory'' states_bytes s3 (\<lambda>s4.
        checked e ''cudnnSetDropoutDescriptor'' 0 [uint states_bytes, 0]
          (DROPOUT_FWD_NAME @ '' failed to cudnnSetDropoutDescriptor'') s4 (\<lambda>s5.
        defer_call ''cudnnDestroyDropoutDescriptor'' (
        checked e ''cudnnDropoutGetReserveSpaceSize'' 0 []
          (DROPOUT_FWD_NAME @ '' failed to cudnnDropoutGetStatesSize'') s5 (\<lambda>s6.
        let reserve_space_bytes = queried_bytes e ''reserve_space_bytes'' in
        with_memory e ''reserve_space_memory'' reserve_space_bytes s6 (\<lambda>s7.
        let input_bytes = in_n * in_w * in_h * in_c * sizeof T in
        with_vector e ''input'' (input_bytes div sizeof T) s7 (\<lambda>s8.
        with_memory e ''x_memory'' input_bytes s8 (\<lambda>s9.
        with_memory e ''y_memory'' input_bytes s9 (\<lambda>s10.
        let s11 = BENCHMARK_BLOCK e DROPOUT_FWD_NAME CUDNN ''cudnnDropoutForward''
                    [uint reserve_space_bytes] s10;
            s12 = counters_insert
                    [(''input_size'', plain (double_of_int64 (in_n * in_c * in_h * in_w))),
                     (''input_batch_size'', plain (double_of_int64 in_n)),
                     (''input_channels'', plain (double_of_int64 in_c)),
                     (''input_height'', plain (double_of_int64 in_h)),
                     (''input_width'', plain (double_of_int64 in_w)),
                     (''output_size'', plain (double_of_int64 (out_n * out_c * out_h * out_w))),
                     (''output_batch_size'', plain (double_of_int64 out_n)),
                     (''output_channels'', plain (double_of_int64 out_c)),
                     (''output_height'', plain (double_of_int64 out_h)),
                     (''output_width'', plain (double_of_int64 out_w)),
                     (''x_tensor_layout'', plain (real_of_int (layout_of e ''x_tensor''))),
                     (''dropout'', plain dropout)] s11;
            predicted_flops = double_of_int64 (in_n * in_c * in_h * in_w);
            s13 = counters_insert
                    [(''predicted_flops_count'', plain predicted_flops),
                     (''predicted_flops'', (predicted_flops * real (iterations s12), kAvgThreadsRate))] s12
        in Normal (SetItemsProcessed (word_of_nat (iterations s13) * in_n * in_c * in_h * in_w) s13)
        ))))))))))))"

definition LAYER_CUDNN_DROPOUT_FWD_Impl :: "dtype \<Rightarrow> env \<Rightarrow> bench_state \<Rightarrow> bench_state" where
  "LAYER_CUDNN_DROPOUT_FWD_Impl T e state =
     try_catch DROPOUT_FWD_NAME (iLAYER_CUDNN_DROPOUT_FWD_Impl T e state)"

section \<open>The vocabulary of the statements\<close>

text \<open>
  An iteration of the timed loop fails when the timed vendor call, the synchronisation
  on the stop event or the reading of the elapsed time returns an error. Of \<open>n\<close>
  iterations to run from iteration \<open>i\<close> on, \<open>iterations_begun\<close> are entered (the loop is
  left in the first one that fails) and \<open>iterations_timed\<close> hand a time to the library.
\<close>

definition iteration_fails :: "env \<Rightarrow> string \<Rightarrow> nat \<Rightarrow> bool" where
  "iteration_fails e name i =
     (IS_ERROR (api_status e name i) \<or> IS_ERROR (api_status e ''cudaEventSynchronize'' i)
      \<or> IS_ERROR (api_status e ''cudaEventElapsedTime'' i))"

fun iterations_begun :: "(nat \<Rightarrow> bool) \<Rightarrow> nat \<Rightarrow> nat \<Rightarrow> nat" where
  "iterations_begun fails i 0 = 0"
| "iterations_begun fails i (Suc n) = (if fails i then 1 else Suc (iterations_begun fails (Suc i) n))"

fun iterations_timed :: "(nat \<Rightarrow> bool) \<Rightarrow> nat \<Rightarrow> nat \<Rightarrow> nat" where
  "iterations_timed fails i 0 = 0"
| "iterations_timed fails i (Suc n) = (if fails i then 0 else Suc (iterations_timed fails (Suc i) n))"

text \<open>The calls of one iteration, in order: the timed call stands between the two event records.\<close>

definition iteration_events :: "env \<Rightarrow> string \<Rightarrow> int list \<Rightarrow> nat \<Rightarrow> event list" where
  "iteration_events e name args i =
     [Call ''cudaEventRecord(start)'' [], Call name args, Call ''cudaEventRecord(stop)'' [],
      Call ''cudaEventSynchronize'' []]
     @ (if IS_ERROR (api_status e name i) \<or> IS_ERROR (api_status e ''cudaEventSynchronize'' i)
        then [] else [Call ''cudaEventElapsedTime'' []])"

definition loop_events :: "env \<Rightarrow> string \<Rightarrow> int list \<Rightarrow> nat \<Rightarrow> event list" where
  "loop_events e name args n =
     concat (map (iteration_events e name args) [0..<iterations_begun (iteration_fails e name) 0 n])"

definition loop_times :: "env \<Rightarrow> string \<Rightarrow> nat \<Rightarrow> real list" where
  "loop_times e name n =
     map (\<lambda>i. elapsed_msec e i / 1000) [0..<iterations_timed (iteration_fails e name) 0 n]"

definition is_call_of :: "string \<Rightarrow> event \<Rightarrow> bool" where
  "is_call_of name ev = (case ev of Call n args \<Rightarrow> n = name | Construct n sizes \<Rightarrow> False)"

text \<open>What the setup of a benchmark needs from the environment to reach the timed loop.\<close>

definition calls_succeed :: "env \<Rightarrow> (string \<times> nat) list \<Rightarrow> bool" where
  "calls_succeed e sites = list_all (\<lambda>(name, k). \<not> IS_ERROR (api_status e name k)) sites"

definition tensors_valid :: "env \<Rightarrow> string list \<Rightarrow> bool" where
  "tensors_valid e names = list_all (\<lambda>name. tensor_result e name = Valid) names"

definition memories_valid :: "env \<Rightarrow> string list \<Rightarrow> bool" where
  "memories_valid e names = list_all (\<lambda>name. memory_result e name = Valid) names"

definition vectors_built :: "env \<Rightarrow> string list \<Rightarrow> bool" where
  "vectors_built e names = list_all (\<lambda>name. vector_exn e name = (\<lambda>n. None)) names"

definition scale_tensor_setup_ok :: "env \<Rightarrow> bool" where
  "scale_tensor_setup_ok e =
     (has_cuda e \<and> tensors_valid e [''input_tensor''] \<and> vectors_built e [''input'']
      \<and> memories_valid e [''input_memory''])"

definition batchnorm_fwd_setup_ok :: "env \<Rightarrow> bool" where
  "batchnorm_fwd_setup_ok e =
     (has_cuda e \<and> tensors_valid e [''x_tensor'']
      \<and> calls_succeed e [(''cudnnCreateTensorDescriptor'', 0), (''cudnnDeriveBNTensorDescriptor'', 0),
                          (''cudnnGetTensorSizeInBytes'', 0)]
      \<and> vectors_built e [''scale_bias'', ''input'']
      \<and> memories_valid e [''x_memory'', ''y_memory'', ''scale_memory'', ''bias_memory'',
                            ''batch_mean_memory'', ''batch_var_memory'', ''saved_mean_memory'',
                            ''saved_in_var_memory'', ''estimated_mean_memory'', ''estimated_var_memory''])"

definition gemm_fwd_setup_ok :: "env \<Rightarrow> bool" where
  "gemm_fwd_setup_ok e =
     (has_cuda e \<and> vectors_built e [''a'', ''b'', ''c'']
      \<and> calls_succeed e [(''cublasSetMathMode'', 0), (''cudaMalloc'', 0), (''cudaMalloc'', 1),
                          (''cudaMalloc'', 2), (''cublasSetMatrix'', 0), (''cublasSetMatrix'', 1),
                          (''cublasSetMatrix'', 2)])"

text \<open>
  For the forward convolution: the helpers and vectors, and the calls whose error the
  benchmark answers by skipping. The two queries
  \<open>cudnnGetConvolutionForwardAlgorithm\<close> and \<open>cudnnGetConvolutionForwardWorkspaceSize\<close>
  are in neither list.
\<close>

definition conv_fwd_helpers_ok :: "dtype \<Rightarrow> cudnnMathType_t \<Rightarrow> env \<Rightarrow> bool" where
  "conv_fwd_helpers_ok T math_type0 e =
     (has_cuda e
      \<and> \<not> (CUDNN_SUPPORTS_TENSOR_OPS e \<and> (is_half_v T \<or> math_type0 = CUDNN_TENSOR_OP_MATH)
            \<and> \<not> SupportsTensorCore e)
      \<and> tensors_valid e [''x_tensor'', ''w_filter'', ''y_tensor'']
      \<and> vectors_built e [''input'', ''kernel'']
      \<and> memories_valid e [''workspace_memory'', ''x_memory'', ''w_memory'', ''y_memory''])"

definition conv_fwd_setup_calls :: "env \<Rightarrow> bench_state \<Rightarrow> (string \<times> nat) list" where
  "conv_fwd_setup_calls e st =
     [(''cudnnCreateConvolutionDescriptor'', 0), (''cudnnSetConvolution2dDescriptor'', 0)]
     @ (if 0 < sint (if range_arg st 13 = 0 then 1 else range_arg st 13)
        then [(''cudnnSetConvolutionGroupCount'', 0)] else [])
     @ (if CUDNN_SUPPORTS_TENSOR_OPS e
        then [(''cudnnSetConvolutionMathType'', 0), (''cudnnSetConvolutionMathType'', 1)] else [])
     @ [(''cudnnGetConvolution2dForwardOutputDim'', 0)]"

definition conv_fwd_setup_ok :: "dtype \<Rightarrow> cudnnMathType_t \<Rightarrow> env \<Rightarrow> bench_state \<Rightarrow> bool" where
  "conv_fwd_setup_ok T math_type0 e st =
     (conv_fwd_helpers_ok T math_type0 e \<and> calls_succeed e (conv_fwd_setup_calls e st))"

definition conv_fwd_checked_calls_succeed :: "env \<Rightarrow> bench_state \<Rightarrow> bool" where
  "conv_fwd_checked_calls_succeed e st =
     (calls_succeed e (conv_fwd_setup_calls e st)
      \<and> iterations_timed (iteration_fails e ''cudnnConvolutionForward'') 0 (max_iterations st)
          = iterations_begun (iteration_fails e ''cudnnConvolutionForward'') 0 (max_iterations st)
      \<and> calls_succeed e [(''cudnnFindConvolutionForwardAlgorithm'', 0)])"

text \<open>The same for the backward convolution with respect to the data.\<close>

definition conv_bwd_data_helpers_ok :: "cudnnMathType_t \<Rightarrow> env \<Rightarrow> bool" where
  "conv_bwd_data_helpers_ok math_type e =
     (has_cuda e
      \<and> \<not> (CUDNN_SUPPORTS_TENSOR_OPS e \<and> math_type = CUDNN_TENSOR_OP_MATH \<and> \<not> SupportsTensorCore e)
      \<and> tensors_valid e [''dx_tensor'', ''w_filter'', ''dy_tensor'']
      \<and> vectors_built e [''input'', ''kernel'', ''output'']
      \<and> memories_valid e [''workspace_memory'', ''w_memory'', ''dy_memory'', ''dx_memory''])"

definition conv_bwd_data_setup_calls :: "env \<Rightarrow> (string \<times> nat) list" where
  "conv_bwd_data_setup_calls e =
     [(''cudnnCreateConvolutionDescriptor'', 0), (''cudnnSetConvolution2dDescriptor'', 0)]
     @ (if CUDNN_SUPPORTS_TENSOR_OPS e then [(''cudnnSetConvolutionMathType'', 0)] else [])
     @ [(''cudnnSetConvolutionGroupCount'', 0), (''cudnnGetConvolution2dForwardOutputDim'', 0)]"

definition conv_bwd_data_setup_ok :: "cudnnMathType_t \<Rightarrow> env \<Rightarrow> bool" where
  "conv_bwd_data_setup_ok math_type e =
     (conv_bwd_data_helpers_ok math_type e \<and> calls_succeed e (conv_bwd_data_setup_calls e))"

definition conv_bwd_data_checked_calls_succeed :: "env \<Rightarrow> bench_state \<Rightarrow> bool" where
  "conv_bwd_data_checked_calls_succeed e st =
     (calls_succeed e (conv_bwd_data_setup_calls e)
      \<and> iterations_timed (iteration_fails e ''cudnnConvolutionBackwardData'') 0 (max_iterations st)
          = iterations_begun (iteration_fails e ''cudnnConvolutionBackwardData'') 0 (max_iterations st)
      \<and> calls_succeed e [(''cudnnFindConvolutionBackwardDataAlgorithm'', 0)])"

text \<open>
  The same for the fused forward convolution, where the status of
  \<open>cudnnSetConvolutionMathType\<close> is not looked at either.
\<close>

definition conv_bias_activation_helpers_ok :: "dtype \<Rightarrow> env \<Rightarrow> bool" where
  "conv_bias_activation_helpers_ok T e =
     (has_cuda e
      \<and> \<not> (CUDNN_SUPPORTS_TENSOR_OPS e \<and> (is_half_v T \<or> CUDNN_DEFAULT_MATH = CUDNN_TENSOR_OP_MATH)
            \<and> \<not> SupportsTensorCore e)
      \<and> tensors_valid e [''x_tensor'', ''w_filter'', ''y_tensor'', ''bias_tensor'']
      \<and> vectors_built e [''input'', ''kernel'', ''output'', ''bias'']
      \<and> memories_valid e [''workspace_memory'', ''x_memory'', ''w_memory'', ''y_memory'',
                            ''z_memory'', ''bias_memory''])"

definition conv_bias_activation_setup_calls :: "bench_state \<Rightarrow> (string \<times> nat) list" where
  "conv_bias_activation_setup_calls st =
     [(''cudnnCreateConvolutionDescriptor'', 0), (''cudnnSetConvolution2dDescriptor'', 0),
      (''cudnnCreateActivationDescriptor'', 0), (''cudnnSetActivationDescriptor'', 0)]
     @ (if 0 < sint (if range_arg st 13 = 0 then 1 else range_arg st 13)
        then [(''cudnnSetConvolutionGroupCount'', 0)] else [])
     @ [(''cudnnGetConvolution2dForwardOutputDim'', 0)]"

definition conv_bias_activation_setup_ok :: "dtype \<Rightarrow> env \<Rightarrow> bench_state \<Rightarrow> bool" where
  "conv_bias_activation_setup_ok T e st =
     (conv_bias_activation_helpers_ok T e \<and> calls_succeed e (conv_bias_activation_setup_calls st))"

definition conv_bias_activation_checked_calls_succeed :: "env \<Rightarrow> bench_state \<Rightarrow> bool" where
  "conv_bias_activation_checked_calls_succeed e st =
     (calls_succeed e (conv_bias_activation_setup_calls st)
      \<and> iterations_timed (iteration_fails e ''cudnnConvolutionBiasActivationForward'') 0 (max_iterations st)
          = iterations_begun (iteration_fails e ''cudnnConvolutionBiasActivationForward'') 0 (max_iterations st)
      \<and> calls_succeed e [(''cudnnFindConvolutionForwardAlgorithm'', 0)])"

text \<open>
  For the backward pooling, what its body checks on the way to the timed loop: the
  fourth buffer, \<open>dy_memory\<close>, is not among the buffers it checks.
\<close>

definition pooling_bwd_setup_ok :: "env \<Rightarrow> bool" where
  "pooling_bwd_setup_ok e =
     (has_cuda e \<and> tensors_valid e [''x_tensor'', ''y_tensor'']
      \<and> calls_succeed e [(''cudnnCreatePoolingDescriptor'', 0), (''cudnnSetPooling2dDescriptor'', 0),
                          (''cudnnGetPooling2dForwardOutputDim'', 0)]
      \<and> vectors_built e [''input'', ''output'']
      \<and> memories_valid e [''x_memory'', ''dx_memory'', ''y_memory''])"

definition activation_bwd_setup_ok :: "env \<Rightarrow> bool" where
  "activation_bwd_setup_ok e =
     (has_cuda e \<and> tensors_valid e [''x_tensor''] \<and> vectors_built e [''input'']
      \<and> memories_valid e [''x_memory'', ''dx_memory'', ''y_memory'', ''dy_memory'']
      \<and> calls_succeed e [(''cudnnCreateActivationDescriptor'', 0), (''cudnnSetActivationDescriptor'', 0)])"

definition dropout_fwd_setup_ok :: "env \<Rightarrow> bool" where
  "dropout_fwd_setup_ok e =
     (has_cuda e \<and> tensors_valid e [''x_tensor'']
      \<and> calls_succeed e [(''cudnnCreateDropoutDescriptor'', 0), (''cudnnDropoutGetStatesSize'', 0),
                          (''cudnnSetDropoutDescriptor'', 0), (''cudnnDropoutGetReserveSpaceSize'', 0)]
      \<and> vectors_built e [''input'']
      \<and> memories_valid e [''states_memory'', ''reserve_space_memory'', ''x_memory'', ''y_memory''])"

definition conv_bwd_bias_setup_ok :: "env \<Rightarrow> bool" where
  "conv_bwd_bias_setup_ok e =
     (has_cuda e \<and> tensors_valid e [''db_tensor'', ''dy_tensor'']
      \<and> vectors_built e [''output'', ''bias'']
      \<and> memories_valid e [''dy_memory'', ''db_memory''])"

text \<open>A case left at once: skipped with the message, and nothing else of the state touched.\<close>

definition skipped_without_calls :: "string \<Rightarrow> bench_state \<Rightarrow> bench_state \<Rightarrow> bool" where
  "skipped_without_calls msg st st' =
     (error_occurred st'
      \<and> error_message st' = (if error_occurred st then error_message st else msg)
      \<and> trace st' = trace st \<and> counters st' = counters st
      \<and> items_processed st' = items_processed st \<and> manual_times st' = manual_times st
      \<and> started st' = started st)"

fun returns_normally :: "outcome \<Rightarrow> bool" where
  "returns_normally (Normal st) = True"
| "returns_normally (Thrown x st) = False"

text \<open>The message a dispatcher hands to \<open>SkipWithError\<close> for what it caught.\<close>

fun exception_message :: "string \<Rightarrow> exn \<Rightarrow> string" where
  "exception_message name (Std_exception what) = ''Exception in '' @ name @ what"
| "exception_message name (Std_string e) = ''Exception in '' @ name @ e"
| "exception_message name Other_exception = ''unknown exception in '' @ name"

text \<open>
  A case that ran all its iterations and reported, as items processed, that number of
  iterations times the shape product (in 64-bit arithmetic, as the code computes it).
\<close>

definition items_are :: "bench_state \<Rightarrow> bench_state \<Rightarrow> int64 \<Rightarrow> bool" where
  "items_are st st' shape =
     (iterations st' = max_iterations st
      \<and> items_processed st' = word_of_nat (iterations st') * shape)"

text \<open>A counter of plain flags (\<open>benchmark::Counter\<close> built from a number) with a given value.\<close>

definition counter_is :: "bench_state \<Rightarrow> string \<Rightarrow> real \<Rightarrow> bool" where
  "counter_is st name v = (counters st name = Some (plain v))"

text \<open>A list of counters of plain flags, each with its value.\<close>

definition counters_are :: "bench_state \<Rightarrow> (string \<times> real) list \<Rightarrow> bool" where
  "counters_are st kvs = list_all (\<lambda>(name, v). counter_is st name v) kvs"

text \<open>
  The iterations the range-based loop of a case is going to start: none when the case
  has been skipped before the loop.
\<close>

definition iterations_to_run :: "bench_state \<Rightarrow> nat" where
  "iterations_to_run st = (if error_occurred st then 0 else max_iterations st)"

text \<open>The calls that time an iteration, as opposed to the call that is timed.\<close>

definition timing_calls :: "string list" where
  "timing_calls = [''cudaEventRecord(start)'', ''cudaEventRecord(stop)'', ''cudaEventSynchronize'',
                   ''cudaEventElapsedTime'']"

text \<open>
  What two of the benchmarks do before their timed loop when their setup succeeds:
  the helper objects they build and the vendor calls they make, in order.
\<close>

definition scale_tensor_setup_events :: "dtype \<Rightarrow> bench_state \<Rightarrow> event list" where
  "scale_tensor_setup_events T st =
     [Construct ''input_tensor''
        [sint (range_arg st 0), sint (range_arg st 1), sint (range_arg st 2), sint (range_arg st 3)],
      Construct ''input_memory''
        [uint (sizeof T * range_arg st 0 * range_arg st 3 * range_arg st 2 * range_arg st 1)],
      Call ''cudaEventCreate(start)'' [], Call ''cudaEventCreate(stop)'' []]"

definition gemm_fwd_setup_events :: "dtype \<Rightarrow> bench_state \<Rightarrow> event list" where
  "gemm_fwd_setup_events T st =
     [Call ''cublasSetMathMode'' [if is_half_v T then 1 else 0],
      Call ''cudaMalloc'' [uint (range_arg st 0 * range_arg st 2 * sizeof T)],
      Call ''cudaMalloc'' [uint (range_arg st 2 * range_arg st 1 * sizeof T)],
      Call ''cudaMalloc'' [uint (range_arg st 0 * range_arg st 1 * sizeof T)],
      Call ''cublasSetMatrix'' [sint (narrow (range_arg st 0)), sint (narrow (range_arg st 2))],
      Call ''cublasSetMatrix'' [sint (narrow (range_arg st 2)), sint (narrow (range_arg st 1))],
      Call ''cublasSetMatrix'' [sint (narrow (range_arg st 0)), sint (narrow (range_arg st 1))],
      Call ''cudaEventCreate(start)'' [], Call ''cudaEventCreate(stop)'' []]"

text \<open>
  The first iteration that fails, of \<open>n\<close> iterations from iteration \<open>i\<close> on, and the
  message a timed loop gives to \<open>SkipWithError\<close> in an iteration that fails: that of
  the timed call when it is the one that failed, else that of the synchronisation, else
  the one for the elapsed time.
\<close>

fun first_failure :: "(nat \<Rightarrow> bool) \<Rightarrow> nat \<Rightarrow> nat \<Rightarrow> nat option" where
  "first_failure fails i 0 = None"
| "first_failure fails i (Suc n) = (if fails i then Some i else first_failure fails (Suc i) n)"

definition failure_message ::
  "env \<Rightarrow> (library \<Rightarrow> status \<Rightarrow> string) \<Rightarrow> string \<Rightarrow> library \<Rightarrow> string \<Rightarrow> nat \<Rightarrow> string" where
  "failure_message e msg launch_msg lib name i =
     (if IS_ERROR (api_status e name i) then msg lib (api_status e name i)
      else if IS_ERROR (api_status e ''cudaEventSynchronize'' i)
           then msg CUDA (api_status e ''cudaEventSynchronize'' i)
           else launch_msg)"














section \<open>Concrete runs\<close>

text \<open>
  The state the benchmark library hands to a case that is about to run, and an
  environment in which the device is present and every call succeeds.
\<close>

definition args_of :: "int64 list \<Rightarrow> nat \<Rightarrow> int64" where
  "args_of xs i = (if i < length xs then xs ! i else 0)"

definition fresh_state :: "nat \<Rightarrow> int64 list \<Rightarrow> bench_state" where
  "fresh_state n xs =
     \<lparr>ranges = args_of xs, max_iterations = n, started = False, finished = False,
      total_iterations = 0, error_occurred = False, error_message = [],
      timer_running = False, manual_times = [], counters = Map.empty,
      items_processed = 0, trace = []\<rparr>"

definition env_ok :: env where
  "env_ok =
     \<lparr>CUDNN_SUPPORTS_TENSOR_OPS = True, LOW_PRECISION_NHWC_MODE = False,
      has_cuda = True, SupportsTensorCore = True, api_status = (\<lambda>c i. 0),
      error_string = (\<lambda>l s. ''CUDNN_STATUS_EXECUTION_FAILED''), elapsed_msec = (\<lambda>i. 2),
      tensor_result = (\<lambda>n. Valid), memory_result = (\<lambda>n. Valid), layout_of = (\<lambda>n. 0),
      vector_exn = (\<lambda>n k. None), output_dim = (2, 4, 3, 3), queried_bytes = (\<lambda>n. 1024),
      advised_algo = 1, perf_results = [],
      block_error_message = (\<lambda>n l s. n @ '' failed to launch kernel''),
      calc_conv_out_dim = (\<lambda>i f p s d. i)\<rparr>"

definition env_no_cuda :: env where
  "env_no_cuda = env_ok\<lparr>has_cuda := False\<rparr>"

text \<open>
  Environments in which one thing goes wrong: the timed call of the second iteration, the
  workspace query of the convolutions, the allocation of \<open>dy_memory\<close> (with the helper
  skipping the case, and without), and the building of the vector \<open>input\<close>.
\<close>

definition env_second_call_fails :: "string \<Rightarrow> env" where
  "env_second_call_fails name = env_ok\<lparr>api_status := (\<lambda>c i. if c = name \<and> i = 1 then 8 else 0)\<rparr>"

definition env_call_fails :: "string \<Rightarrow> env" where
  "env_call_fails name = env_ok\<lparr>api_status := (\<lambda>c i. if c = name then 9 else 0)\<rparr>"

definition env_dy_memory_fails :: "string option \<Rightarrow> env" where
  "env_dy_memory_fails skip =
     env_ok\<lparr>memory_result := (\<lambda>n. if n = ''dy_memory'' then Invalid skip else Valid)\<rparr>"

definition env_input_throws :: "exn \<Rightarrow> env" where
  "env_input_throws x = env_ok\<lparr>vector_exn := (\<lambda>n k. if n = ''input'' then Some x else None)\<rparr>"

section \<open>Properties\<close>

subsection \<open>The timed loop\<close>

lemma scale_tensor_loop_body_timed:
  "scale_tensor_loop_body e =
     timed_loop_body e
       (\<lambda>l s. SCALE_TENSOR_NAME @ '' failed to perform cudnnAddTensor because of '' @ error_string e l s)
       (SCALE_TENSOR_NAME @ '' failed to launch kernel'') CUDNN ''cudnnScaleTensor'' []"
  by (intro ext) (simp add: scale_tensor_loop_body_def timed_loop_body_def vendor_call_def Let_def)

lemma timed_loop_body_break:
  "fst (timed_loop_body e msg lm lib name args i st) = iteration_fails e name i"
  by (simp add: timed_loop_body_def vendor_call_def iteration_fails_def PRINT_IF_ERROR_def Let_def)

lemma timed_loop_body_trace:
  "trace (snd (timed_loop_body e msg lm lib name args i st)) = trace st @ iteration_events e name args i"
  by (simp add: timed_loop_body_def vendor_call_def iteration_events_def PRINT_IF_ERROR_def Let_def
      emit_def SkipWithError_def PauseTiming_def ResumeTiming_def SetIterationTime_def)

lemma timed_loop_body_frame:
  "ranges (snd (timed_loop_body e msg lm lib name args i st)) = ranges st
   \<and> max_iterations (snd (timed_loop_body e msg lm lib name args i st)) = max_iterations st
   \<and> started (snd (timed_loop_body e msg lm lib name args i st)) = started st
   \<and> counters (snd (timed_loop_body e msg lm lib name args i st)) = counters st
   \<and> items_processed (snd (timed_loop_body e msg lm lib name args i st)) = items_processed st"
  by (simp add: timed_loop_body_def vendor_call_def PRINT_IF_ERROR_def Let_def
      emit_def SkipWithError_def PauseTiming_def ResumeTiming_def SetIterationTime_def)

lemma timed_loop_body_skipped:
  "iteration_fails e name i \<Longrightarrow>
     error_occurred (snd (timed_loop_body e msg lm lib name args i st))
     \<and> total_iterations (snd (timed_loop_body e msg lm lib name args i st)) = 0
     \<and> manual_times (snd (timed_loop_body e msg lm lib name args i st)) = manual_times st"
  by (auto simp add: timed_loop_body_def vendor_call_def PRINT_IF_ERROR_def Let_def iteration_fails_def
      emit_def SkipWithError_def PauseTiming_def ResumeTiming_def SetIterationTime_def)

lemma timed_loop_body_timed:
  "\<not> iteration_fails e name i \<Longrightarrow>
     error_occurred (snd (timed_loop_body e msg lm lib name args i st)) = error_occurred st
     \<and> error_message (snd (timed_loop_body e msg lm lib name args i st)) = error_message st
     \<and> manual_times (snd (timed_loop_body e msg lm lib name args i st))
         = manual_times st @ [elapsed_msec e i / 1000]"
  by (auto simp add: timed_loop_body_def vendor_call_def PRINT_IF_ERROR_def Let_def iteration_fails_def
      emit_def SkipWithError_def PauseTiming_def ResumeTiming_def SetIterationTime_def)

lemma upt_first: "[i..<Suc (i + k)] = i # [Suc i..<Suc (i + k)]"
  by (simp add: upt_conv_Cons del: upt_Suc)

lemma run_iterations_trace:
  "trace (run_iterations (timed_loop_body e msg lm lib name args) i n st) =
     trace st @ concat (map (iteration_events e name args)
                          [i..<i + iterations_begun (iteration_fails e name) i n])"
proof (induction n arbitrary: i st)
  case 0
  show ?case by (simp add: FinishKeepRunning_def)
next
  case (Suc n)
  obtain b st' where body: "timed_loop_body e msg lm lib name args i st = (b, st')"
    by (cases "timed_loop_body e msg lm lib name args i st")
  have b: "b = iteration_fails e name i"
    using timed_loop_body_break [of e msg lm lib name args i st] body by simp
  have tr: "trace st' = trace st @ iteration_events e name args i"
    using timed_loop_body_trace [of e msg lm lib name args i st] body by simp
  show ?case
  proof (cases b)
    case True
    then show ?thesis using body b tr by simp
  next
    case False
    then show ?thesis using body b tr Suc.IH [of "Suc i" st']
      by (simp add: upt_first del: upt_Suc)
  qed
qed

lemma run_iterations_frame:
  "ranges (run_iterations (timed_loop_body e msg lm lib name args) i n st) = ranges st
   \<and> max_iterations (run_iterations (timed_loop_body e msg lm lib name args) i n st) = max_iterations st
   \<and> started (run_iterations (timed_loop_body e msg lm lib name args) i n st) = started st
   \<and> counters (run_iterations (timed_loop_body e msg lm lib name args) i n st) = counters st
   \<and> items_processed (run_iterations (timed_loop_body e msg lm lib name args) i n st) = items_processed st
   \<and> total_iterations (run_iterations (timed_loop_body e msg lm lib name args) i n st) = 0"
proof (induction n arbitrary: i st)
  case 0
  show ?case by (simp add: FinishKeepRunning_def)
next
  case (Suc n)
  obtain b st' where body: "timed_loop_body e msg lm lib name args i st = (b, st')"
    by (cases "timed_loop_body e msg lm lib name args i st")
  have b: "b = iteration_fails e name i"
    using timed_loop_body_break [of e msg lm lib name args i st] body by simp
  have fr: "ranges st' = ranges st \<and> max_iterations st' = max_iterations st \<and> started st' = started st
            \<and> counters st' = counters st \<and> items_processed st' = items_processed st"
    using timed_loop_body_frame [of e msg lm lib name args i st] body by simp
  show ?case
  proof (cases b)
    case True
    then have "total_iterations st' = 0"
      using timed_loop_body_skipped [of e name i msg lm lib args st] b body by simp
    then show ?thesis using body True fr by simp
  next
    case False
    then show ?thesis using body fr Suc.IH [of "Suc i" st'] by simp
  qed
qed

lemma run_iterations_manual_times:
  "manual_times (run_iterations (timed_loop_body e msg lm lib name args) i n st) =
     manual_times st @ map (\<lambda>k. elapsed_msec e k / 1000)
                          [i..<i + iterations_timed (iteration_fails e name) i n]"
proof (induction n arbitrary: i st)
  case 0
  show ?case by (simp add: FinishKeepRunning_def)
next
  case (Suc n)
  obtain b st' where body: "timed_loop_body e msg lm lib name args i st = (b, st')"
    by (cases "timed_loop_body e msg lm lib name args i st")
  have b: "b = iteration_fails e name i"
    using timed_loop_body_break [of e msg lm lib name args i st] body by simp
  show ?case
  proof (cases b)
    case True
    then show ?thesis
      using timed_loop_body_skipped [of e name i msg lm lib args st] b body by simp
  next
    case False
    then show ?thesis
      using timed_loop_body_timed [of e name i msg lm lib args st] b body Suc.IH [of "Suc i" st']
      by (simp add: upt_first del: upt_Suc)
  qed
qed

lemma run_iterations_error_occurred:
  "error_occurred (run_iterations (timed_loop_body e msg lm lib name args) i n st) =
     (error_occurred st \<or> iterations_timed (iteration_fails e name) i n
                            < iterations_begun (iteration_fails e name) i n)"
proof (induction n arbitrary: i st)
  case 0
  show ?case by (simp add: FinishKeepRunning_def)
next
  case (Suc n)
  obtain b st' where body: "timed_loop_body e msg lm lib name args i st = (b, st')"
    by (cases "timed_loop_body e msg lm lib name args i st")
  have b: "b = iteration_fails e name i"
    using timed_loop_body_break [of e msg lm lib name args i st] body by simp
  show ?case
  proof (cases b)
    case True
    then show ?thesis
      using timed_loop_body_skipped [of e name i msg lm lib args st] b body by simp
  next
    case False
    then show ?thesis
      using timed_loop_body_timed [of e name i msg lm lib args st] b body Suc.IH [of "Suc i" st']
      by simp
  qed
qed

lemma iterations_begun_le: "iterations_begun fails i n \<le> n"
  by (induction n arbitrary: i) auto

lemma iterations_timed_le: "iterations_timed fails i n \<le> iterations_begun fails i n"
  by (induction n arbitrary: i) auto

lemma range_for_trace:
  "trace (range_for (timed_loop_body e msg lm lib name args) st) =
     trace st @ loop_events e name args (if error_occurred st then 0 else max_iterations st)"
  using run_iterations_trace [of e msg lm lib name args 0]
  by (simp add: range_for_def StartKeepRunning_def Let_def loop_events_def)

lemma range_for_frame:
  "ranges (range_for (timed_loop_body e msg lm lib name args) st) = ranges st
   \<and> max_iterations (range_for (timed_loop_body e msg lm lib name args) st) = max_iterations st
   \<and> started (range_for (timed_loop_body e msg lm lib name args) st)
   \<and> counters (range_for (timed_loop_body e msg lm lib name args) st) = counters st
   \<and> items_processed (range_for (timed_loop_body e msg lm lib name args) st) = items_processed st
   \<and> total_iterations (range_for (timed_loop_body e msg lm lib name args) st) = 0"
  using run_iterations_frame [of e msg lm lib name args 0]
  by (simp add: range_for_def StartKeepRunning_def Let_def)

lemma range_for_iterations:
  "iterations (range_for (timed_loop_body e msg lm lib name args) st) = max_iterations st"
  using range_for_frame [of e msg lm lib name args st] by (simp add: iterations_def)

lemma range_for_manual_times:
  "manual_times (range_for (timed_loop_body e msg lm lib name args) st) =
     manual_times st @ loop_times e name (if error_occurred st then 0 else max_iterations st)"
  using run_iterations_manual_times [of e msg lm lib name args 0]
  by (simp add: range_for_def StartKeepRunning_def Let_def loop_times_def)

lemma range_for_error_occurred:
  "error_occurred (range_for (timed_loop_body e msg lm lib name args) st) =
     (error_occurred st \<or> iterations_timed (iteration_fails e name) 0 (max_iterations st)
                            < iterations_begun (iteration_fails e name) 0 (max_iterations st))"
  using run_iterations_error_occurred [of e msg lm lib name args 0]
  by (simp add: range_for_def StartKeepRunning_def Let_def)

subsection \<open>What each operation does to each field\<close>

lemma emit_proj:
  "trace (emit ev st) = trace st @ [ev]"
  "ranges (emit ev st) = ranges st"
  "range_arg (emit ev st) = range_arg st"
  "max_iterations (emit ev st) = max_iterations st"
  "started (emit ev st) = started st"
  "total_iterations (emit ev st) = total_iterations st"
  "iterations (emit ev st) = iterations st"
  "error_occurred (emit ev st) = error_occurred st"
  "error_message (emit ev st) = error_message st"
  "manual_times (emit ev st) = manual_times st"
  "counters (emit ev st) = counters st"
  "items_processed (emit ev st) = items_processed st"
  by (simp_all add: emit_def iterations_def range_arg_def fun_eq_iff)

lemma counters_insert_proj:
  "trace (counters_insert kvs st) = trace st"
  "ranges (counters_insert kvs st) = ranges st"
  "range_arg (counters_insert kvs st) = range_arg st"
  "max_iterations (counters_insert kvs st) = max_iterations st"
  "started (counters_insert kvs st) = started st"
  "total_iterations (counters_insert kvs st) = total_iterations st"
  "iterations (counters_insert kvs st) = iterations st"
  "error_occurred (counters_insert kvs st) = error_occurred st"
  "error_message (counters_insert kvs st) = error_message st"
  "manual_times (counters_insert kvs st) = manual_times st"
  "counters (counters_insert kvs st) = map_insert_all kvs (counters st)"
  "items_processed (counters_insert kvs st) = items_processed st"
  by (simp_all add: counters_insert_def iterations_def range_arg_def fun_eq_iff)

lemma SetItemsProcessed_proj:
  "trace (SetItemsProcessed n st) = trace st"
  "ranges (SetItemsProcessed n st) = ranges st"
  "range_arg (SetItemsProcessed n st) = range_arg st"
  "max_iterations (SetItemsProcessed n st) = max_iterations st"
  "started (SetItemsProcessed n st) = started st"
  "total_iterations (SetItemsProcessed n st) = total_iterations st"
  "iterations (SetItemsProcessed n st) = iterations st"
  "error_occurred (SetItemsProcessed n st) = error_occurred st"
  "error_message (SetItemsProcessed n st) = error_message st"
  "manual_times (SetItemsProcessed n st) = manual_times st"
  "counters (SetItemsProcessed n st) = counters st"
  "items_processed (SetItemsProcessed n st) = n"
  by (simp_all add: SetItemsProcessed_def iterations_def range_arg_def fun_eq_iff)

lemma SkipWithError_proj:
  "trace (SkipWithError msg st) = trace st"
  "ranges (SkipWithError msg st) = ranges st"
  "range_arg (SkipWithError msg st) = range_arg st"
  "max_iterations (SkipWithError msg st) = max_iterations st"
  "started (SkipWithError msg st) = started st"
  "total_iterations (SkipWithError msg st) = 0"
  "error_occurred (SkipWithError msg st) = True"
  "error_message (SkipWithError msg st) = (if error_occurred st then error_message st else msg)"
  "manual_times (SkipWithError msg st) = manual_times st"
  "counters (SkipWithError msg st) = counters st"
  "items_processed (SkipWithError msg st) = items_processed st"
  by (simp_all add: SkipWithError_def range_arg_def fun_eq_iff)

lemma construct_Valid: "construct name sizes Valid st = emit (Construct name sizes) st"
  by (simp add: construct_def)

lemma construct_proj:
  "trace (construct name sizes r st) = trace st @ [Construct name sizes]"
  "ranges (construct name sizes r st) = ranges st"
  "range_arg (construct name sizes r st) = range_arg st"
  "max_iterations (construct name sizes r st) = max_iterations st"
  "started (construct name sizes r st) = started st"
  "manual_times (construct name sizes r st) = manual_times st"
  "counters (construct name sizes r st) = counters st"
  "items_processed (construct name sizes r st) = items_processed st"
  by (simp_all add: construct_def emit_proj SkipWithError_proj split: helper_result.splits option.splits)

lemma insert_perf_results_proj:
  "trace (insert_perf_results alg rs st) = trace st"
  "ranges (insert_perf_results alg rs st) = ranges st"
  "range_arg (insert_perf_results alg rs st) = range_arg st"
  "max_iterations (insert_perf_results alg rs st) = max_iterations st"
  "started (insert_perf_results alg rs st) = started st"
  "total_iterations (insert_perf_results alg rs st) = total_iterations st"
  "iterations (insert_perf_results alg rs st) = iterations st"
  "error_occurred (insert_perf_results alg rs st) = error_occurred st"
  "error_message (insert_perf_results alg rs st) = error_message st"
  "manual_times (insert_perf_results alg rs st) = manual_times st"
  "items_processed (insert_perf_results alg rs st) = items_processed st"
  by (induction alg rs st rule: insert_perf_results.induct; simp add: counters_insert_proj)+

lemma range_for_proj:
  "trace (range_for (timed_loop_body e msg lm lib name args) st) =
     trace st @ loop_events e name args (if error_occurred st then 0 else max_iterations st)"
  "ranges (range_for (timed_loop_body e msg lm lib name args) st) = ranges st"
  "range_arg (range_for (timed_loop_body e msg lm lib name args) st) = range_arg st"
  "max_iterations (range_for (timed_loop_body e msg lm lib name args) st) = max_iterations st"
  "started (range_for (timed_loop_body e msg lm lib name args) st) = True"
  "total_iterations (range_for (timed_loop_body e msg lm lib name args) st) = 0"
  "iterations (range_for (timed_loop_body e msg lm lib name args) st) = max_iterations st"
  "error_occurred (range_for (timed_loop_body e msg lm lib name args) st) =
     (error_occurred st \<or> iterations_timed (iteration_fails e name) 0 (max_iterations st)
                            < iterations_begun (iteration_fails e name) 0 (max_iterations st))"
  "manual_times (range_for (timed_loop_body e msg lm lib name args) st) =
     manual_times st @ loop_times e name (if error_occurred st then 0 else max_iterations st)"
  "counters (range_for (timed_loop_body e msg lm lib name args) st) = counters st"
  "items_processed (range_for (timed_loop_body e msg lm lib name args) st) = items_processed st"
  using range_for_frame [of e msg lm lib name args st]
  by (simp_all add: range_for_trace range_for_iterations range_for_error_occurred
      range_for_manual_times range_arg_def fun_eq_iff)

lemma BENCHMARK_BLOCK_proj:
  "trace (BENCHMARK_BLOCK e bench lib name args st) =
     trace st @ [Call ''cudaEventCreate(start)'' [], Call ''cudaEventCreate(stop)'' []]
     @ loop_events e name args (if error_occurred st then 0 else max_iterations st)"
  "ranges (BENCHMARK_BLOCK e bench lib name args st) = ranges st"
  "range_arg (BENCHMARK_BLOCK e bench lib name args st) = range_arg st"
  "max_iterations (BENCHMARK_BLOCK e bench lib name args st) = max_iterations st"
  "started (BENCHMARK_BLOCK e bench lib name args st) = True"
  "total_iterations (BENCHMARK_BLOCK e bench lib name args st) = 0"
  "iterations (BENCHMARK_BLOCK e bench lib name args st) = max_iterations st"
  "error_occurred (BENCHMARK_BLOCK e bench lib name args st) =
     (error_occurred st \<or> iterations_timed (iteration_fails e name) 0 (max_iterations st)
                            < iterations_begun (iteration_fails e name) 0 (max_iterations st))"
  "manual_times (BENCHMARK_BLOCK e bench lib name args st) =
     manual_times st @ loop_times e name (if error_occurred st then 0 else max_iterations st)"
  "counters (BENCHMARK_BLOCK e bench lib name args st) = counters st"
  "items_processed (BENCHMARK_BLOCK e bench lib name args st) = items_processed st"
  by (simp_all add: BENCHMARK_BLOCK_def Let_def range_for_proj emit_proj)

lemmas state_proj = construct_Valid emit_proj counters_insert_proj SetItemsProcessed_proj SkipWithError_proj
  construct_proj insert_perf_results_proj range_for_proj BENCHMARK_BLOCK_proj

lemma map_insert_all_lookup:
  "map_insert_all kvs m k = (case m k of Some v \<Rightarrow> Some v | None \<Rightarrow> map_of kvs k)"
  by (induction kvs m rule: map_insert_all.induct) (auto split: option.splits)

lemmas setup_defs = tensors_valid_def vectors_built_def memories_valid_def calls_succeed_def

lemmas stmt_defs = with_tensor_def with_vector_def with_memory_def checked_def checked_if_def
  is_valid_def PRINT_IF_ERROR_def defer_call_def

subsection \<open>The statements of a body when nothing goes wrong\<close>

lemma checked_ok:
  "\<not> IS_ERROR (api_status e name k) \<Longrightarrow>
     checked e name k args msg st rest = rest (emit (Call name args) st)"
  by (simp add: checked_def PRINT_IF_ERROR_def Let_def)

lemma checked_if_ok:
  "(cond \<longrightarrow> \<not> IS_ERROR (api_status e name k)) \<Longrightarrow>
     checked_if cond e name k args msg st rest = rest (if cond then emit (Call name args) st else st)"
  by (simp add: checked_if_def checked_ok)

lemma with_tensor_ok:
  "tensor_result e name = Valid \<Longrightarrow>
     with_tensor e name shape st rest = rest (emit (Construct name shape) st)"
  by (simp add: with_tensor_def is_valid_def construct_Valid Let_def)

lemma with_memory_ok:
  "memory_result e name = Valid \<Longrightarrow>
     with_memory e name byte_count st rest = rest (emit (Construct name [uint byte_count]) st)"
  by (simp add: with_memory_def is_valid_def construct_Valid Let_def)

lemma with_vector_ok:
  "vector_exn e name = (\<lambda>n. None) \<Longrightarrow> with_vector e name n st rest = rest st"
  by (simp add: with_vector_def)

lemma defer_call_Normal: "defer_call name (Normal st) = Normal (emit (Call name []) st)"
  by (simp add: defer_call_def)

lemmas stmt_ok = checked_ok checked_if_ok with_tensor_ok with_memory_ok with_vector_ok defer_call_Normal

lemma SkipWithError_iterations:
  "iterations (SkipWithError msg st) = (if started st then max_iterations st else 0)"
  by (simp add: iterations_def SkipWithError_def)

lemmas if_proj = if_distrib [of iterations] if_distrib [of items_processed] if_distrib [of trace]
  if_distrib [of counters] if_distrib [of error_occurred] if_distrib [of max_iterations]
  if_distrib [of started] if_distrib [of range_arg] if_distrib [of manual_times]
  if_distrib [of error_message] if_distrib [of total_iterations]

lemma calls_succeed_append:
  "calls_succeed e (xs @ ys) = (calls_succeed e xs \<and> calls_succeed e ys)"
  by (simp add: calls_succeed_def)

lemma calls_succeed_if:
  "calls_succeed e (if c then xs else []) = (c \<longrightarrow> calls_succeed e xs)"
  by (simp add: calls_succeed_def)

lemma calls_succeed_Cons:
  "calls_succeed e ((name, k) # xs) = (\<not> IS_ERROR (api_status e name k) \<and> calls_succeed e xs)"
  by (simp add: calls_succeed_def)

lemma calls_succeed_Nil: "calls_succeed e [] = True"
  by (simp add: calls_succeed_def)

lemmas calls_succeed_simps = calls_succeed_append calls_succeed_if calls_succeed_Cons calls_succeed_Nil

subsection \<open>The convolution benchmarks from the timed block on\<close>

lemma insert_perf_results_counters_other:
  "k \<noteq> ''advised_time'' \<Longrightarrow> k \<noteq> ''advised_memory'' \<Longrightarrow> k \<noteq> ''advised_determinism'' \<Longrightarrow>
     counters (insert_perf_results alg rs st) k = counters st k"
  by (induction alg rs st rule: insert_perf_results.induct)
     (simp_all add: counters_insert_proj map_insert_all_lookup split: option.splits)

lemma conv_fwd_report_proj:
  "iterations (conv_fwd_measure_and_report e alg cs N K C H W R S P Q g wb adv s) = max_iterations s"
  "items_processed (conv_fwd_measure_and_report e alg cs N K C H W R S P Q g wb adv s)
     = word_of_nat (max_iterations s) * N * K * C * W * H"
  "trace (conv_fwd_measure_and_report e alg cs N K C H W R S P Q g wb adv s)
     = trace s @ [Call ''cudaEventCreate(start)'' [], Call ''cudaEventCreate(stop)'' []]
       @ loop_events e ''cudnnConvolutionForward'' [alg, uint wb]
           (if error_occurred s then 0 else max_iterations s)
       @ [Call ''cudnnFindConvolutionForwardAlgorithm'' [10]]"
  "error_occurred (conv_fwd_measure_and_report e alg cs N K C H W R S P Q g wb adv s)
     = (error_occurred s
        \<or> iterations_timed (iteration_fails e ''cudnnConvolutionForward'') 0 (max_iterations s)
            < iterations_begun (iteration_fails e ''cudnnConvolutionForward'') 0 (max_iterations s)
        \<or> IS_ERROR (api_status e ''cudnnFindConvolutionForwardAlgorithm'' 0))"
  "manual_times (conv_fwd_measure_and_report e alg cs N K C H W R S P Q g wb adv s)
     = manual_times s @ loop_times e ''cudnnConvolutionForward'' (if error_occurred s then 0 else max_iterations s)"
      apply (simp_all add: conv_fwd_measure_and_report_def Let_def state_proj SkipWithError_iterations if_proj
      PRINT_IF_ERROR_def split del: if_split cong: if_cong)
  by auto

lemma conv_fwd_report_counters:
  assumes "k \<noteq> ''advised_time''" "k \<noteq> ''advised_memory''" "k \<noteq> ''advised_determinism''"
  shows "counters (conv_fwd_measure_and_report e alg cs N K C H W R S P Q g wb adv s) k =
     map_insert_all
       (if adv \<noteq> - 1 then
          [(''predicted_advised_flops_count'', plain (conv_fwd_compute_flops N K C H W R S P Q adv)),
           (''predicted_advised_flops'',
            (conv_fwd_compute_flops N K C H W R S P Q adv * real (max_iterations s), kAvgThreadsRate))]
        else [])
       (map_insert_all
          [(''predicted_flops_count'',
            plain (conv_fwd_compute_flops N K C H W R S P Q alg / double_of_int64 g)),
           (''predicted_flops'',
            (conv_fwd_compute_flops N K C H W R S P Q alg / double_of_int64 g
               * real (max_iterations s), kAvgThreadsRate))]
          (map_insert_all cs (counters s))) k"
proof (cases "adv = - 1")
  case True
  then show ?thesis
    using assms
    by (simp add: conv_fwd_measure_and_report_def Let_def state_proj if_proj
        insert_perf_results_counters_other
        del: map_insert_all.simps(2) split del: if_split cong: if_cong)
next
  case False
  then show ?thesis
    using assms
    by (simp add: conv_fwd_measure_and_report_def Let_def state_proj if_proj
        insert_perf_results_counters_other
        del: map_insert_all.simps(2) split del: if_split cong: if_cong)
qed

lemma conv_bwd_data_report_proj:
  "iterations (conv_bwd_data_measure_and_report e alg cs N K C H W R S P Q g wb adv s) = max_iterations s"
  "items_processed (conv_bwd_data_measure_and_report e alg cs N K C H W R S P Q g wb adv s)
     = word_of_nat (max_iterations s) * N * K * C * W * H"
  "trace (conv_bwd_data_measure_and_report e alg cs N K C H W R S P Q g wb adv s)
     = trace s @ [Call ''cudaEventCreate(start)'' [], Call ''cudaEventCreate(stop)'' []]
       @ loop_events e ''cudnnConvolutionBackwardData'' [alg, uint wb]
           (if error_occurred s then 0 else max_iterations s)
       @ [Call ''cudnnFindConvolutionBackwardDataAlgorithm'' [10]]"
  "error_occurred (conv_bwd_data_measure_and_report e alg cs N K C H W R S P Q g wb adv s)
     = (error_occurred s
        \<or> iterations_timed (iteration_fails e ''cudnnConvolutionBackwardData'') 0 (max_iterations s)
            < iterations_begun (iteration_fails e ''cudnnConvolutionBackwardData'') 0 (max_iterations s)
        \<or> IS_ERROR (api_status e ''cudnnFindConvolutionBackwardDataAlgorithm'' 0))"
      apply (simp_all add: conv_bwd_data_measure_and_report_def Let_def state_proj SkipWithError_iterations
      if_proj PRINT_IF_ERROR_def split del: if_split cong: if_cong)
  by auto

lemma conv_bwd_data_report_counters:
  assumes "k \<noteq> ''advised_time''" "k \<noteq> ''advised_memory''" "k \<noteq> ''advised_determinism''"
  shows "counters (conv_bwd_data_measure_and_report e alg cs N K C H W R S P Q g wb adv s) k =
     map_insert_all
       (if adv \<noteq> - 1 then
          [(''predicted_advised_flops_count'', plain (conv_bwd_data_compute_flops N K C H W R S P Q adv)),
           (''predicted_advised_flops'',
            (conv_bwd_data_compute_flops N K C H W R S P Q adv * real (max_iterations s), kAvgThreadsRate))]
        else [])
       (map_insert_all
          [(''predicted_flops_count'',
            plain (conv_bwd_data_compute_flops N K C H W R S P Q alg / double_of_int64 g)),
           (''predicted_flops'',
            (conv_bwd_data_compute_flops N K C H W R S P Q alg / double_of_int64 g
               * real (max_iterations s), kAvgThreadsRate))]
          (map_insert_all cs (counters s))) k"
proof (cases "adv = - 1")
  case True
  then show ?thesis
    using assms
    by (simp add: conv_bwd_data_measure_and_report_def Let_def state_proj if_proj
        insert_perf_results_counters_other
        del: map_insert_all.simps(2) split del: if_split cong: if_cong)
next
  case False
  then show ?thesis
    using assms
    by (simp add: conv_bwd_data_measure_and_report_def Let_def state_proj if_proj
        insert_perf_results_counters_other
        del: map_insert_all.simps(2) split del: if_split cong: if_cong)
qed

lemma conv_bias_activation_report_proj:
  "iterations (conv_bias_activation_measure_and_report e alg cs N K C H W wb s) = max_iterations s"
  "items_processed (conv_bias_activation_measure_and_report e alg cs N K C H W wb s)
     = word_of_nat (max_iterations s) * N * K * C * W * H"
  "trace (conv_bias_activation_measure_and_report e alg cs N K C H W wb s)
     = trace s @ [Call ''cudaEventCreate(start)'' [], Call ''cudaEventCreate(stop)'' []]
       @ loop_events e ''cudnnConvolutionBiasActivationForward'' [alg, uint wb]
           (if error_occurred s then 0 else max_iterations s)
       @ [Call ''cudnnFindConvolutionForwardAlgorithm'' [20]]"
  "error_occurred (conv_bias_activation_measure_and_report e alg cs N K C H W wb s)
     = (error_occurred s
        \<or> iterations_timed (iteration_fails e ''cudnnConvolutionBiasActivationForward'') 0 (max_iterations s)
            < iterations_begun (iteration_fails e ''cudnnConvolutionBiasActivationForward'') 0 (max_iterations s)
        \<or> IS_ERROR (api_status e ''cudnnFindConvolutionForwardAlgorithm'' 0))"
      apply (simp_all add: conv_bias_activation_measure_and_report_def Let_def state_proj
      SkipWithError_iterations if_proj PRINT_IF_ERROR_def split del: if_split cong: if_cong)
  by auto

lemma conv_bias_activation_report_counters:
  assumes "k \<noteq> ''advised_time''" "k \<noteq> ''advised_memory''" "k \<noteq> ''advised_determinism''"
  shows "counters (conv_bias_activation_measure_and_report e alg cs N K C H W wb s) k =
           map_insert_all cs (counters s) k"
  using assms
  by (simp add: conv_bias_activation_measure_and_report_def Let_def state_proj if_proj
      insert_perf_results_counters_other
      del: map_insert_all.simps(2) split del: if_split cong: if_cong)

subsection \<open>What a successful setup gives\<close>

lemma conv_fwd_setup_okD:
  assumes "conv_fwd_setup_ok T math_type e st"
  shows "has_cuda e"
    and "(CUDNN_SUPPORTS_TENSOR_OPS e \<and> (is_half_v T \<or> math_type = CUDNN_TENSOR_OP_MATH)
          \<and> \<not> SupportsTensorCore e) = False"
    and "tensor_result e ''x_tensor'' = Valid"
    and "tensor_result e ''w_filter'' = Valid"
    and "tensor_result e ''y_tensor'' = Valid"
    and "vector_exn e ''input'' = (\<lambda>n. None)"
    and "vector_exn e ''kernel'' = (\<lambda>n. None)"
    and "memory_result e ''workspace_memory'' = Valid"
    and "memory_result e ''x_memory'' = Valid"
    and "memory_result e ''w_memory'' = Valid"
    and "memory_result e ''y_memory'' = Valid"
    and "IS_ERROR (api_status e ''cudnnCreateConvolutionDescriptor'' 0) = False"
    and "IS_ERROR (api_status e ''cudnnSetConvolution2dDescriptor'' 0) = False"
    and "0 < sint (if range_arg st 13 = 0 then 1 else range_arg st 13)
         \<Longrightarrow> IS_ERROR (api_status e ''cudnnSetConvolutionGroupCount'' 0) = False"
    and "CUDNN_SUPPORTS_TENSOR_OPS e \<Longrightarrow> IS_ERROR (api_status e ''cudnnSetConvolutionMathType'' 0) = False"
    and "CUDNN_SUPPORTS_TENSOR_OPS e \<Longrightarrow> IS_ERROR (api_status e ''cudnnSetConvolutionMathType'' (Suc 0)) = False"
    and "IS_ERROR (api_status e ''cudnnGetConvolution2dForwardOutputDim'' 0) = False"
  using assms
  by (auto simp add: conv_fwd_setup_ok_def conv_fwd_helpers_ok_def conv_fwd_setup_calls_def
      tensors_valid_def vectors_built_def memories_valid_def calls_succeed_simps)

lemma conv_bwd_data_setup_okD:
  assumes "conv_bwd_data_setup_ok math_type e"
  shows "has_cuda e"
    and "(CUDNN_SUPPORTS_TENSOR_OPS e \<and> math_type = CUDNN_TENSOR_OP_MATH \<and> \<not> SupportsTensorCore e) = False"
    and "tensor_result e ''dx_tensor'' = Valid"
    and "tensor_result e ''w_filter'' = Valid"
    and "tensor_result e ''dy_tensor'' = Valid"
    and "vector_exn e ''input'' = (\<lambda>n. None)"
    and "vector_exn e ''kernel'' = (\<lambda>n. None)"
    and "vector_exn e ''output'' = (\<lambda>n. None)"
    and "memory_result e ''workspace_memory'' = Valid"
    and "memory_result e ''w_memory'' = Valid"
    and "memory_result e ''dy_memory'' = Valid"
    and "memory_result e ''dx_memory'' = Valid"
    and "IS_ERROR (api_status e ''cudnnCreateConvolutionDescriptor'' 0) = False"
    and "IS_ERROR (api_status e ''cudnnSetConvolution2dDescriptor'' 0) = False"
    and "CUDNN_SUPPORTS_TENSOR_OPS e \<Longrightarrow> IS_ERROR (api_status e ''cudnnSetConvolutionMathType'' 0) = False"
    and "IS_ERROR (api_status e ''cudnnSetConvolutionGroupCount'' 0) = False"
    and "IS_ERROR (api_status e ''cudnnGetConvolution2dForwardOutputDim'' 0) = False"
  using assms
  by (auto simp add: conv_bwd_data_setup_ok_def conv_bwd_data_helpers_ok_def conv_bwd_data_setup_calls_def
      tensors_valid_def vectors_built_def memories_valid_def calls_succeed_simps)

lemma conv_bias_activation_setup_okD:
  assumes "conv_bias_activation_setup_ok T e st"
  shows "has_cuda e"
    and "(CUDNN_SUPPORTS_TENSOR_OPS e \<and> (is_half_v T \<or> CUDNN_DEFAULT_MATH = CUDNN_TENSOR_OP_MATH)
          \<and> \<not> SupportsTensorCore e) = False"
    and "tensor_result e ''x_tensor'' = Valid"
    and "tensor_result e ''w_filter'' = Valid"
    and "tensor_result e ''y_tensor'' = Valid"
    and "tensor_result e ''bias_tensor'' = Valid"
    and "vector_exn e ''input'' = (\<lambda>n. None)"
    and "vector_exn e ''kernel'' = (\<lambda>n. None)"
    and "vector_exn e ''output'' = (\<lambda>n. None)"
    and "vector_exn e ''bias'' = (\<lambda>n. None)"
    and "memory_result e ''workspace_memory'' = Valid"
    and "memory_result e ''x_memory'' = Valid"
    and "memory_result e ''w_memory'' = Valid"
    and "memory_result e ''y_memory'' = Valid"
    and "memory_result e ''z_memory'' = Valid"
    and "memory_result e ''bias_memory'' = Valid"
    and "IS_ERROR (api_status e ''cudnnCreateConvolutionDescriptor'' 0) = False"
    and "IS_ERROR (api_status e ''cudnnSetConvolution2dDescriptor'' 0) = False"
    and "IS_ERROR (api_status e ''cudnnCreateActivationDescriptor'' 0) = False"
    and "IS_ERROR (api_status e ''cudnnSetActivationDescriptor'' 0) = False"
    and "0 < sint (if range_arg st 13 = 0 then 1 else range_arg st 13)
         \<Longrightarrow> IS_ERROR (api_status e ''cudnnSetConvolutionGroupCount'' 0) = False"
    and "IS_ERROR (api_status e ''cudnnGetConvolution2dForwardOutputDim'' 0) = False"
  using assms
  by (auto simp add: conv_bias_activation_setup_ok_def conv_bias_activation_helpers_ok_def
      conv_bias_activation_setup_calls_def
      tensors_valid_def vectors_built_def memories_valid_def calls_succeed_simps)

subsection \<open>The items reported\<close>

lemma scale_tensor_items:
  assumes "scale_tensor_setup_ok e"
  shows "items_are st (LAYER_CUDNN_SCALE_TENSOR_Impl T e st)
           (range_arg st 0 * range_arg st 1 * range_arg st 2 * range_arg st 3)"
  using assms
  by (simp add: items_are_def LAYER_CUDNN_SCALE_TENSOR_Impl_def iLAYER_CUDNN_SCALE_TENSOR_Impl_def
      scale_tensor_setup_ok_def setup_defs stmt_ok Let_def scale_tensor_loop_body_timed state_proj
      mult.assoc)

lemma batchnorm_fwd_items:
  assumes "batchnorm_fwd_setup_ok e"
  shows "items_are st (LAYER_CUDNN_BATCHNORM_FWD_Impl T batchnorm_mode is_training e st)
           (range_arg st 0 * range_arg st 1 * range_arg st 2 * range_arg st 3)"
  using assms
  by (simp add: items_are_def LAYER_CUDNN_BATCHNORM_FWD_Impl_def iLAYER_CUDNN_BATCHNORM_FWD_Impl_def
      batchnorm_fwd_setup_ok_def setup_defs stmt_ok Let_def state_proj mult.assoc)

lemma gemm_fwd_items:
  assumes "gemm_fwd_setup_ok e"
  shows "items_are st (LAYER_CUBLAS_GEMM_FWD_Impl T e st)
           (range_arg st 0 * range_arg st 1 * range_arg st 2)"
  using assms
  by (simp add: items_are_def LAYER_CUBLAS_GEMM_FWD_Impl_def iLAYER_CUBLAS_GEMM_FWD_Impl_def
      gemm_fwd_setup_ok_def setup_defs stmt_ok Let_def state_proj if_proj mult.assoc
      split del: if_split cong: if_cong)

lemma conv_fwd_items:
  assumes "conv_fwd_setup_ok T math_type e st"
  shows "items_are st (LAYER_CUDNN_CONV_FWD_Impl T alg math_type e st)
           (range_arg st 0 * range_arg st 4 * range_arg st 1 * range_arg st 2 * range_arg st 3)"
proof -
  obtain out_n out_c out_h out_w where od: "output_dim e = (out_n, out_c, out_h, out_w)"
    by (cases "output_dim e") auto
  have "iterations (LAYER_CUDNN_CONV_FWD_Impl T alg math_type e st) = max_iterations st
        \<and> items_processed (LAYER_CUDNN_CONV_FWD_Impl T alg math_type e st)
            = word_of_nat (max_iterations st) * range_arg st 0 * range_arg st 4 * range_arg st 1
              * range_arg st 3 * range_arg st 2"
    by (simp add: LAYER_CUDNN_CONV_FWD_Impl_def iLAYER_CUDNN_CONV_FWD_Impl_def
        conv_fwd_setup_okD [OF assms] od stmt_ok Let_def
        conv_fwd_report_proj state_proj if_proj split del: if_split cong: if_cong)
  then show ?thesis
    by (simp add: items_are_def mult.assoc mult.left_commute)
qed

lemma conv_bwd_data_items:
  assumes "conv_bwd_data_setup_ok math_type e"
  shows "items_are st (LAYER_CUDNN_CONV_BWD_DATA_Impl T alg math_type e st)
           (range_arg st 0 * range_arg st 4 * range_arg st 1 * range_arg st 2 * range_arg st 3)"
proof -
  obtain out_n out_c out_h out_w where od: "output_dim e = (out_n, out_c, out_h, out_w)"
    by (cases "output_dim e") auto
  have "iterations (LAYER_CUDNN_CONV_BWD_DATA_Impl T alg math_type e st) = max_iterations st
        \<and> items_processed (LAYER_CUDNN_CONV_BWD_DATA_Impl T alg math_type e st)
            = word_of_nat (max_iterations st) * range_arg st 0 * range_arg st 4 * range_arg st 1
              * range_arg st 3 * range_arg st 2"
    by (simp add: LAYER_CUDNN_CONV_BWD_DATA_Impl_def iLAYER_CUDNN_CONV_BWD_DATA_Impl_def
        conv_bwd_data_setup_okD [OF assms] od stmt_ok Let_def
        conv_bwd_data_report_proj state_proj if_proj split del: if_split cong: if_cong)
  then show ?thesis
    by (simp add: items_are_def mult.assoc mult.left_commute)
qed

lemma conv_bias_activation_items:
  assumes "conv_bias_activation_setup_ok T e st"
  shows "items_are st (LAYER_CUDNN_CONV_BIAS_ACTIVATION_FWD_Impl T alg activation_mode math_type e st)
           (range_arg st 0 * range_arg st 4 * range_arg st 1 * range_arg st 2 * range_arg st 3)"
proof -
  obtain out_n out_c out_h out_w where od: "output_dim e = (out_n, out_c, out_h, out_w)"
    by (cases "output_dim e") auto
  have "iterations (LAYER_CUDNN_CONV_BIAS_ACTIVATION_FWD_Impl T alg activation_mode math_type e st)
          = max_iterations st
        \<and> items_processed (LAYER_CUDNN_CONV_BIAS_ACTIVATION_FWD_Impl T alg activation_mode math_type e st)
            = word_of_nat (max_iterations st) * range_arg st 0 * range_arg st 4 * range_arg st 1
              * range_arg st 3 * range_arg st 2"
    by (simp add: LAYER_CUDNN_CONV_BIAS_ACTIVATION_FWD_Impl_def iLAYER_CUDNN_CONV_BIAS_ACTIVATION_FWD_Impl_def
        conv_bias_activation_setup_okD [OF assms] od stmt_ok Let_def
        conv_bias_activation_report_proj state_proj if_proj split del: if_split cong: if_cong)
  then show ?thesis
    by (simp add: items_are_def mult.assoc mult.left_commute)
qed

lemma conv_bwd_bias_items:
  assumes "conv_bwd_bias_setup_ok e"
  shows "items_are st (state_of (LAYER_CUDNN_CONV_BWD_BIAS_Impl T e st))
           (range_arg st 0 * range_arg st 4 * range_arg st 1 * range_arg st 2 * range_arg st 3)"
proof -
  have "iterations (state_of (LAYER_CUDNN_CONV_BWD_BIAS_Impl T e st)) = max_iterations st
        \<and> items_processed (state_of (LAYER_CUDNN_CONV_BWD_BIAS_Impl T e st))
            = word_of_nat (max_iterations st) * range_arg st 0 * range_arg st 4 * range_arg st 1
              * range_arg st 3 * range_arg st 2"
    using assms
    by (simp add: LAYER_CUDNN_CONV_BWD_BIAS_Impl_def conv_bwd_bias_setup_ok_def setup_defs stmt_ok
        Let_def state_proj)
  then show ?thesis
    by (simp add: items_are_def mult.assoc mult.left_commute)
qed

lemma pooling_bwd_items:
  assumes "pooling_bwd_setup_ok e"
  shows "items_are st (LAYER_CUDNN_POOLING_BWD_Impl T pooling_mode e st)
           (range_arg st 0 * range_arg st 1 * range_arg st 2 * range_arg st 3)"
proof -
  obtain out_n out_c out_h out_w where od: "output_dim e = (out_n, out_c, out_h, out_w)"
    by (cases "output_dim e") auto
  show ?thesis
    using assms
    by (simp add: items_are_def LAYER_CUDNN_POOLING_BWD_Impl_def iLAYER_CUDNN_POOLING_BWD_Impl_def
        pooling_bwd_setup_ok_def setup_defs stmt_ok od is_valid_def Let_def state_proj mult.assoc)
qed

lemma activation_bwd_items:
  assumes "activation_bwd_setup_ok e"
  shows "items_are st (state_of (LAYER_CUDNN_ACTIVATION_BWD_Impl T activation_mode e st))
           (range_arg st 0 * range_arg st 1 * (if range_arg st 2 = - 1 then 1 else range_arg st 2)
            * (if range_arg st 3 = - 1 then 1 else range_arg st 3))"
  using assms
  by (simp add: items_are_def LAYER_CUDNN_ACTIVATION_BWD_Impl_def
      activation_bwd_setup_ok_def setup_defs stmt_ok Let_def state_proj mult.assoc
      split del: if_split cong: if_cong)

lemma dropout_fwd_items:
  assumes "dropout_fwd_setup_ok e"
  shows "items_are st (LAYER_CUDNN_DROPOUT_FWD_Impl T e st)
           (range_arg st 0 * range_arg st 1 * (if range_arg st 2 = - 1 then 1 else range_arg st 2)
            * (if range_arg st 3 = - 1 then 1 else range_arg st 3))"
  using assms
  by (simp add: items_are_def LAYER_CUDNN_DROPOUT_FWD_Impl_def iLAYER_CUDNN_DROPOUT_FWD_Impl_def
      dropout_fwd_setup_ok_def setup_defs stmt_ok Let_def state_proj mult.assoc
      split del: if_split cong: if_cong)

subsection \<open>The counters recorded\<close>

lemma scale_tensor_counters:
  assumes "scale_tensor_setup_ok e"
  shows "counters (LAYER_CUDNN_SCALE_TENSOR_Impl T e st) =
           map_insert_all
             [(''input_size'', plain (double_of_int64
                 (range_arg st 0 * range_arg st 1 * range_arg st 2 * range_arg st 3))),
              (''input_n'', plain (double_of_int64 (range_arg st 0))),
              (''input_c'', plain (double_of_int64 (range_arg st 1))),
              (''input_h'', plain (double_of_int64 (range_arg st 2))),
              (''input_w'', plain (double_of_int64 (range_arg st 3))),
              (''x_tensor_layout'', plain (real_of_int (layout_of e ''x_tensor''))),
              (''alpha'', plain (convert_T T (range_arg st 4)))] (counters st)"
  using assms
  by (simp add: LAYER_CUDNN_SCALE_TENSOR_Impl_def iLAYER_CUDNN_SCALE_TENSOR_Impl_def
      scale_tensor_setup_ok_def setup_defs stmt_ok Let_def scale_tensor_loop_body_timed state_proj
      del: map_insert_all.simps)

lemma batchnorm_fwd_counters:
  assumes "batchnorm_fwd_setup_ok e"
  shows "counters (LAYER_CUDNN_BATCHNORM_FWD_Impl T batchnorm_mode is_training e st) =
           map_insert_all
             [(''predicted_flops_count'',
               plain (batchnorm_compute_flops (range_arg st 0) (range_arg st 1) (range_arg st 2)
                        (range_arg st 3) batchnorm_mode)),
              (''predicted_flops'',
               (batchnorm_compute_flops (range_arg st 0) (range_arg st 1) (range_arg st 2)
                  (range_arg st 3) batchnorm_mode * real (max_iterations st), kAvgThreadsRate))]
             (map_insert_all
                [(''input_size'', plain (double_of_int64
                    (range_arg st 0 * range_arg st 1 * range_arg st 2 * range_arg st 3))),
                 (''input_batch_size'', plain (double_of_int64 (range_arg st 0))),
                 (''input_channels'', plain (double_of_int64 (range_arg st 1))),
                 (''input_height'', plain (double_of_int64 (range_arg st 2))),
                 (''input_width'', plain (double_of_int64 (range_arg st 3))),
                 (''output_size'', plain (double_of_int64
                    (range_arg st 0 * range_arg st 1 * range_arg st 2 * range_arg st 3))),
                 (''output_batch_size'', plain (double_of_int64 (range_arg st 0))),
                 (''output_channels'', plain (double_of_int64 (range_arg st 1))),
                 (''output_height'', plain (double_of_int64 (range_arg st 2))),
                 (''output_width'', plain (double_of_int64 (range_arg st 3))),
                 (''is_training'', plain (if is_training then 1 else 0)),
                 (''x_tensor_layout'', plain (real_of_int (layout_of e ''x_tensor''))),
                 (''batchnorm_mode'', plain (real_of_int (batchnorm_mode_int batchnorm_mode)))]
                (counters st))"
  using assms
  by (simp add: LAYER_CUDNN_BATCHNORM_FWD_Impl_def iLAYER_CUDNN_BATCHNORM_FWD_Impl_def
      batchnorm_fwd_setup_ok_def setup_defs stmt_ok Let_def state_proj
      del: map_insert_all.simps split del: if_split)

lemma conv_bwd_bias_counters:
  assumes "conv_bwd_bias_setup_ok e"
  shows "counters (state_of (LAYER_CUDNN_CONV_BWD_BIAS_Impl T e st)) =
           map_insert_all
             [(''input_size'', plain (double_of_int64
                 (range_arg st 0 * range_arg st 1 * range_arg st 2 * range_arg st 3))),
              (''input_height'', plain (double_of_int64 (range_arg st 2))),
              (''input_width'', plain (double_of_int64 (range_arg st 3))),
              (''input_channels'', plain (double_of_int64 (range_arg st 1))),
              (''input_batch_size'', plain (double_of_int64 (range_arg st 0))),
              (''num_filters'', plain (double_of_int64 (range_arg st 4))),
              (''filter_height'', plain (double_of_int64 (range_arg st 6))),
              (''filter_width'', plain (double_of_int64 (range_arg st 5))),
              (''pad_height'', plain (double_of_int64 (range_arg st 8))),
              (''pad_width'', plain (double_of_int64 (range_arg st 7))),
              (''stride_height'', plain (double_of_int64 (range_arg st 10))),
              (''stride_width'', plain (double_of_int64 (range_arg st 9))),
              (''dilation_height'', plain (double_of_int64 (range_arg st 11))),
              (''dilation_width'', plain (double_of_int64 (range_arg st 12))),
              (''output_size'', plain (double_of_int64
                 (range_arg st 0 * range_arg st 4
                  * calc_conv_out_dim e (range_arg st 2) (range_arg st 6) (range_arg st 8)
                      (range_arg st 10) (range_arg st 11)
                  * calc_conv_out_dim e (range_arg st 3) (range_arg st 5) (range_arg st 7)
                      (range_arg st 9) (range_arg st 12)))),
              (''output_height'', plain (double_of_int64
                 (calc_conv_out_dim e (range_arg st 2) (range_arg st 6) (range_arg st 8)
                    (range_arg st 10) (range_arg st 11)))),
              (''output_width'', plain (double_of_int64
                 (calc_conv_out_dim e (range_arg st 3) (range_arg st 5) (range_arg st 7)
                    (range_arg st 9) (range_arg st 12)))),
              (''output_channels'', plain (double_of_int64 (range_arg st 4))),
              (''x_tensor_layout'', plain (real_of_int (layout_of e ''x_tensor''))),
              (''y_tensor_layout'', plain (real_of_int (layout_of e ''y_tensor''))),
              (''w_filter_layout'', plain (real_of_int (layout_of e ''w_filter''))),
              (''output_batch_size'', plain (double_of_int64 (range_arg st 0)))] (counters st)"
  using assms
  by (simp add: LAYER_CUDNN_CONV_BWD_BIAS_Impl_def conv_bwd_bias_setup_ok_def setup_defs stmt_ok
      Let_def state_proj del: map_insert_all.simps)

lemma gemm_fwd_counters:
  assumes "gemm_fwd_setup_ok e"
  shows "counters (LAYER_CUBLAS_GEMM_FWD_Impl T e st) =
           map_insert_all
             [(''predicted_flops_count'',
               plain (2 * double_of_int64 (range_arg st 0) * double_of_int64 (range_arg st 1)
                      * double_of_int64 (range_arg st 2))),
              (''predicted_flops'',
               (2 * double_of_int64 (range_arg st 0) * double_of_int64 (range_arg st 1)
                  * double_of_int64 (range_arg st 2) * real (max_iterations st), kAvgThreadsRate))]
             (map_insert_all
                [(''M'', plain (double_of_int64 (range_arg st 0))),
                 (''N'', plain (double_of_int64 (range_arg st 1))),
                 (''K'', plain (double_of_int64 (range_arg st 2))),
                 (''alpha'', plain (double_of_int64 (range_arg st 5))),
                 (''beta'', plain (double_of_int64 (range_arg st 6))),
                 (''lda'', plain (double_of_int32
                    (narrow (if range_arg st 3 = 0 then range_arg st 0 else range_arg st 2)))),
                 (''ldb'', plain (double_of_int32
                    (narrow (if range_arg st 4 = 0 then range_arg st 2 else range_arg st 1)))),
                 (''transA'', plain (if range_arg st 3 = 0 then 0 else 1)),
                 (''transB'', plain (if range_arg st 4 = 0 then 0 else 1))]
                (counters st))"
proof -
  have ops: "((if c then CUBLAS_OP_N else CUBLAS_OP_T) = CUBLAS_OP_N) = c" for c
    by simp
  show ?thesis
    using assms
    by (simp add: LAYER_CUBLAS_GEMM_FWD_Impl_def iLAYER_CUBLAS_GEMM_FWD_Impl_def
        gemm_fwd_setup_ok_def setup_defs stmt_ok Let_def state_proj if_proj ops
        del: map_insert_all.simps split del: if_split cong: if_cong)
qed

lemma conv_fwd_flops_counter:
  assumes "conv_fwd_setup_ok T math_type e st"
    and "output_dim e = (out_n, out_c, out_h, out_w)"
    and "counters st ''predicted_flops_count'' = None"
  shows "counters (LAYER_CUDNN_CONV_FWD_Impl T alg math_type e st) ''predicted_flops_count'' =
           Some (plain (conv_fwd_compute_flops (range_arg st 0) (range_arg st 4) (range_arg st 1)
                          (range_arg st 2) (range_arg st 3) (range_arg st 5) (range_arg st 6)
                          out_h out_w alg
                        / double_of_int64 (if range_arg st 13 = 0 then 1 else range_arg st 13)))"
proof -
  have absent: "map_of (conv_fwd_counters e alg mt cm a1 a2 a3 a4 a5 a6 a7 a8 a9 a10 a11 a12 a13
                          b1 b2 b3 b4 wb adv) ''predicted_flops_count'' = None"
    for mt cm a1 a2 a3 a4 a5 a6 a7 a8 a9 a10 a11 a12 a13 b1 b2 b3 b4 wb adv
    by (simp add: conv_fwd_counters_def)
  show ?thesis
    by (simp add: LAYER_CUDNN_CONV_FWD_Impl_def iLAYER_CUDNN_CONV_FWD_Impl_def
        conv_fwd_setup_okD [OF assms(1)] assms(2,3) stmt_ok Let_def
        conv_fwd_report_counters map_insert_all_lookup absent state_proj if_proj
        del: map_insert_all.simps split del: if_split cong: if_cong)
qed

lemma conv_fwd_workspace_counter:
  assumes "conv_fwd_setup_ok T math_type e st"
    and "counters st ''workspace_bytes'' = None"
  shows "counters (LAYER_CUDNN_CONV_FWD_Impl T alg math_type e st) ''workspace_bytes'' =
           Some (plain (double_of_size_t
                   (if T = Int8 then fallback_workspace_bytes
                    else if IS_ERROR (api_status e ''cudnnGetConvolutionForwardWorkspaceSize'' 0)
                         then fallback_workspace_bytes
                         else queried_bytes e ''workspace_bytes'')))"
proof -
  obtain out_n out_c out_h out_w where od: "output_dim e = (out_n, out_c, out_h, out_w)"
    by (cases "output_dim e") auto
  have present: "map_of (conv_fwd_counters e alg mt cm a1 a2 a3 a4 a5 a6 a7 a8 a9 a10 a11 a12 a13
                          b1 b2 b3 b4 wb adv) ''workspace_bytes'' = Some (plain (double_of_size_t wb))"
    for mt cm a1 a2 a3 a4 a5 a6 a7 a8 a9 a10 a11 a12 a13 b1 b2 b3 b4 wb adv
    by (simp add: conv_fwd_counters_def)
  show ?thesis
    by (simp add: LAYER_CUDNN_CONV_FWD_Impl_def iLAYER_CUDNN_CONV_FWD_Impl_def
        conv_fwd_setup_okD [OF assms(1)] od assms(2) stmt_ok Let_def PRINT_IF_ERROR_def
        conv_fwd_report_counters map_insert_all_lookup present state_proj if_proj
        del: map_insert_all.simps split del: if_split cong: if_cong)
qed

subsection \<open>The calls made and the times reported\<close>



lemma iteration_events_compute_calls:
  assumes "name \<notin> set timing_calls"
  shows "filter (is_call_of name) (iteration_events e name args i) = [Call name args]"
  using assms
  by (auto simp add: iteration_events_def is_call_of_def timing_calls_def)

lemma filter_concat_map_singleton:
  "(\<And>x. filter P (f x) = [g x]) \<Longrightarrow> filter P (concat (map f xs)) = map g xs"
  by (induction xs) simp_all

lemma loop_events_compute_calls:
  assumes "name \<notin> set timing_calls"
  shows "filter (is_call_of name) (loop_events e name args n)
           = replicate (iterations_begun (iteration_fails e name) 0 n) (Call name args)"
proof -
  have "filter (is_call_of name) (loop_events e name args n)
          = map (\<lambda>i. Call name args) [0..<iterations_begun (iteration_fails e name) 0 n]"
    unfolding loop_events_def
    by (rule filter_concat_map_singleton) (rule iteration_events_compute_calls [OF assms])
  then show ?thesis
    by (simp add: map_replicate_const)
qed

lemma scale_tensor_trace:
  assumes "scale_tensor_setup_ok e"
  shows "trace (LAYER_CUDNN_SCALE_TENSOR_Impl T e st) =
           trace st @ scale_tensor_setup_events T st
           @ loop_events e ''cudnnScaleTensor'' [] (iterations_to_run st)"
  using assms
  by (simp add: LAYER_CUDNN_SCALE_TENSOR_Impl_def iLAYER_CUDNN_SCALE_TENSOR_Impl_def
      scale_tensor_setup_ok_def setup_defs stmt_ok Let_def scale_tensor_loop_body_timed state_proj
      scale_tensor_setup_events_def iterations_to_run_def)

lemma scale_tensor_manual_times:
  assumes "scale_tensor_setup_ok e"
  shows "manual_times (LAYER_CUDNN_SCALE_TENSOR_Impl T e st) =
           manual_times st @ loop_times e ''cudnnScaleTensor'' (iterations_to_run st)"
  using assms
  by (simp add: LAYER_CUDNN_SCALE_TENSOR_Impl_def iLAYER_CUDNN_SCALE_TENSOR_Impl_def
      scale_tensor_setup_ok_def setup_defs stmt_ok Let_def scale_tensor_loop_body_timed state_proj
      iterations_to_run_def)

lemma gemm_fwd_trace:
  assumes "gemm_fwd_setup_ok e"
  shows "trace (LAYER_CUBLAS_GEMM_FWD_Impl T e st) =
           trace st @ gemm_fwd_setup_events (if T = Int8 then Float else T) st
           @ (if is_half_v (if T = Int8 then Float else T) then
                loop_events e ''cublasGemmEx''
                  [op_int CUBLAS_OP_N, op_int CUBLAS_OP_N,
                   sint (narrow (range_arg st 0)), sint (narrow (range_arg st 1)),
                   sint (narrow (range_arg st 2)), sint (narrow (range_arg st 0)),
                   sint (narrow (range_arg st 2)), sint (narrow (range_arg st 0))]
                  (iterations_to_run st)
              else
                loop_events e ''cublasSgemm''
                  [op_int (if range_arg st 3 = 0 then CUBLAS_OP_N else CUBLAS_OP_T),
                   op_int (if range_arg st 4 = 0 then CUBLAS_OP_N else CUBLAS_OP_T),
                   sint (narrow (range_arg st 0)), sint (narrow (range_arg st 1)),
                   sint (narrow (range_arg st 2)),
                   sint (narrow (if range_arg st 3 = 0 then range_arg st 0 else range_arg st 2)),
                   sint (narrow (if range_arg st 4 = 0 then range_arg st 2 else range_arg st 1)),
                   sint (narrow (range_arg st 0))]
                  (iterations_to_run st))
           @ [Call ''cudaFree(d_c)'' [], Call ''cudaFree(d_b)'' [], Call ''cudaFree(d_a)'' []]"
proof -
  have ops: "((if c then CUBLAS_OP_N else CUBLAS_OP_T) = CUBLAS_OP_N) = c" for c
    by simp
  show ?thesis
  proof (cases "is_half_v (if T = Int8 then Float else T)")
    case True
    then show ?thesis
      using assms
      by (simp add: LAYER_CUBLAS_GEMM_FWD_Impl_def iLAYER_CUBLAS_GEMM_FWD_Impl_def
          gemm_fwd_setup_ok_def setup_defs stmt_ok Let_def state_proj if_proj ops
          gemm_fwd_setup_events_def iterations_to_run_def
          split del: if_split cong: if_cong)
  next
    case False
    then show ?thesis
      using assms
      by (simp add: LAYER_CUBLAS_GEMM_FWD_Impl_def iLAYER_CUBLAS_GEMM_FWD_Impl_def
          gemm_fwd_setup_ok_def setup_defs stmt_ok Let_def state_proj if_proj ops
          gemm_fwd_setup_events_def iterations_to_run_def
          split del: if_split cong: if_cong)
  qed
qed

subsection \<open>When a case ends skipped\<close>

lemma try_catch_Thrown:
  "try_catch name (Thrown x s) = SkipWithError (exception_message name x) s"
  by (cases x) simp_all

lemma error_occurred_checked:
  "error_occurred (try_catch nm (checked e name k args msg st rest)) =
     (IS_ERROR (api_status e name k)
      \<or> error_occurred (try_catch nm (rest (emit (Call name args) st))))"
  by (simp add: checked_def PRINT_IF_ERROR_def Let_def SkipWithError_proj)

lemma error_occurred_checked_if:
  "error_occurred (try_catch nm (checked_if c e name k args msg st rest)) =
     ((c \<and> IS_ERROR (api_status e name k))
      \<or> error_occurred (try_catch nm (rest (if c then emit (Call name args) st else st))))"
  by (simp add: checked_if_def error_occurred_checked)

lemma error_occurred_defer_call:
  "error_occurred (try_catch nm (defer_call name out)) = error_occurred (try_catch nm out)"
  by (cases out) (simp_all add: defer_call_def try_catch_Thrown SkipWithError_proj emit_proj)

lemmas error_occurred_stmt = error_occurred_checked error_occurred_checked_if error_occurred_defer_call
  with_tensor_ok with_memory_ok with_vector_ok

lemma iterations_timed_less:
  "(iterations_timed fails i n < iterations_begun fails i n)
     = (iterations_timed fails i n \<noteq> iterations_begun fails i n)"
  using iterations_timed_le [of fails i n] by auto

lemma conv_fwd_helpers_okD:
  assumes "conv_fwd_helpers_ok T math_type e"
  shows "has_cuda e"
    and "(CUDNN_SUPPORTS_TENSOR_OPS e \<and> (is_half_v T \<or> math_type = CUDNN_TENSOR_OP_MATH)
          \<and> \<not> SupportsTensorCore e) = False"
    and "tensor_result e ''x_tensor'' = Valid"
    and "tensor_result e ''w_filter'' = Valid"
    and "tensor_result e ''y_tensor'' = Valid"
    and "vector_exn e ''input'' = (\<lambda>n. None)"
    and "vector_exn e ''kernel'' = (\<lambda>n. None)"
    and "memory_result e ''workspace_memory'' = Valid"
    and "memory_result e ''x_memory'' = Valid"
    and "memory_result e ''w_memory'' = Valid"
    and "memory_result e ''y_memory'' = Valid"
  using assms
  by (auto simp add: conv_fwd_helpers_ok_def tensors_valid_def vectors_built_def memories_valid_def)

lemma conv_bwd_data_helpers_okD:
  assumes "conv_bwd_data_helpers_ok math_type e"
  shows "has_cuda e"
    and "(CUDNN_SUPPORTS_TENSOR_OPS e \<and> math_type = CUDNN_TENSOR_OP_MATH \<and> \<not> SupportsTensorCore e) = False"
    and "tensor_result e ''dx_tensor'' = Valid"
    and "tensor_result e ''w_filter'' = Valid"
    and "tensor_result e ''dy_tensor'' = Valid"
    and "vector_exn e ''input'' = (\<lambda>n. None)"
    and "vector_exn e ''kernel'' = (\<lambda>n. None)"
    and "vector_exn e ''output'' = (\<lambda>n. None)"
    and "memory_result e ''workspace_memory'' = Valid"
    and "memory_result e ''w_memory'' = Valid"
    and "memory_result e ''dy_memory'' = Valid"
    and "memory_result e ''dx_memory'' = Valid"
  using assms
  by (auto simp add: conv_bwd_data_helpers_ok_def tensors_valid_def vectors_built_def
      memories_valid_def)

lemma conv_bias_activation_helpers_okD:
  assumes "conv_bias_activation_helpers_ok T e"
  shows "has_cuda e"
    and "(CUDNN_SUPPORTS_TENSOR_OPS e \<and> (is_half_v T \<or> CUDNN_DEFAULT_MATH = CUDNN_TENSOR_OP_MATH)
          \<and> \<not> SupportsTensorCore e) = False"
    and "tensor_result e ''x_tensor'' = Valid"
    and "tensor_result e ''w_filter'' = Valid"
    and "tensor_result e ''y_tensor'' = Valid"
    and "tensor_result e ''bias_tensor'' = Valid"
    and "vector_exn e ''input'' = (\<lambda>n. None)"
    and "vector_exn e ''kernel'' = (\<lambda>n. None)"
    and "vector_exn e ''output'' = (\<lambda>n. None)"
    and "vector_exn e ''bias'' = (\<lambda>n. None)"
    and "memory_result e ''workspace_memory'' = Valid"
    and "memory_result e ''x_memory'' = Valid"
    and "memory_result e ''w_memory'' = Valid"
    and "memory_result e ''y_memory'' = Valid"
    and "memory_result e ''z_memory'' = Valid"
    and "memory_result e ''bias_memory'' = Valid"
  using assms
  by (auto simp add: conv_bias_activation_helpers_ok_def tensors_valid_def vectors_built_def
      memories_valid_def)

lemma conv_fwd_skipped_iff:
  assumes "conv_fwd_helpers_ok T math_type e" and "\<not> error_occurred st"
  shows "error_occurred (LAYER_CUDNN_CONV_FWD_Impl T alg math_type e st)
           = (\<not> conv_fwd_checked_calls_succeed e st)"
proof -
  obtain out_n out_c out_h out_w where od: "output_dim e = (out_n, out_c, out_h, out_w)"
    by (cases "output_dim e") auto
  show ?thesis
    by (simp add: LAYER_CUDNN_CONV_FWD_Impl_def iLAYER_CUDNN_CONV_FWD_Impl_def
        conv_fwd_helpers_okD [OF assms(1)] assms(2) od error_occurred_stmt Let_def
        conv_fwd_report_proj state_proj if_proj iterations_timed_less
        conv_fwd_checked_calls_succeed_def conv_fwd_setup_calls_def calls_succeed_simps
        split del: if_split cong: if_cong)
       blast
qed

lemma conv_bwd_data_skipped_iff:
  assumes "conv_bwd_data_helpers_ok math_type e" and "\<not> error_occurred st"
  shows "error_occurred (LAYER_CUDNN_CONV_BWD_DATA_Impl T alg math_type e st)
           = (\<not> conv_bwd_data_checked_calls_succeed e st)"
proof -
  obtain out_n out_c out_h out_w where od: "output_dim e = (out_n, out_c, out_h, out_w)"
    by (cases "output_dim e") auto
  show ?thesis
    by (simp add: LAYER_CUDNN_CONV_BWD_DATA_Impl_def iLAYER_CUDNN_CONV_BWD_DATA_Impl_def
        conv_bwd_data_helpers_okD [OF assms(1)] assms(2) od error_occurred_stmt Let_def
        conv_bwd_data_report_proj state_proj if_proj iterations_timed_less
        conv_bwd_data_checked_calls_succeed_def conv_bwd_data_setup_calls_def calls_succeed_simps
        split del: if_split cong: if_cong)
qed

lemma conv_bias_activation_skipped_iff:
  assumes "conv_bias_activation_helpers_ok T e" and "\<not> error_occurred st"
  shows "error_occurred
           (LAYER_CUDNN_CONV_BIAS_ACTIVATION_FWD_Impl T alg activation_mode math_type e st)
           = (\<not> conv_bias_activation_checked_calls_succeed e st)"
proof -
  obtain out_n out_c out_h out_w where od: "output_dim e = (out_n, out_c, out_h, out_w)"
    by (cases "output_dim e") auto
  show ?thesis
    by (simp add: LAYER_CUDNN_CONV_BIAS_ACTIVATION_FWD_Impl_def
        iLAYER_CUDNN_CONV_BIAS_ACTIVATION_FWD_Impl_def
        conv_bias_activation_helpers_okD [OF assms(1)] assms(2) od error_occurred_stmt Let_def
        conv_bias_activation_report_proj state_proj if_proj iterations_timed_less
        conv_bias_activation_checked_calls_succeed_def conv_bias_activation_setup_calls_def
        calls_succeed_simps
        split del: if_split cong: if_cong)
qed

lemma conv_fwd_advised_counter:
  assumes "conv_fwd_setup_ok T math_type e st"
    and "counters st ''advised_convolution_algorithm'' = None"
  shows "counters (LAYER_CUDNN_CONV_FWD_Impl T alg math_type e st) ''advised_convolution_algorithm'' =
           Some (plain (real_of_int
                   (if api_status e ''cudnnGetConvolutionForwardAlgorithm'' 0 \<noteq> 0
                    then - 1 else advised_algo e)))"
proof -
  obtain out_n out_c out_h out_w where od: "output_dim e = (out_n, out_c, out_h, out_w)"
    by (cases "output_dim e") auto
  have present: "map_of (conv_fwd_counters e alg mt cm a1 a2 a3 a4 a5 a6 a7 a8 a9 a10 a11 a12 a13
                          b1 b2 b3 b4 wb adv) ''advised_convolution_algorithm''
                   = Some (plain (real_of_int adv))"
    for mt cm a1 a2 a3 a4 a5 a6 a7 a8 a9 a10 a11 a12 a13 b1 b2 b3 b4 wb adv
    by (simp add: conv_fwd_counters_def)
  show ?thesis
    by (simp add: LAYER_CUDNN_CONV_FWD_Impl_def iLAYER_CUDNN_CONV_FWD_Impl_def
        conv_fwd_setup_okD [OF assms(1)] od assms(2) stmt_ok Let_def
        conv_fwd_report_counters map_insert_all_lookup present state_proj if_proj
        del: map_insert_all.simps split del: if_split cong: if_cong)
qed

lemma conv_fwd_compute_calls:
  assumes "conv_fwd_setup_ok T math_type e st" and "\<not> error_occurred st"
    and "filter (is_call_of ''cudnnConvolutionForward'') (trace st) = []"
  shows "filter (is_call_of ''cudnnConvolutionForward'')
           (trace (LAYER_CUDNN_CONV_FWD_Impl T alg math_type e st))
         = replicate
             (iterations_begun (iteration_fails e ''cudnnConvolutionForward'') 0 (max_iterations st))
             (Call ''cudnnConvolutionForward''
                [alg, uint (if T = Int8 then fallback_workspace_bytes
                            else if IS_ERROR (api_status e ''cudnnGetConvolutionForwardWorkspaceSize'' 0)
                                 then fallback_workspace_bytes
                                 else queried_bytes e ''workspace_bytes'')])"
proof -
  obtain out_n out_c out_h out_w where od: "output_dim e = (out_n, out_c, out_h, out_w)"
    by (cases "output_dim e") auto
  have nt: "''cudnnConvolutionForward'' \<notin> set timing_calls"
    by (simp add: timing_calls_def)
  have f: "filter (is_call_of ''cudnnConvolutionForward'') (loop_events e ''cudnnConvolutionForward'' args n)
             = replicate (iterations_begun (iteration_fails e ''cudnnConvolutionForward'') 0 n)
                 (Call ''cudnnConvolutionForward'' args)" for args n
    by (rule loop_events_compute_calls [OF nt])
  show ?thesis
    by (simp add: LAYER_CUDNN_CONV_FWD_Impl_def iLAYER_CUDNN_CONV_FWD_Impl_def
        conv_fwd_setup_okD [OF assms(1)] assms(2,3) od stmt_ok Let_def PRINT_IF_ERROR_def
        conv_fwd_report_proj state_proj if_proj f is_call_of_def
        if_distrib [of "filter (is_call_of ''cudnnConvolutionForward'')"]
        cong: if_cong)
qed

subsection \<open>The message of a timed loop that fails\<close>

lemma timed_loop_body_message:
  "iteration_fails e name i \<Longrightarrow>
     error_message (snd (timed_loop_body e msg lm lib name args i st))
       = (if error_occurred st then error_message st else failure_message e msg lm lib name i)"
  by (auto simp add: timed_loop_body_def vendor_call_def PRINT_IF_ERROR_def Let_def iteration_fails_def
      failure_message_def emit_def SkipWithError_def PauseTiming_def)

lemma run_iterations_error_message:
  "error_message (run_iterations (timed_loop_body e msg lm lib name args) i n st) =
     (if error_occurred st then error_message st
      else case first_failure (iteration_fails e name) i n of
             None \<Rightarrow> error_message st
           | Some k \<Rightarrow> failure_message e msg lm lib name k)"
proof (induction n arbitrary: i st)
  case 0
  show ?case by (simp add: FinishKeepRunning_def)
next
  case (Suc n)
  obtain b st' where body: "timed_loop_body e msg lm lib name args i st = (b, st')"
    by (cases "timed_loop_body e msg lm lib name args i st")
  have b: "b = iteration_fails e name i"
    using timed_loop_body_break [of e msg lm lib name args i st] body by simp
  show ?case
  proof (cases b)
    case True
    then show ?thesis
      using timed_loop_body_message [of e name i msg lm lib args st] b body by simp
  next
    case False
    then show ?thesis
      using timed_loop_body_timed [of e name i msg lm lib args st] b body Suc.IH [of "Suc i" st']
      by (simp split: option.splits)
  qed
qed

lemma range_for_error_message:
  "error_message (range_for (timed_loop_body e msg lm lib name args) st) =
     (if error_occurred st then error_message st
      else case first_failure (iteration_fails e name) 0 (max_iterations st) of
             None \<Rightarrow> error_message st
           | Some k \<Rightarrow> failure_message e msg lm lib name k)"
  using run_iterations_error_message [of e msg lm lib name args 0]
  by (simp add: range_for_def StartKeepRunning_def Let_def FinishKeepRunning_def
      split: option.splits)

lemma first_failure_iterations:
  "first_failure fails i n = Some k \<Longrightarrow>
     iterations_begun fails i n = Suc (k - i) \<and> iterations_timed fails i n = k - i
     \<and> i \<le> k \<and> k < i + n \<and> fails k"
proof (induction n arbitrary: i)
  case 0
  then show ?case by simp
next
  case (Suc n)
  show ?case
  proof (cases "fails i")
    case True
    then show ?thesis using Suc.prems by simp
  next
    case False
    then have "first_failure fails (Suc i) n = Some k"
      using Suc.prems by simp
    from Suc.IH [OF this] False show ?thesis
      by (auto simp add: Suc_diff_le)
  qed
qed

lemma scale_tensor_error_message:
  assumes "scale_tensor_setup_ok e" and "\<not> error_occurred st"
  shows "error_message (LAYER_CUDNN_SCALE_TENSOR_Impl T e st) =
           (case first_failure (iteration_fails e ''cudnnScaleTensor'') 0 (max_iterations st) of
              None \<Rightarrow> error_message st
            | Some k \<Rightarrow>
                failure_message e
                  (\<lambda>l s. SCALE_TENSOR_NAME @ '' failed to perform cudnnAddTensor because of ''
                          @ error_string e l s)
                  (SCALE_TENSOR_NAME @ '' failed to launch kernel'') CUDNN ''cudnnScaleTensor'' k)"
  using assms
  by (simp add: LAYER_CUDNN_SCALE_TENSOR_Impl_def iLAYER_CUDNN_SCALE_TENSOR_Impl_def
      scale_tensor_setup_ok_def setup_defs stmt_ok Let_def scale_tensor_loop_body_timed state_proj
      range_for_error_message split: option.splits)

lemma scale_tensor_error_occurred:
  assumes "scale_tensor_setup_ok e"
  shows "error_occurred (LAYER_CUDNN_SCALE_TENSOR_Impl T e st) =
           (error_occurred st
            \<or> iterations_timed (iteration_fails e ''cudnnScaleTensor'') 0 (max_iterations st)
                < iterations_begun (iteration_fails e ''cudnnScaleTensor'') 0 (max_iterations st))"
  using assms
  by (simp add: LAYER_CUDNN_SCALE_TENSOR_Impl_def iLAYER_CUDNN_SCALE_TENSOR_Impl_def
      scale_tensor_setup_ok_def setup_defs stmt_ok Let_def scale_tensor_loop_body_timed state_proj)

subsection \<open>The shape counters of the other bodies\<close>

lemma conv_fwd_counter_lookup:
  assumes "conv_fwd_setup_ok T math_type e st"
    and "output_dim e = (out_n, out_c, out_h, out_w)"
    and "counters st k = None"
    and "k \<noteq> ''advised_time''" "k \<noteq> ''advised_memory''" "k \<noteq> ''advised_determinism''"
    and "\<And>mt cm fh fw ph pw sh sw dh dw wb adv.
           map_of (conv_fwd_counters e alg mt cm (range_arg st 0) (range_arg st (Suc 0)) (range_arg st 2)
                     (range_arg st 3) (range_arg st 4) fh fw ph pw sh sw dh dw
                     out_n out_c out_h out_w wb adv) k = Some v"
  shows "counters (LAYER_CUDNN_CONV_FWD_Impl T alg math_type e st) k = Some v"
  by (simp add: LAYER_CUDNN_CONV_FWD_Impl_def iLAYER_CUDNN_CONV_FWD_Impl_def
      conv_fwd_setup_okD [OF assms(1)] assms(2-7) stmt_ok Let_def
      conv_fwd_report_counters map_insert_all_lookup state_proj if_proj
      del: map_insert_all.simps split del: if_split cong: if_cong)

lemma conv_bwd_data_counter_lookup:
  assumes "conv_bwd_data_setup_ok math_type e"
    and "output_dim e = (out_n, out_c, out_h, out_w)"
    and "counters st k = None"
    and "k \<noteq> ''advised_time''" "k \<noteq> ''advised_memory''" "k \<noteq> ''advised_determinism''"
    and "\<And>fh fw ph pw sh sw dh dw wb adv.
           map_of (conv_bwd_data_counters e alg (range_arg st 0) (range_arg st (Suc 0)) (range_arg st 2)
                     (range_arg st 3) (range_arg st 4) fh fw ph pw sh sw dh dw
                     out_n out_c out_h out_w wb adv) k = Some v"
  shows "counters (LAYER_CUDNN_CONV_BWD_DATA_Impl T alg math_type e st) k = Some v"
  by (simp add: LAYER_CUDNN_CONV_BWD_DATA_Impl_def iLAYER_CUDNN_CONV_BWD_DATA_Impl_def
      conv_bwd_data_setup_okD [OF assms(1)] assms(2-7) stmt_ok Let_def
      conv_bwd_data_report_counters map_insert_all_lookup state_proj if_proj
      del: map_insert_all.simps split del: if_split cong: if_cong)

lemma conv_bias_activation_counter_lookup:
  assumes "conv_bias_activation_setup_ok T e st"
    and "output_dim e = (out_n, out_c, out_h, out_w)"
    and "counters st k = None"
    and "k \<noteq> ''advised_time''" "k \<noteq> ''advised_memory''" "k \<noteq> ''advised_determinism''"
    and "\<And>mt cm fh fw ph pw sh sw dh dw wb adv.
           map_of (conv_bias_activation_counters e alg activation_mode mt cm
                     (range_arg st 0) (range_arg st (Suc 0)) (range_arg st 2)
                     (range_arg st 3) (range_arg st 4) fh fw ph pw sh sw dh dw
                     out_n out_c out_h out_w wb adv) k = Some v"
  shows "counters (LAYER_CUDNN_CONV_BIAS_ACTIVATION_FWD_Impl T alg activation_mode math_type e st) k
           = Some v"
  by (simp add: LAYER_CUDNN_CONV_BIAS_ACTIVATION_FWD_Impl_def
      iLAYER_CUDNN_CONV_BIAS_ACTIVATION_FWD_Impl_def
      conv_bias_activation_setup_okD [OF assms(1)] assms(2-7) stmt_ok Let_def
      conv_bias_activation_report_counters map_insert_all_lookup state_proj if_proj
      del: map_insert_all.simps split del: if_split cong: if_cong)

lemma pooling_bwd_shape_counters:
  assumes "pooling_bwd_setup_ok e"
    and "output_dim e = (out_n, out_c, out_h, out_w)"
    and "counters st = Map.empty"
  shows "counters_are (LAYER_CUDNN_POOLING_BWD_Impl T pooling_mode e st)
           [(''input_size'', double_of_int64
               (range_arg st 0 * range_arg st 1 * range_arg st 2 * range_arg st 3)),
            (''input_batch_size'', double_of_int64 (range_arg st 0)),
            (''input_channels'', double_of_int64 (range_arg st 1)),
            (''input_height'', double_of_int64 (range_arg st 2)),
            (''input_width'', double_of_int64 (range_arg st 3)),
            (''output_size'', double_of_int32 (out_n * out_c * out_h * out_w)),
            (''output_batch_size'', double_of_int32 out_n),
            (''output_channels'', double_of_int32 out_c),
            (''output_height'', double_of_int32 out_h),
            (''output_width'', double_of_int32 out_w)]"
proof -
  have "counters (LAYER_CUDNN_POOLING_BWD_Impl T pooling_mode e st) k =
          map_of
            [(''input_size'', plain (double_of_int64
                (range_arg st 0 * range_arg st 1 * range_arg st 2 * range_arg st 3))),
             (''input_batch_size'', plain (double_of_int64 (range_arg st 0))),
             (''input_channels'', plain (double_of_int64 (range_arg st 1))),
             (''input_height'', plain (double_of_int64 (range_arg st 2))),
             (''input_width'', plain (double_of_int64 (range_arg st 3))),
             (''output_size'', plain (double_of_int32 (out_n * out_c * out_h * out_w))),
             (''output_batch_size'', plain (double_of_int32 out_n)),
             (''output_channels'', plain (double_of_int32 out_c)),
             (''output_height'', plain (double_of_int32 out_h)),
             (''output_width'', plain (double_of_int32 out_w))] k"
    if "k \<in> set [''input_size'', ''input_batch_size'', ''input_channels'', ''input_height'',
                    ''input_width'', ''output_size'', ''output_batch_size'', ''output_channels'',
                    ''output_height'', ''output_width'']" for k
    using assms that
    by (simp add: LAYER_CUDNN_POOLING_BWD_Impl_def iLAYER_CUDNN_POOLING_BWD_Impl_def
        pooling_bwd_setup_ok_def setup_defs stmt_ok is_valid_def Let_def state_proj
        map_insert_all_lookup)
      (elim disjE; simp)
  then show ?thesis
    by (simp add: counters_are_def counter_is_def)
qed

lemma activation_bwd_shape_counters:
  assumes "activation_bwd_setup_ok e"
    and "counters st = Map.empty"
    and "in_h = (if range_arg st 2 = - 1 then 1 else range_arg st 2)"
    and "in_w = (if range_arg st 3 = - 1 then 1 else range_arg st 3)"
  shows "counters_are (state_of (LAYER_CUDNN_ACTIVATION_BWD_Impl T activation_mode e st))
           [(''input_size'', double_of_int64 (range_arg st 0 * range_arg st 1 * in_h * in_w)),
            (''input_batch_size'', double_of_int64 (range_arg st 0)),
            (''input_channels'', double_of_int64 (range_arg st 1)),
            (''input_height'', double_of_int64 in_h),
            (''input_width'', double_of_int64 in_w),
            (''output_size'', double_of_int64 (range_arg st 0 * range_arg st 1 * in_h * in_w)),
            (''output_batch_size'', double_of_int64 (range_arg st 0)),
            (''output_channels'', double_of_int64 (range_arg st 1)),
            (''output_height'', double_of_int64 in_h),
            (''output_width'', double_of_int64 in_w)]"
proof -
  have "counters (state_of (LAYER_CUDNN_ACTIVATION_BWD_Impl T activation_mode e st)) k =
          map_of
            [(''input_size'', plain (double_of_int64 (range_arg st 0 * range_arg st 1 * in_h * in_w))),
             (''input_batch_size'', plain (double_of_int64 (range_arg st 0))),
             (''input_channels'', plain (double_of_int64 (range_arg st 1))),
             (''input_height'', plain (double_of_int64 in_h)),
             (''input_width'', plain (double_of_int64 in_w)),
             (''output_size'', plain (double_of_int64 (range_arg st 0 * range_arg st 1 * in_h * in_w))),
             (''output_batch_size'', plain (double_of_int64 (range_arg st 0))),
             (''output_channels'', plain (double_of_int64 (range_arg st 1))),
             (''output_height'', plain (double_of_int64 in_h)),
             (''output_width'', plain (double_of_int64 in_w))] k"
    if "k \<in> set [''input_size'', ''input_batch_size'', ''input_channels'', ''input_height'',
                    ''input_width'', ''output_size'', ''output_batch_size'', ''output_channels'',
                    ''output_height'', ''output_width'']" for k
    using assms(1,2) that
    by (simp add: LAYER_CUDNN_ACTIVATION_BWD_Impl_def assms(3,4)
        activation_bwd_setup_ok_def setup_defs stmt_ok Let_def state_proj
        map_insert_all_lookup split del: if_split cong: if_cong)
      (elim disjE; simp)
  then show ?thesis
    by (simp add: counters_are_def counter_is_def)
qed

lemma dropout_fwd_shape_counters:
  assumes "dropout_fwd_setup_ok e"
    and "counters st = Map.empty"
    and "in_h = (if range_arg st 2 = - 1 then 1 else range_arg st 2)"
    and "in_w = (if range_arg st 3 = - 1 then 1 else range_arg st 3)"
  shows "counters_are (LAYER_CUDNN_DROPOUT_FWD_Impl T e st)
           [(''input_size'', double_of_int64 (range_arg st 0 * range_arg st 1 * in_h * in_w)),
            (''input_batch_size'', double_of_int64 (range_arg st 0)),
            (''input_channels'', double_of_int64 (range_arg st 1)),
            (''input_height'', double_of_int64 in_h),
            (''input_width'', double_of_int64 in_w),
            (''output_size'', double_of_int64 (range_arg st 0 * range_arg st 1 * in_h * in_w)),
            (''output_batch_size'', double_of_int64 (range_arg st 0)),
            (''output_channels'', double_of_int64 (range_arg st 1)),
            (''output_height'', double_of_int64 in_h),
            (''output_width'', double_of_int64 in_w)]"
proof -
  have "counters (LAYER_CUDNN_DROPOUT_FWD_Impl T e st) k =
          map_of
            [(''input_size'', plain (double_of_int64 (range_arg st 0 * range_arg st 1 * in_h * in_w))),
             (''input_batch_size'', plain (double_of_int64 (range_arg st 0))),
             (''input_channels'', plain (double_of_int64 (range_arg st 1))),
             (''input_height'', plain (double_of_int64 in_h)),
             (''input_width'', plain (double_of_int64 in_w)),
             (''output_size'', plain (double_of_int64 (range_arg st 0 * range_arg st 1 * in_h * in_w))),
             (''output_batch_size'', plain (double_of_int64 (range_arg st 0))),
             (''output_channels'', plain (double_of_int64 (range_arg st 1))),
             (''output_height'', plain (double_of_int64 in_h)),
             (''output_width'', plain (double_of_int64 in_w))] k"
    if "k \<in> set [''input_size'', ''input_batch_size'', ''input_channels'', ''input_height'',
                    ''input_width'', ''output_size'', ''output_batch_size'', ''output_channels'',
                    ''output_height'', ''output_width'']" for k
    using assms(1,2) that
    by (simp add: LAYER_CUDNN_DROPOUT_FWD_Impl_def iLAYER_CUDNN_DROPOUT_FWD_Impl_def assms(3,4)
        dropout_fwd_setup_ok_def setup_defs stmt_ok Let_def state_proj
        map_insert_all_lookup split del: if_split cong: if_cong)
      (elim disjE; simp)
  then show ?thesis
    by (simp add: counters_are_def counter_is_def)
qed

lemma conv_fwd_shape_counters:
  assumes "conv_fwd_setup_ok T math_type e st"
    and "output_dim e = (out_n, out_c, out_h, out_w)"
    and "counters st = Map.empty"
  shows "counters_are (LAYER_CUDNN_CONV_FWD_Impl T alg math_type e st)
           [(''input_size'', double_of_int64
               (range_arg st 0 * range_arg st 1 * range_arg st 2 * range_arg st 3)),
            (''input_batch_size'', double_of_int64 (range_arg st 0)),
            (''input_channels'', double_of_int64 (range_arg st 1)),
            (''input_height'', double_of_int64 (range_arg st 2)),
            (''input_width'', double_of_int64 (range_arg st 3)),
            (''output_size'', double_of_int32 (out_n * out_c * out_h * out_w)),
            (''output_batch_size'', double_of_int32 out_n),
            (''output_channels'', double_of_int32 out_c),
            (''output_height'', double_of_int32 out_h),
            (''output_width'', double_of_int32 out_w)]"
  unfolding counters_are_def counter_is_def list.pred_inject prod.case
  by (intro conjI TrueI conv_fwd_counter_lookup [OF assms(1,2)])
     (simp_all add: assms(3) conv_fwd_counters_def)

lemma conv_bwd_data_shape_counters:
  assumes "conv_bwd_data_setup_ok math_type e"
    and "output_dim e = (out_n, out_c, out_h, out_w)"
    and "counters st = Map.empty"
  shows "counters_are (LAYER_CUDNN_CONV_BWD_DATA_Impl T alg math_type e st)
           [(''input_size'', double_of_int64
               (range_arg st 0 * range_arg st 1 * range_arg st 2 * range_arg st 3)),
            (''input_batch_size'', double_of_int64 (range_arg st 0)),
            (''input_channels'', double_of_int64 (range_arg st 1)),
            (''input_height'', double_of_int64 (range_arg st 2)),
            (''input_width'', double_of_int64 (range_arg st 3)),
            (''output_size'', double_of_int32 (out_n * out_c * out_h * out_w)),
            (''output_batch_size'', double_of_int32 out_n),
            (''output_channels'', double_of_int32 out_c),
            (''output_height'', double_of_int32 out_h),
            (''output_width'', double_of_int32 out_w)]"
  unfolding counters_are_def counter_is_def list.pred_inject prod.case
  by (intro conjI TrueI conv_bwd_data_counter_lookup [OF assms(1,2)])
     (simp_all add: assms(3) conv_bwd_data_counters_def)

lemma conv_bias_activation_shape_counters:
  assumes "conv_bias_activation_setup_ok T e st"
    and "output_dim e = (out_n, out_c, out_h, out_w)"
    and "counters st = Map.empty"
  shows "counters_are (LAYER_CUDNN_CONV_BIAS_ACTIVATION_FWD_Impl T alg activation_mode math_type e st)
           [(''input_size'', double_of_int64
               (range_arg st 0 * range_arg st 1 * range_arg st 2 * range_arg st 3)),
            (''input_batch_size'', double_of_int64 (range_arg st 0)),
            (''input_channels'', double_of_int64 (range_arg st 1)),
            (''input_height'', double_of_int64 (range_arg st 2)),
            (''input_width'', double_of_int64 (range_arg st 3)),
            (''output_size'', double_of_int32 (out_n * out_c * out_h * out_w)),
            (''output_batch_size'', double_of_int32 out_n),
            (''output_channels'', double_of_int32 out_c),
            (''output_height'', double_of_int32 out_h),
            (''output_width'', double_of_int32 out_w)]"
  unfolding counters_are_def counter_is_def list.pred_inject prod.case
  by (intro conjI TrueI conv_bias_activation_counter_lookup [OF assms(1,2)])
     (simp_all add: assms(3) conv_bias_activation_counters_def)

lemma scale_tensor_no_output_counters:
  assumes "scale_tensor_setup_ok e" and "counters st = Map.empty"
  shows "counters (LAYER_CUDNN_SCALE_TENSOR_Impl T e st) ''output_size'' = None"
    and "counters (LAYER_CUDNN_SCALE_TENSOR_Impl T e st) ''output_batch_size'' = None"
    and "counters (LAYER_CUDNN_SCALE_TENSOR_Impl T e st) ''output_channels'' = None"
    and "counters (LAYER_CUDNN_SCALE_TENSOR_Impl T e st) ''output_height'' = None"
    and "counters (LAYER_CUDNN_SCALE_TENSOR_Impl T e st) ''output_width'' = None"
  by (simp_all add: scale_tensor_counters [OF assms(1)] assms(2) map_insert_all_lookup)

lemma gemm_fwd_no_size_counters:
  assumes "gemm_fwd_setup_ok e" and "counters st = Map.empty"
  shows "counters (LAYER_CUBLAS_GEMM_FWD_Impl T e st) ''input_size'' = None"
    and "counters (LAYER_CUBLAS_GEMM_FWD_Impl T e st) ''output_size'' = None"
    and "counters_are (LAYER_CUBLAS_GEMM_FWD_Impl T e st)
           [(''M'', double_of_int64 (range_arg st 0)), (''N'', double_of_int64 (range_arg st 1)),
            (''K'', double_of_int64 (range_arg st 2))]"
  by (simp_all add: gemm_fwd_counters [OF assms(1)] assms(2) map_insert_all_lookup
      counters_are_def counter_is_def)

subsection \<open>The events of a case around its timed block\<close>






















section \<open>Claims\<close>

subsection \<open>No device\<close>

lemma skipped_without_calls_SkipWithError:
  "skipped_without_calls msg st (SkipWithError msg st)"
  by (simp add: skipped_without_calls_def SkipWithError_proj)

text \<open>
  Claim C8. Every benchmark entry point starts with \<open>if (!has_cuda)\<close>: without a CUDA
  device the case is skipped at once, with the benchmark's name followed by
  \<open>no CUDA device found\<close> as its message, and the function returns before it has read
  an argument, built a helper object or called the vendor library: nothing is added to
  the trace, no counter is inserted, no items are reported. The two entry points that
  have no dispatcher around them return normally as well.
\<close>

theorem no_cuda_device_skips:
  assumes "\<not> has_cuda e"
  shows "skipped_without_calls (SCALE_TENSOR_NAME @ '' no CUDA device found'') st
           (LAYER_CUDNN_SCALE_TENSOR_Impl T e st)
       \<and> skipped_without_calls (BATCHNORM_FWD_NAME @ '' no CUDA device found'') st
           (LAYER_CUDNN_BATCHNORM_FWD_Impl T batchnorm_mode is_training e st)
       \<and> skipped_without_calls (GEMM_FWD_NAME @ '' no CUDA device found'') st
           (LAYER_CUBLAS_GEMM_FWD_Impl T e st)
       \<and> skipped_without_calls (CONV_FWD_NAME @ '' no CUDA device found'') st
           (LAYER_CUDNN_CONV_FWD_Impl T fwd_algorithm math_type e st)
       \<and> skipped_without_calls (CONV_BWD_DATA_NAME @ '' no CUDA device found'') st
           (LAYER_CUDNN_CONV_BWD_DATA_Impl T bwd_algorithm math_type e st)
       \<and> skipped_without_calls (CONV_BIAS_ACTIVATION_FWD_NAME @ '' no CUDA device found'') st
           (LAYER_CUDNN_CONV_BIAS_ACTIVATION_FWD_Impl T fwd_algorithm activation_mode math_type e st)
       \<and> skipped_without_calls (POOLING_BWD_NAME @ '' no CUDA device found'') st
           (LAYER_CUDNN_POOLING_BWD_Impl T pooling_mode e st)
       \<and> skipped_without_calls (DROPOUT_FWD_NAME @ '' no CUDA device found'') st
           (LAYER_CUDNN_DROPOUT_FWD_Impl T e st)
       \<and> returns_normally (LAYER_CUDNN_CONV_BWD_BIAS_Impl T e st)
       \<and> skipped_without_calls (CONV_BWD_BIAS_NAME @ '' no CUDA device found'') st
           (state_of (LAYER_CUDNN_CONV_BWD_BIAS_Impl T e st))
       \<and> returns_normally (LAYER_CUDNN_ACTIVATION_BWD_Impl T activation_mode e st)
       \<and> skipped_without_calls (ACTIVATION_BWD_NAME @ '' no CUDA device found'') st
           (state_of (LAYER_CUDNN_ACTIVATION_BWD_Impl T activation_mode e st))"
  using assms
  by (simp add: skipped_without_calls_SkipWithError
      LAYER_CUDNN_SCALE_TENSOR_Impl_def iLAYER_CUDNN_SCALE_TENSOR_Impl_def
      LAYER_CUDNN_BATCHNORM_FWD_Impl_def iLAYER_CUDNN_BATCHNORM_FWD_Impl_def
      LAYER_CUBLAS_GEMM_FWD_Impl_def iLAYER_CUBLAS_GEMM_FWD_Impl_def
      LAYER_CUDNN_CONV_FWD_Impl_def iLAYER_CUDNN_CONV_FWD_Impl_def
      LAYER_CUDNN_CONV_BWD_DATA_Impl_def iLAYER_CUDNN_CONV_BWD_DATA_Impl_def
      LAYER_CUDNN_CONV_BIAS_ACTIVATION_FWD_Impl_def iLAYER_CUDNN_CONV_BIAS_ACTIVATION_FWD_Impl_def
      LAYER_CUDNN_POOLING_BWD_Impl_def iLAYER_CUDNN_POOLING_BWD_Impl_def
      LAYER_CUDNN_DROPOUT_FWD_Impl_def iLAYER_CUDNN_DROPOUT_FWD_Impl_def
      LAYER_CUDNN_CONV_BWD_BIAS_Impl_def LAYER_CUDNN_ACTIVATION_BWD_Impl_def)

theorem no_cuda_device_skips_witness:
  "\<not> has_cuda env_no_cuda
   \<and> error_occurred (LAYER_CUDNN_SCALE_TENSOR_Impl Float env_no_cuda (fresh_state 3 [2, 3, 4, 5, 1]))
   \<and> error_message (LAYER_CUDNN_SCALE_TENSOR_Impl Float env_no_cuda (fresh_state 3 [2, 3, 4, 5, 1]))
       = ''CUDNN/SCALE_TENSOR no CUDA device found''
   \<and> trace (LAYER_CUDNN_SCALE_TENSOR_Impl Float env_no_cuda (fresh_state 3 [2, 3, 4, 5, 1])) = []
   \<and> error_message (LAYER_CUBLAS_GEMM_FWD_Impl Float env_no_cuda (fresh_state 3 [2, 3, 4, 0, 0, 1, 0]))
       = ''CUBLAS/GEMM_FWD no CUDA device found''
   \<and> trace (LAYER_CUBLAS_GEMM_FWD_Impl Float env_no_cuda (fresh_state 3 [2, 3, 4, 0, 0, 1, 0])) = []"
proof -
  have h: "\<not> has_cuda env_no_cuda"
    by (simp add: env_no_cuda_def env_ok_def)
  show ?thesis
    using h no_cuda_device_skips [OF h, of "fresh_state 3 [2, 3, 4, 5, 1]" Float]
      no_cuda_device_skips [OF h, of "fresh_state 3 [2, 3, 4, 0, 0, 1, 0]" Float]
    by (simp add: skipped_without_calls_def fresh_state_def SCALE_TENSOR_NAME_def GEMM_FWD_NAME_def)
qed

subsection \<open>Items processed\<close>

text \<open>
  Claim C6. Whenever the setup of a benchmark succeeds, so that its body reaches the
  statement \<open>state.SetItemsProcessed(int64_t(state.iterations()) * ...)\<close>, the items
  reported are the iterations of the case times the product of its shape arguments:
  \<open>n*c*h*w\<close> for the element-wise benchmarks (scale tensor, batch normalisation,
  pooling, activation, dropout), \<open>M*N*K\<close> for the matrix multiplication and
  \<open>N*K*C*H*W\<close> for the four convolutions. The product is taken in 64-bit integers, and
  \<open>iterations()\<close> is the full number of iterations of the case.
\<close>

theorem items_processed_is_iterations_times_shape:
  "(scale_tensor_setup_ok e \<longrightarrow>
      items_are st (LAYER_CUDNN_SCALE_TENSOR_Impl T e st)
        (range_arg st 0 * range_arg st 1 * range_arg st 2 * range_arg st 3))
   \<and> (batchnorm_fwd_setup_ok e \<longrightarrow>
      items_are st (LAYER_CUDNN_BATCHNORM_FWD_Impl T batchnorm_mode is_training e st)
        (range_arg st 0 * range_arg st 1 * range_arg st 2 * range_arg st 3))
   \<and> (pooling_bwd_setup_ok e \<longrightarrow>
      items_are st (LAYER_CUDNN_POOLING_BWD_Impl T pooling_mode e st)
        (range_arg st 0 * range_arg st 1 * range_arg st 2 * range_arg st 3))
   \<and> (activation_bwd_setup_ok e \<longrightarrow>
      items_are st (state_of (LAYER_CUDNN_ACTIVATION_BWD_Impl T activation_mode e st))
        (range_arg st 0 * range_arg st 1 * (if range_arg st 2 = - 1 then 1 else range_arg st 2)
         * (if range_arg st 3 = - 1 then 1 else range_arg st 3)))
   \<and> (dropout_fwd_setup_ok e \<longrightarrow>
      items_are st (LAYER_CUDNN_DROPOUT_FWD_Impl T e st)
        (range_arg st 0 * range_arg st 1 * (if range_arg st 2 = - 1 then 1 else range_arg st 2)
         * (if range_arg st 3 = - 1 then 1 else range_arg st 3)))
   \<and> (gemm_fwd_setup_ok e \<longrightarrow>
      items_are st (LAYER_CUBLAS_GEMM_FWD_Impl T e st)
        (range_arg st 0 * range_arg st 1 * range_arg st 2))
   \<and> (conv_fwd_setup_ok T math_type e st \<longrightarrow>
      items_are st (LAYER_CUDNN_CONV_FWD_Impl T fwd_algorithm math_type e st)
        (range_arg st 0 * range_arg st 4 * range_arg st 1 * range_arg st 2 * range_arg st 3))
   \<and> (conv_bwd_data_setup_ok math_type e \<longrightarrow>
      items_are st (LAYER_CUDNN_CONV_BWD_DATA_Impl T bwd_algorithm math_type e st)
        (range_arg st 0 * range_arg st 4 * range_arg st 1 * range_arg st 2 * range_arg st 3))
   \<and> (conv_bias_activation_setup_ok T e st \<longrightarrow>
      items_are st
        (LAYER_CUDNN_CONV_BIAS_ACTIVATION_FWD_Impl T fwd_algorithm activation_mode math_type e st)
        (range_arg st 0 * range_arg st 4 * range_arg st 1 * range_arg st 2 * range_arg st 3))
   \<and> (conv_bwd_bias_setup_ok e \<longrightarrow>
      items_are st (state_of (LAYER_CUDNN_CONV_BWD_BIAS_Impl T e st))
        (range_arg st 0 * range_arg st 4 * range_arg st 1 * range_arg st 2 * range_arg st 3))"
  by (intro conjI impI scale_tensor_items batchnorm_fwd_items pooling_bwd_items activation_bwd_items
      dropout_fwd_items gemm_fwd_items conv_fwd_items conv_bwd_data_items conv_bias_activation_items
      conv_bwd_bias_items)

theorem items_processed_is_iterations_times_shape_witness:
  "scale_tensor_setup_ok env_ok
   \<and> items_processed (LAYER_CUDNN_SCALE_TENSOR_Impl Float env_ok (fresh_state 3 [2, 3, 4, 5, 1])) = 360
   \<and> gemm_fwd_setup_ok env_ok
   \<and> items_processed (LAYER_CUBLAS_GEMM_FWD_Impl Float env_ok (fresh_state 3 [2, 3, 4, 0, 0, 1, 0])) = 72
   \<and> conv_fwd_setup_ok Float CUDNN_DEFAULT_MATH env_ok
       (fresh_state 3 [2, 3, 4, 5, 6, 3, 3, 1, 1, 1, 1, 1, 1, 1])
   \<and> items_processed
       (LAYER_CUDNN_CONV_FWD_Impl Float CUDNN_CONVOLUTION_FWD_ALGO_GEMM CUDNN_DEFAULT_MATH env_ok
          (fresh_state 3 [2, 3, 4, 5, 6, 3, 3, 1, 1, 1, 1, 1, 1, 1])) = 2160"
proof -
  have h1: "scale_tensor_setup_ok env_ok"
    by (simp add: scale_tensor_setup_ok_def setup_defs env_ok_def)
  have h2: "gemm_fwd_setup_ok env_ok"
    by (simp add: gemm_fwd_setup_ok_def setup_defs env_ok_def IS_ERROR_def)
  have h3: "conv_fwd_setup_ok Float CUDNN_DEFAULT_MATH env_ok
              (fresh_state 3 [2, 3, 4, 5, 6, 3, 3, 1, 1, 1, 1, 1, 1, 1])"
    by (simp add: conv_fwd_setup_ok_def conv_fwd_helpers_ok_def conv_fwd_setup_calls_def
        setup_defs env_ok_def IS_ERROR_def)
  show ?thesis
    using h1 h2 h3
      items_processed_is_iterations_times_shape
        [where e = env_ok and st = "fresh_state 3 [2, 3, 4, 5, 1]" and T = Float]
      items_processed_is_iterations_times_shape
        [where e = env_ok and st = "fresh_state 3 [2, 3, 4, 0, 0, 1, 0]" and T = Float]
      items_processed_is_iterations_times_shape
        [where e = env_ok and st = "fresh_state 3 [2, 3, 4, 5, 6, 3, 3, 1, 1, 1, 1, 1, 1, 1]"
           and T = Float and math_type = CUDNN_DEFAULT_MATH
           and fwd_algorithm = CUDNN_CONVOLUTION_FWD_ALGO_GEMM]
    by (simp add: items_are_def fresh_state_def range_arg_def args_of_def)
qed

subsection \<open>The operation counts reported\<close>

text \<open>
  Claim C3. The counter \<open>predicted_flops_count\<close> is computed from the shape arguments
  and the algorithm alone. The matrix multiplication reports \<open>2*M*N*K\<close>. The forward
  convolution reports, for the algorithms \<open>IMPLICIT_GEMM\<close>, \<open>IMPLICIT_PRECOMP_GEMM\<close> and
  \<open>GEMM\<close>, the product \<open>K*C*R*S*N*P*Q\<close> divided by the group count, with \<open>P\<close> and \<open>Q\<close>
  the output height and width the vendor library answers; for an algorithm that is
  neither of these nor one of the two FFT ones it reports \<open>-1\<close> divided by the group
  count. The products and the quotient are taken in floating point, which is embedded
  here in the reals; a group argument of 0 stands for one group.
\<close>

theorem predicted_flops_count_from_shape:
  "(gemm_fwd_setup_ok e \<and> counters st = Map.empty \<longrightarrow>
      counter_is (LAYER_CUBLAS_GEMM_FWD_Impl T e st) ''predicted_flops_count''
        (2 * double_of_int64 (range_arg st 0) * double_of_int64 (range_arg st 1)
         * double_of_int64 (range_arg st 2)))
   \<and> (conv_fwd_setup_ok T math_type e st \<and> output_dim e = (out_n, out_c, P, Q)
       \<and> counters st = Map.empty
       \<and> (fwd_algorithm = CUDNN_CONVOLUTION_FWD_ALGO_IMPLICIT_GEMM
          \<or> fwd_algorithm = CUDNN_CONVOLUTION_FWD_ALGO_IMPLICIT_PRECOMP_GEMM
          \<or> fwd_algorithm = CUDNN_CONVOLUTION_FWD_ALGO_GEMM) \<longrightarrow>
      counter_is (LAYER_CUDNN_CONV_FWD_Impl T fwd_algorithm math_type e st) ''predicted_flops_count''
        (double_of_int64 (range_arg st 4) * double_of_int64 (range_arg st 1)
         * double_of_int64 (range_arg st 5) * double_of_int64 (range_arg st 6)
         * double_of_int64 (range_arg st 0) * double_of_int32 P * double_of_int32 Q
         / double_of_int64 (if range_arg st 13 = 0 then 1 else range_arg st 13)))
   \<and> (conv_fwd_setup_ok T math_type e st \<and> output_dim e = (out_n, out_c, P, Q)
       \<and> counters st = Map.empty
       \<and> fwd_algorithm \<notin> {CUDNN_CONVOLUTION_FWD_ALGO_IMPLICIT_GEMM,
             CUDNN_CONVOLUTION_FWD_ALGO_IMPLICIT_PRECOMP_GEMM, CUDNN_CONVOLUTION_FWD_ALGO_GEMM,
             CUDNN_CONVOLUTION_FWD_ALGO_FFT, CUDNN_CONVOLUTION_FWD_ALGO_FFT_TILING} \<longrightarrow>
      counter_is (LAYER_CUDNN_CONV_FWD_Impl T fwd_algorithm math_type e st) ''predicted_flops_count''
        (- 1 / double_of_int64 (if range_arg st 13 = 0 then 1 else range_arg st 13)))"
proof (intro conjI impI)
  assume "gemm_fwd_setup_ok e \<and> counters st = Map.empty"
  then show "counter_is (LAYER_CUBLAS_GEMM_FWD_Impl T e st) ''predicted_flops_count''
        (2 * double_of_int64 (range_arg st 0) * double_of_int64 (range_arg st 1)
         * double_of_int64 (range_arg st 2))"
    by (simp add: counter_is_def gemm_fwd_counters map_insert_all_lookup)
next
  assume a: "conv_fwd_setup_ok T math_type e st \<and> output_dim e = (out_n, out_c, P, Q)
       \<and> counters st = Map.empty
       \<and> (fwd_algorithm = CUDNN_CONVOLUTION_FWD_ALGO_IMPLICIT_GEMM
          \<or> fwd_algorithm = CUDNN_CONVOLUTION_FWD_ALGO_IMPLICIT_PRECOMP_GEMM
          \<or> fwd_algorithm = CUDNN_CONVOLUTION_FWD_ALGO_GEMM)"
  then have "counters st ''predicted_flops_count'' = None"
    by simp
  with a show "counter_is (LAYER_CUDNN_CONV_FWD_Impl T fwd_algorithm math_type e st) ''predicted_flops_count''
        (double_of_int64 (range_arg st 4) * double_of_int64 (range_arg st 1)
         * double_of_int64 (range_arg st 5) * double_of_int64 (range_arg st 6)
         * double_of_int64 (range_arg st 0) * double_of_int32 P * double_of_int32 Q
         / double_of_int64 (if range_arg st 13 = 0 then 1 else range_arg st 13))"
    by (auto simp add: counter_is_def conv_fwd_flops_counter conv_fwd_compute_flops_def)
next
  assume a: "conv_fwd_setup_ok T math_type e st \<and> output_dim e = (out_n, out_c, P, Q)
       \<and> counters st = Map.empty
       \<and> fwd_algorithm \<notin> {CUDNN_CONVOLUTION_FWD_ALGO_IMPLICIT_GEMM,
             CUDNN_CONVOLUTION_FWD_ALGO_IMPLICIT_PRECOMP_GEMM, CUDNN_CONVOLUTION_FWD_ALGO_GEMM,
             CUDNN_CONVOLUTION_FWD_ALGO_FFT, CUDNN_CONVOLUTION_FWD_ALGO_FFT_TILING}"
  then have "counters st ''predicted_flops_count'' = None"
    by simp
  with a show "counter_is (LAYER_CUDNN_CONV_FWD_Impl T fwd_algorithm math_type e st) ''predicted_flops_count''
        (- 1 / double_of_int64 (if range_arg st 13 = 0 then 1 else range_arg st 13))"
    by (simp add: counter_is_def conv_fwd_flops_counter conv_fwd_compute_flops_def)
qed

theorem predicted_flops_count_from_shape_witness:
  "gemm_fwd_setup_ok env_ok
   \<and> counter_is (LAYER_CUBLAS_GEMM_FWD_Impl Float env_ok (fresh_state 3 [2, 3, 4, 0, 0, 1, 0]))
       ''predicted_flops_count'' 48
   \<and> conv_fwd_setup_ok Float CUDNN_DEFAULT_MATH env_ok
       (fresh_state 3 [2, 3, 4, 5, 6, 3, 3, 1, 1, 1, 1, 1, 1, 2])
   \<and> output_dim env_ok = (2, 4, 3, 3)
   \<and> counter_is
       (LAYER_CUDNN_CONV_FWD_Impl Float CUDNN_CONVOLUTION_FWD_ALGO_GEMM CUDNN_DEFAULT_MATH env_ok
          (fresh_state 3 [2, 3, 4, 5, 6, 3, 3, 1, 1, 1, 1, 1, 1, 2])) ''predicted_flops_count'' 1458
   \<and> counter_is
       (LAYER_CUDNN_CONV_FWD_Impl Float CUDNN_CONVOLUTION_FWD_ALGO_WINOGRAD CUDNN_DEFAULT_MATH env_ok
          (fresh_state 3 [2, 3, 4, 5, 6, 3, 3, 1, 1, 1, 1, 1, 1, 2])) ''predicted_flops_count''
       (- 1 / 2)"
proof -
  have h1: "gemm_fwd_setup_ok env_ok"
    by (simp add: gemm_fwd_setup_ok_def setup_defs env_ok_def IS_ERROR_def)
  have h2: "conv_fwd_setup_ok Float CUDNN_DEFAULT_MATH env_ok
              (fresh_state 3 [2, 3, 4, 5, 6, 3, 3, 1, 1, 1, 1, 1, 1, 2])"
    by (simp add: conv_fwd_setup_ok_def conv_fwd_helpers_ok_def conv_fwd_setup_calls_def
        setup_defs env_ok_def IS_ERROR_def)
  have h3: "output_dim env_ok = (2, 4, 3, 3)"
    by (simp add: env_ok_def)
  have h4: "counters (fresh_state n xs) = Map.empty" for n xs
    by (simp add: fresh_state_def)
  have r: "range_arg (fresh_state n xs) i = args_of xs i" for n xs i
    by (simp add: fresh_state_def range_arg_def)
  show ?thesis
    using h1 h2 h3
      predicted_flops_count_from_shape
        [where e = env_ok and st = "fresh_state 3 [2, 3, 4, 0, 0, 1, 0]" and T = Float]
      predicted_flops_count_from_shape
        [where e = env_ok and st = "fresh_state 3 [2, 3, 4, 5, 6, 3, 3, 1, 1, 1, 1, 1, 1, 2]"
           and T = Float and math_type = CUDNN_DEFAULT_MATH
           and fwd_algorithm = CUDNN_CONVOLUTION_FWD_ALGO_GEMM
           and out_n = 2 and out_c = 4 and P = 3 and Q = 3]
      predicted_flops_count_from_shape
        [where e = env_ok and st = "fresh_state 3 [2, 3, 4, 5, 6, 3, 3, 1, 1, 1, 1, 1, 1, 2]"
           and T = Float and math_type = CUDNN_DEFAULT_MATH
           and fwd_algorithm = CUDNN_CONVOLUTION_FWD_ALGO_WINOGRAD
           and out_n = 2 and out_c = 4 and P = 3 and Q = 3]
    by (simp add: h4 r args_of_def double_of_int64_def double_of_int32_def
        CUDNN_CONVOLUTION_FWD_ALGO_IMPLICIT_GEMM_def CUDNN_CONVOLUTION_FWD_ALGO_IMPLICIT_PRECOMP_GEMM_def
        CUDNN_CONVOLUTION_FWD_ALGO_GEMM_def CUDNN_CONVOLUTION_FWD_ALGO_FFT_def
        CUDNN_CONVOLUTION_FWD_ALGO_FFT_TILING_def CUDNN_CONVOLUTION_FWD_ALGO_WINOGRAD_def)
qed

subsection \<open>The shape counters\<close>

text \<open>
  Claim C4, amended. When the setup of a case succeeds (and its counters are empty when
  it starts), each of the nine cuDNN bodies records \<open>input_size\<close> as the product of its
  four input dimensions and a counter for each of these dimensions. Eight of them also
  record \<open>output_size\<close> as the product of the four output dimensions and a counter for
  each of those; the scaling of a tensor records nothing about an output, and the matrix
  multiplication records neither \<open>input_size\<close> nor \<open>output_size\<close> but \<open>M\<close>, \<open>N\<close> and
  \<open>K\<close>. The input product is taken in 64-bit integers. The output product is taken in
  the 32-bit integers of the vendor's answer in the forward convolution, the backward
  convolution with respect to the data, the fused convolution and the pooling, and in
  64-bit integers elsewhere. The activation and the dropout read a height or width of
  \<open>-1\<close> as 1, and their output has the shape of their input, as has that of the batch
  normalisation.
\<close>

theorem shape_counters_of_each_benchmark:
  "(batchnorm_fwd_setup_ok e \<and> counters st = Map.empty \<longrightarrow>
      counters_are (LAYER_CUDNN_BATCHNORM_FWD_Impl T batchnorm_mode is_training e st)
        [(''input_size'', double_of_int64
            (range_arg st 0 * range_arg st 1 * range_arg st 2 * range_arg st 3)),
         (''input_batch_size'', double_of_int64 (range_arg st 0)),
         (''input_channels'', double_of_int64 (range_arg st 1)),
         (''input_height'', double_of_int64 (range_arg st 2)),
         (''input_width'', double_of_int64 (range_arg st 3)),
         (''output_size'', double_of_int64
            (range_arg st 0 * range_arg st 1 * range_arg st 2 * range_arg st 3)),
         (''output_batch_size'', double_of_int64 (range_arg st 0)),
         (''output_channels'', double_of_int64 (range_arg st 1)),
         (''output_height'', double_of_int64 (range_arg st 2)),
         (''output_width'', double_of_int64 (range_arg st 3))])
   \<and> (scale_tensor_setup_ok e \<and> counters st = Map.empty \<longrightarrow>
      counters_are (LAYER_CUDNN_SCALE_TENSOR_Impl T e st)
        [(''input_size'', double_of_int64
            (range_arg st 0 * range_arg st 1 * range_arg st 2 * range_arg st 3)),
         (''input_n'', double_of_int64 (range_arg st 0)),
         (''input_c'', double_of_int64 (range_arg st 1)),
         (''input_h'', double_of_int64 (range_arg st 2)),
         (''input_w'', double_of_int64 (range_arg st 3))]
      \<and> counters (LAYER_CUDNN_SCALE_TENSOR_Impl T e st) ''output_size'' = None
      \<and> counters (LAYER_CUDNN_SCALE_TENSOR_Impl T e st) ''output_batch_size'' = None
      \<and> counters (LAYER_CUDNN_SCALE_TENSOR_Impl T e st) ''output_channels'' = None
      \<and> counters (LAYER_CUDNN_SCALE_TENSOR_Impl T e st) ''output_height'' = None
      \<and> counters (LAYER_CUDNN_SCALE_TENSOR_Impl T e st) ''output_width'' = None)
   \<and> (conv_bwd_bias_setup_ok e \<and> counters st = Map.empty
       \<and> bias_out_h = calc_conv_out_dim e (range_arg st 2) (range_arg st 6) (range_arg st 8)
                        (range_arg st 10) (range_arg st 11)
       \<and> bias_out_w = calc_conv_out_dim e (range_arg st 3) (range_arg st 5) (range_arg st 7)
                        (range_arg st 9) (range_arg st 12) \<longrightarrow>
      counters_are (state_of (LAYER_CUDNN_CONV_BWD_BIAS_Impl T e st))
        [(''input_size'', double_of_int64
            (range_arg st 0 * range_arg st 1 * range_arg st 2 * range_arg st 3)),
         (''input_batch_size'', double_of_int64 (range_arg st 0)),
         (''input_channels'', double_of_int64 (range_arg st 1)),
         (''input_height'', double_of_int64 (range_arg st 2)),
         (''input_width'', double_of_int64 (range_arg st 3)),
         (''output_size'', double_of_int64 (range_arg st 0 * range_arg st 4 * bias_out_h * bias_out_w)),
         (''output_batch_size'', double_of_int64 (range_arg st 0)),
         (''output_channels'', double_of_int64 (range_arg st 4)),
         (''output_height'', double_of_int64 bias_out_h),
         (''output_width'', double_of_int64 bias_out_w)])
   \<and> (conv_fwd_setup_ok T math_type e st \<and> output_dim e = (out_n, out_c, out_h, out_w)
       \<and> counters st = Map.empty \<longrightarrow>
      counters_are (LAYER_CUDNN_CONV_FWD_Impl T fwd_algorithm math_type e st)
        [(''input_size'', double_of_int64
            (range_arg st 0 * range_arg st 1 * range_arg st 2 * range_arg st 3)),
         (''input_batch_size'', double_of_int64 (range_arg st 0)),
         (''input_channels'', double_of_int64 (range_arg st 1)),
         (''input_height'', double_of_int64 (range_arg st 2)),
         (''input_width'', double_of_int64 (range_arg st 3)),
         (''output_size'', double_of_int32 (out_n * out_c * out_h * out_w)),
         (''output_batch_size'', double_of_int32 out_n),
         (''output_channels'', double_of_int32 out_c),
         (''output_height'', double_of_int32 out_h),
         (''output_width'', double_of_int32 out_w)])
   \<and> (conv_bwd_data_setup_ok math_type e \<and> output_dim e = (out_n, out_c, out_h, out_w)
       \<and> counters st = Map.empty \<longrightarrow>
      counters_are (LAYER_CUDNN_CONV_BWD_DATA_Impl T bwd_algorithm math_type e st)
        [(''input_size'', double_of_int64
            (range_arg st 0 * range_arg st 1 * range_arg st 2 * range_arg st 3)),
         (''input_batch_size'', double_of_int64 (range_arg st 0)),
         (''input_channels'', double_of_int64 (range_arg st 1)),
         (''input_height'', double_of_int64 (range_arg st 2)),
         (''input_width'', double_of_int64 (range_arg st 3)),
         (''output_size'', double_of_int32 (out_n * out_c * out_h * out_w)),
         (''output_batch_size'', double_of_int32 out_n),
         (''output_channels'', double_of_int32 out_c),
         (''output_height'', double_of_int32 out_h),
         (''output_width'', double_of_int32 out_w)])
   \<and> (conv_bias_activation_setup_ok T e st \<and> output_dim e = (out_n, out_c, out_h, out_w)
       \<and> counters st = Map.empty \<longrightarrow>
      counters_are
        (LAYER_CUDNN_CONV_BIAS_ACTIVATION_FWD_Impl T fwd_algorithm activation_mode math_type e st)
        [(''input_size'', double_of_int64
            (range_arg st 0 * range_arg st 1 * range_arg st 2 * range_arg st 3)),
         (''input_batch_size'', double_of_int64 (range_arg st 0)),
         (''input_channels'', double_of_int64 (range_arg st 1)),
         (''input_height'', double_of_int64 (range_arg st 2)),
         (''input_width'', double_of_int64 (range_arg st 3)),
         (''output_size'', double_of_int32 (out_n * out_c * out_h * out_w)),
         (''output_batch_size'', double_of_int32 out_n),
         (''output_channels'', double_of_int32 out_c),
         (''output_height'', double_of_int32 out_h),
         (''output_width'', double_of_int32 out_w)])
   \<and> (pooling_bwd_setup_ok e \<and> output_dim e = (out_n, out_c, out_h, out_w)
       \<and> counters st = Map.empty \<longrightarrow>
      counters_are (LAYER_CUDNN_POOLING_BWD_Impl T pooling_mode e st)
        [(''input_size'', double_of_int64
            (range_arg st 0 * range_arg st 1 * range_arg st 2 * range_arg st 3)),
         (''input_batch_size'', double_of_int64 (range_arg st 0)),
         (''input_channels'', double_of_int64 (range_arg st 1)),
         (''input_height'', double_of_int64 (range_arg st 2)),
         (''input_width'', double_of_int64 (range_arg st 3)),
         (''output_size'', double_of_int32 (out_n * out_c * out_h * out_w)),
         (''output_batch_size'', double_of_int32 out_n),
         (''output_channels'', double_of_int32 out_c),
         (''output_height'', double_of_int32 out_h),
         (''output_width'', double_of_int32 out_w)])
   \<and> (activation_bwd_setup_ok e \<and> counters st = Map.empty
       \<and> in_h = (if range_arg st 2 = - 1 then 1 else range_arg st 2)
       \<and> in_w = (if range_arg st 3 = - 1 then 1 else range_arg st 3) \<longrightarrow>
      counters_are (state_of (LAYER_CUDNN_ACTIVATION_BWD_Impl T activation_mode e st))
        [(''input_size'', double_of_int64 (range_arg st 0 * range_arg st 1 * in_h * in_w)),
         (''input_batch_size'', double_of_int64 (range_arg st 0)),
         (''input_channels'', double_of_int64 (range_arg st 1)),
         (''input_height'', double_of_int64 in_h),
         (''input_width'', double_of_int64 in_w),
         (''output_size'', double_of_int64 (range_arg st 0 * range_arg st 1 * in_h * in_w)),
         (''output_batch_size'', double_of_int64 (range_arg st 0)),
         (''output_channels'', double_of_int64 (range_arg st 1)),
         (''output_height'', double_of_int64 in_h),
         (''output_width'', double_of_int64 in_w)])
   \<and> (dropout_fwd_setup_ok e \<and> counters st = Map.empty
       \<and> in_h = (if range_arg st 2 = - 1 then 1 else range_arg st 2)
       \<and> in_w = (if range_arg st 3 = - 1 then 1 else range_arg st 3) \<longrightarrow>
      counters_are (LAYER_CUDNN_DROPOUT_FWD_Impl T e st)
        [(''input_size'', double_of_int64 (range_arg st 0 * range_arg st 1 * in_h * in_w)),
         (''input_batch_size'', double_of_int64 (range_arg st 0)),
         (''input_channels'', double_of_int64 (range_arg st 1)),
         (''input_height'', double_of_int64 in_h),
         (''input_width'', double_of_int64 in_w),
         (''output_size'', double_of_int64 (range_arg st 0 * range_arg st 1 * in_h * in_w)),
         (''output_batch_size'', double_of_int64 (range_arg st 0)),
         (''output_channels'', double_of_int64 (range_arg st 1)),
         (''output_height'', double_of_int64 in_h),
         (''output_width'', double_of_int64 in_w)])
   \<and> (gemm_fwd_setup_ok e \<and> counters st = Map.empty \<longrightarrow>
      counters_are (LAYER_CUBLAS_GEMM_FWD_Impl T e st)
        [(''M'', double_of_int64 (range_arg st 0)), (''N'', double_of_int64 (range_arg st 1)),
         (''K'', double_of_int64 (range_arg st 2))]
      \<and> counters (LAYER_CUBLAS_GEMM_FWD_Impl T e st) ''input_size'' = None
      \<and> counters (LAYER_CUBLAS_GEMM_FWD_Impl T e st) ''output_size'' = None)"
proof (intro conjI impI)
  assume "batchnorm_fwd_setup_ok e \<and> counters st = Map.empty"
  then show "counters_are (LAYER_CUDNN_BATCHNORM_FWD_Impl T batchnorm_mode is_training e st)
        [(''input_size'', double_of_int64
            (range_arg st 0 * range_arg st 1 * range_arg st 2 * range_arg st 3)),
         (''input_batch_size'', double_of_int64 (range_arg st 0)),
         (''input_channels'', double_of_int64 (range_arg st 1)),
         (''input_height'', double_of_int64 (range_arg st 2)),
         (''input_width'', double_of_int64 (range_arg st 3)),
         (''output_size'', double_of_int64
            (range_arg st 0 * range_arg st 1 * range_arg st 2 * range_arg st 3)),
         (''output_batch_size'', double_of_int64 (range_arg st 0)),
         (''output_channels'', double_of_int64 (range_arg st 1)),
         (''output_height'', double_of_int64 (range_arg st 2)),
         (''output_width'', double_of_int64 (range_arg st 3))]"
    by (simp add: counters_are_def counter_is_def batchnorm_fwd_counters map_insert_all_lookup)
next
  assume "scale_tensor_setup_ok e \<and> counters st = Map.empty"
  then show "counters_are (LAYER_CUDNN_SCALE_TENSOR_Impl T e st)
        [(''input_size'', double_of_int64
            (range_arg st 0 * range_arg st 1 * range_arg st 2 * range_arg st 3)),
         (''input_n'', double_of_int64 (range_arg st 0)),
         (''input_c'', double_of_int64 (range_arg st 1)),
         (''input_h'', double_of_int64 (range_arg st 2)),
         (''input_w'', double_of_int64 (range_arg st 3))]"
    by (simp add: counters_are_def counter_is_def scale_tensor_counters map_insert_all_lookup)
next
  assume "conv_bwd_bias_setup_ok e \<and> counters st = Map.empty
       \<and> bias_out_h = calc_conv_out_dim e (range_arg st 2) (range_arg st 6) (range_arg st 8)
                        (range_arg st 10) (range_arg st 11)
       \<and> bias_out_w = calc_conv_out_dim e (range_arg st 3) (range_arg st 5) (range_arg st 7)
                        (range_arg st 9) (range_arg st 12)"
  then show "counters_are (state_of (LAYER_CUDNN_CONV_BWD_BIAS_Impl T e st))
        [(''input_size'', double_of_int64
            (range_arg st 0 * range_arg st 1 * range_arg st 2 * range_arg st 3)),
         (''input_batch_size'', double_of_int64 (range_arg st 0)),
         (''input_channels'', double_of_int64 (range_arg st 1)),
         (''input_height'', double_of_int64 (range_arg st 2)),
         (''input_width'', double_of_int64 (range_arg st 3)),
         (''output_size'', double_of_int64 (range_arg st 0 * range_arg st 4 * bias_out_h * bias_out_w)),
         (''output_batch_size'', double_of_int64 (range_arg st 0)),
         (''output_channels'', double_of_int64 (range_arg st 4)),
         (''output_height'', double_of_int64 bias_out_h),
         (''output_width'', double_of_int64 bias_out_w)]"
    by (simp add: counters_are_def counter_is_def conv_bwd_bias_counters map_insert_all_lookup)
qed (blast intro: conv_fwd_shape_counters conv_bwd_data_shape_counters
      conv_bias_activation_shape_counters pooling_bwd_shape_counters activation_bwd_shape_counters
      dropout_fwd_shape_counters scale_tensor_no_output_counters gemm_fwd_no_size_counters)+

theorem shape_counters_of_each_benchmark_witness:
  "batchnorm_fwd_setup_ok env_ok
   \<and> counters_are
       (LAYER_CUDNN_BATCHNORM_FWD_Impl Float CUDNN_BATCHNORM_SPATIAL True env_ok
          (fresh_state 3 [2, 3, 4, 5, 6, 3, 3, 1, 1, 1, 1, 1, 1, 1]))
       [(''input_size'', 120), (''input_batch_size'', 2), (''input_channels'', 3),
        (''input_height'', 4), (''input_width'', 5), (''output_size'', 120),
        (''output_batch_size'', 2), (''output_channels'', 3), (''output_height'', 4),
        (''output_width'', 5)]
   \<and> conv_bwd_bias_setup_ok env_ok
   \<and> counters_are
       (state_of (LAYER_CUDNN_CONV_BWD_BIAS_Impl Float env_ok
          (fresh_state 3 [2, 3, 4, 5, 6, 3, 3, 1, 1, 1, 1, 1, 1, 1])))
       [(''input_size'', 120), (''input_batch_size'', 2), (''input_channels'', 3),
        (''input_height'', 4), (''input_width'', 5), (''output_size'', 240),
        (''output_batch_size'', 2), (''output_channels'', 6), (''output_height'', 4),
        (''output_width'', 5)]
   \<and> conv_fwd_setup_ok Float CUDNN_DEFAULT_MATH env_ok
       (fresh_state 3 [2, 3, 4, 5, 6, 3, 3, 1, 1, 1, 1, 1, 1, 1])
   \<and> output_dim env_ok = (2, 4, 3, 3)
   \<and> counters_are
       (LAYER_CUDNN_CONV_FWD_Impl Float CUDNN_CONVOLUTION_FWD_ALGO_GEMM CUDNN_DEFAULT_MATH env_ok
          (fresh_state 3 [2, 3, 4, 5, 6, 3, 3, 1, 1, 1, 1, 1, 1, 1]))
       [(''input_size'', 120), (''input_batch_size'', 2), (''input_channels'', 3),
        (''input_height'', 4), (''input_width'', 5), (''output_size'', 72),
        (''output_batch_size'', 2), (''output_channels'', 4), (''output_height'', 3),
        (''output_width'', 3)]
   \<and> pooling_bwd_setup_ok env_ok
   \<and> counters_are
       (LAYER_CUDNN_POOLING_BWD_Impl Float 0 env_ok
          (fresh_state 3 [2, 3, 4, 5, 6, 3, 3, 1, 1, 1, 1, 1, 1, 1]))
       [(''input_size'', 120), (''output_size'', 72), (''output_height'', 3)]
   \<and> gemm_fwd_setup_ok env_ok
   \<and> counters_are
       (LAYER_CUBLAS_GEMM_FWD_Impl Float env_ok
          (fresh_state 3 [2, 3, 4, 5, 6, 3, 3, 1, 1, 1, 1, 1, 1, 1]))
       [(''M'', 2), (''N'', 3), (''K'', 4)]"
proof -
  let ?st = "fresh_state 3 [2, 3, 4, 5, 6, 3, 3, 1, 1, 1, 1, 1, 1, 1]"
  have h1: "batchnorm_fwd_setup_ok env_ok"
    by (simp add: batchnorm_fwd_setup_ok_def setup_defs env_ok_def IS_ERROR_def)
  have h3: "conv_bwd_bias_setup_ok env_ok"
    by (simp add: conv_bwd_bias_setup_ok_def setup_defs env_ok_def)
  have h4: "conv_fwd_setup_ok Float CUDNN_DEFAULT_MATH env_ok ?st"
    by (simp add: conv_fwd_setup_ok_def conv_fwd_helpers_ok_def conv_fwd_setup_calls_def
        setup_defs env_ok_def IS_ERROR_def)
  have h5: "pooling_bwd_setup_ok env_ok"
    by (simp add: pooling_bwd_setup_ok_def setup_defs env_ok_def IS_ERROR_def)
  have h6: "gemm_fwd_setup_ok env_ok"
    by (simp add: gemm_fwd_setup_ok_def setup_defs env_ok_def IS_ERROR_def)
  have od: "output_dim env_ok = (2, 4, 3, 3)"
    by (simp add: env_ok_def)
  have em: "counters ?st = Map.empty"
    by (simp add: fresh_state_def)
  have r: "range_arg (fresh_state n xs) i = args_of xs i" for n xs i
    by (simp add: fresh_state_def range_arg_def)
  have c: "calc_conv_out_dim env_ok i f p s d = i" for i f p s d
    by (simp add: env_ok_def)
  note A = shape_counters_of_each_benchmark
      [where e = env_ok and st = ?st and T = Float
         and batchnorm_mode = CUDNN_BATCHNORM_SPATIAL and is_training = True
         and bias_out_h = 4 and bias_out_w = 5
         and math_type = CUDNN_DEFAULT_MATH and fwd_algorithm = CUDNN_CONVOLUTION_FWD_ALGO_GEMM
         and bwd_algorithm = CUDNN_CONVOLUTION_BWD_DATA_ALGO_1
         and activation_mode = CUDNN_ACTIVATION_RELU and pooling_mode = 0
         and out_n = 2 and out_c = 4 and out_h = 3 and out_w = 3 and in_h = 4 and in_w = 5]
  show ?thesis
    using h1 h3 h4 h5 h6 od em A
    by (simp add: r c args_of_def double_of_int64_def double_of_int32_def counters_are_def)
qed

text \<open>
  Claim C4 as the spec has it fails on the scaling of a tensor, one of the bodies it is
  drawn from: the setup succeeds, the case runs, and no counter \<open>output_size\<close> is
  recorded. It fails on the matrix multiplication as well, which records neither
  \<open>input_size\<close> nor \<open>output_size\<close>.
\<close>

theorem scale_tensor_records_no_output_size:
  "scale_tensor_setup_ok env_ok
   \<and> counters (fresh_state 3 [2, 3, 4, 5, 1]) = Map.empty
   \<and> counters (LAYER_CUDNN_SCALE_TENSOR_Impl Float env_ok (fresh_state 3 [2, 3, 4, 5, 1]))
       ''input_size'' = Some (plain 120)
   \<and> counters (LAYER_CUDNN_SCALE_TENSOR_Impl Float env_ok (fresh_state 3 [2, 3, 4, 5, 1]))
       ''output_size'' = None
   \<and> gemm_fwd_setup_ok env_ok
   \<and> counters (LAYER_CUBLAS_GEMM_FWD_Impl Float env_ok (fresh_state 3 [2, 3, 4, 0, 0, 1, 0]))
       ''input_size'' = None
   \<and> counters (LAYER_CUBLAS_GEMM_FWD_Impl Float env_ok (fresh_state 3 [2, 3, 4, 0, 0, 1, 0]))
       ''output_size'' = None"
proof -
  have h1: "scale_tensor_setup_ok env_ok"
    by (simp add: scale_tensor_setup_ok_def setup_defs env_ok_def)
  have h2: "gemm_fwd_setup_ok env_ok"
    by (simp add: gemm_fwd_setup_ok_def setup_defs env_ok_def IS_ERROR_def)
  have em: "counters (fresh_state n xs) = Map.empty" for n xs
    by (simp add: fresh_state_def)
  have r: "range_arg (fresh_state n xs) i = args_of xs i" for n xs i
    by (simp add: fresh_state_def range_arg_def)
  show ?thesis
    using h1 h2
    by (simp add: em scale_tensor_no_output_counters [OF h1 em] gemm_fwd_no_size_counters [OF h2 em]
        scale_tensor_counters [OF h1] map_insert_all_lookup r args_of_def double_of_int64_def)
qed

subsection \<open>The timed call\<close>



subsection \<open>The transposition flags of the half-precision matrix multiplication\<close>

text \<open>
  Claim C10. The matrix multiplication records the counters \<open>transA\<close> and \<open>transB\<close>
  from its fourth and fifth argument (0 for \<open>CUBLAS_OP_N\<close>, 1 for \<open>CUBLAS_OP_T\<close>), in
  half precision as in single precision. In half precision the timed call is
  \<open>cublasGemmEx\<close>, and its two operation arguments are \<open>CUBLAS_OP_N\<close> in every
  iteration, whatever the arguments of the case: when one of the two arguments is not
  0, the counter says transposed and the call that was timed did not transpose.
\<close>

theorem gemm_half_records_flags_it_does_not_pass:
  "gemm_fwd_setup_ok e \<and> counters st = Map.empty \<longrightarrow>
     counter_is (LAYER_CUBLAS_GEMM_FWD_Impl Half e st) ''transA''
       (if range_arg st 3 = 0 then 0 else 1)
     \<and> counter_is (LAYER_CUBLAS_GEMM_FWD_Impl Half e st) ''transB''
       (if range_arg st 4 = 0 then 0 else 1)
     \<and> trace (LAYER_CUBLAS_GEMM_FWD_Impl Half e st)
       = trace st @ gemm_fwd_setup_events Half st
         @ loop_events e ''cublasGemmEx''
             [op_int CUBLAS_OP_N, op_int CUBLAS_OP_N,
              sint (narrow (range_arg st 0)), sint (narrow (range_arg st 1)),
              sint (narrow (range_arg st 2)), sint (narrow (range_arg st 0)),
              sint (narrow (range_arg st 2)), sint (narrow (range_arg st 0))]
             (iterations_to_run st)
         @ [Call ''cudaFree(d_c)'' [], Call ''cudaFree(d_b)'' [], Call ''cudaFree(d_a)'' []]
     \<and> filter (is_call_of ''cublasGemmEx'') (gemm_fwd_setup_events Half st) = []"
  by (simp add: counter_is_def gemm_fwd_counters gemm_fwd_trace map_insert_all_lookup
      is_half_v_def gemm_fwd_setup_events_def is_call_of_def)

theorem gemm_half_records_flags_it_does_not_pass_witness:
  "gemm_fwd_setup_ok env_ok
   \<and> counter_is (LAYER_CUBLAS_GEMM_FWD_Impl Half env_ok (fresh_state 2 [2, 3, 4, 1, 1, 1, 0]))
       ''transA'' 1
   \<and> counter_is (LAYER_CUBLAS_GEMM_FWD_Impl Half env_ok (fresh_state 2 [2, 3, 4, 1, 1, 1, 0]))
       ''transB'' 1
   \<and> filter (is_call_of ''cublasGemmEx'')
       (trace (LAYER_CUBLAS_GEMM_FWD_Impl Half env_ok (fresh_state 2 [2, 3, 4, 1, 1, 1, 0])))
       = [Call ''cublasGemmEx'' [0, 0, 2, 3, 4, 2, 4, 2], Call ''cublasGemmEx'' [0, 0, 2, 3, 4, 2, 4, 2]]"
proof -
  have h1: "gemm_fwd_setup_ok env_ok"
    by (simp add: gemm_fwd_setup_ok_def setup_defs env_ok_def IS_ERROR_def)
  have h2: "gemm_fwd_setup_ok env_ok \<and> counters (fresh_state 2 [2, 3, 4, 1, 1, 1, 0]) = Map.empty"
    using h1 by (simp add: fresh_state_def)
  have r: "range_arg (fresh_state n xs) i = args_of xs i" for n xs i
    by (simp add: fresh_state_def range_arg_def)
  have s: "trace (fresh_state n xs) = []" "iterations_to_run (fresh_state n xs) = n" for n xs
    by (simp_all add: fresh_state_def iterations_to_run_def)
  have l: "loop_events env_ok name args 2
             = [Call ''cudaEventRecord(start)'' [], Call name args, Call ''cudaEventRecord(stop)'' [],
                Call ''cudaEventSynchronize'' [], Call ''cudaEventElapsedTime'' [],
                Call ''cudaEventRecord(start)'' [], Call name args, Call ''cudaEventRecord(stop)'' [],
                Call ''cudaEventSynchronize'' [], Call ''cudaEventElapsedTime'' []]" for name args
    by (simp add: loop_events_def iteration_events_def iteration_fails_def env_ok_def IS_ERROR_def
        numeral_2_eq_2)
  show ?thesis
    using h1 gemm_half_records_flags_it_does_not_pass
              [where e = env_ok and st = "fresh_state 2 [2, 3, 4, 1, 1, 1, 0]", THEN mp, OF h2]
    by (simp add: r s l args_of_def narrow_def is_call_of_def)
qed

subsection \<open>The dispatchers\<close>

lemma pooling_bwd_throws:
  assumes a: "has_cuda e" "tensor_result e ''x_tensor'' = Valid" "tensor_result e ''y_tensor'' = Valid"
      "calls_succeed e [(''cudnnCreatePoolingDescriptor'', 0), (''cudnnSetPooling2dDescriptor'', 0),
                        (''cudnnGetPooling2dForwardOutputDim'', 0)]"
      "vector_exn e ''input''
         (range_arg st 0 * range_arg st 3 * range_arg st 2 * range_arg st 1 * sizeof T div sizeof T)
       = Some x"
      "\<not> error_occurred st"
  shows "\<not> returns_normally (iLAYER_CUDNN_POOLING_BWD_Impl T pooling_mode e st)
      \<and> error_occurred (LAYER_CUDNN_POOLING_BWD_Impl T pooling_mode e st)
      \<and> error_message (LAYER_CUDNN_POOLING_BWD_Impl T pooling_mode e st)
        = (case x of
             Std_exception what \<Rightarrow> ''Exception in CUDNN/POOLING_FWD'' @ what
           | Std_string text \<Rightarrow> ''Exception in CUDNN/POOLING_FWD'' @ text
           | Other_exception \<Rightarrow> ''unknown exception in CUDNN/POOLING_FWD'')
      \<and> filter (is_call_of ''cudnnPoolingBackward'')
           (trace (LAYER_CUDNN_POOLING_BWD_Impl T pooling_mode e st))
        = filter (is_call_of ''cudnnPoolingBackward'') (trace st)"
proof -
  obtain out_n out_c out_h out_w where od: "output_dim e = (out_n, out_c, out_h, out_w)"
    by (cases "output_dim e") auto
  have inner: "iLAYER_CUDNN_POOLING_BWD_Impl T pooling_mode e st
          = Thrown x
              (emit (Call ''cudnnDestroyPoolingDescriptor'' [])
                 (emit (Construct ''y_tensor'' [sint out_n, sint out_c, sint out_h, sint out_w])
                    (emit (Call ''cudnnGetPooling2dForwardOutputDim'' [])
                       (emit (Call ''cudnnSetPooling2dDescriptor''
                                [pooling_mode, sint (range_arg st 4), sint (range_arg st 5),
                                 sint (range_arg st 6), sint (range_arg st 7),
                                 sint (range_arg st 8), sint (range_arg st 9)])
                          (emit (Call ''cudnnCreatePoolingDescriptor'' [])
                             (emit (Construct ''x_tensor''
                                      [sint (range_arg st 0), sint (range_arg st 1),
                                       sint (range_arg st 2), sint (range_arg st 3)]) st))))))"
    using a
    by (simp add: iLAYER_CUDNN_POOLING_BWD_Impl_def calls_succeed_simps stmt_ok od
        with_vector_def defer_call_def Let_def)
  show ?thesis
    using a(6)
    by (cases x)
       (simp_all add: LAYER_CUDNN_POOLING_BWD_Impl_def inner POOLING_BWD_NAME_def state_proj
         is_call_of_def)
qed

lemma scale_tensor_throws:
  assumes a: "has_cuda e" "tensor_result e ''input_tensor'' = Valid"
      "vector_exn e ''input''
            (sizeof T * range_arg st 0 * range_arg st 3 * range_arg st 2 * range_arg st 1 div sizeof T)
          = Some x"
      "\<not> error_occurred st"
  shows "\<not> returns_normally (iLAYER_CUDNN_SCALE_TENSOR_Impl T e st)
      \<and> error_occurred (LAYER_CUDNN_SCALE_TENSOR_Impl T e st)
      \<and> error_message (LAYER_CUDNN_SCALE_TENSOR_Impl T e st)
        = (case x of
             Std_exception what \<Rightarrow> ''Exception in CUDNN/SCALE_TENSOR'' @ what
           | Std_string text \<Rightarrow> ''Exception in CUDNN/SCALE_TENSOR'' @ text
           | Other_exception \<Rightarrow> ''unknown exception in CUDNN/SCALE_TENSOR'')
      \<and> filter (is_call_of ''cudnnScaleTensor'') (trace (LAYER_CUDNN_SCALE_TENSOR_Impl T e st))
        = filter (is_call_of ''cudnnScaleTensor'') (trace st)"
proof -
  have inner: "iLAYER_CUDNN_SCALE_TENSOR_Impl T e st
          = Thrown x
              (emit (Construct ''input_tensor''
                       [sint (range_arg st 0), sint (range_arg st 1), sint (range_arg st 2),
                        sint (range_arg st 3)]) st)"
    using a
    by (simp add: iLAYER_CUDNN_SCALE_TENSOR_Impl_def stmt_ok with_vector_def Let_def)
  show ?thesis
    using a(4)
    by (cases x)
       (simp_all add: LAYER_CUDNN_SCALE_TENSOR_Impl_def inner SCALE_TENSOR_NAME_def state_proj
         is_call_of_def)
qed

lemma conv_bias_activation_throws:
  assumes a: "has_cuda e"
      "\<not> (CUDNN_SUPPORTS_TENSOR_OPS e \<and> is_half_v T \<and> \<not> SupportsTensorCore e)"
      "calls_succeed e (conv_bias_activation_setup_calls st)"
      "tensors_valid e [''x_tensor'', ''w_filter'', ''y_tensor'', ''bias_tensor'']"
      "vector_exn e ''input'' = (\<lambda>n. Some x)"
      "\<not> error_occurred st"
  shows "\<not> returns_normally
           (iLAYER_CUDNN_CONV_BIAS_ACTIVATION_FWD_Impl T fwd_algorithm activation_mode math_type e st)
      \<and> error_occurred
          (LAYER_CUDNN_CONV_BIAS_ACTIVATION_FWD_Impl T fwd_algorithm activation_mode math_type e st)
      \<and> error_message
          (LAYER_CUDNN_CONV_BIAS_ACTIVATION_FWD_Impl T fwd_algorithm activation_mode math_type e st)
        = (case x of
             Std_exception what \<Rightarrow> ''Exception in CUDNN/CONV_BIAS_ACTIVATION_FWD'' @ what
           | Std_string text \<Rightarrow> ''Exception in CUDNN/CONV_BIAS_ACTIVATION_FWD'' @ text
           | Other_exception \<Rightarrow> ''unknown exception in CUDNN/CONV_BIAS_ACTIVATION_FWD'')"
proof -
  obtain out_n out_c out_h out_w where od: "output_dim e = (out_n, out_c, out_h, out_w)"
    by (cases "output_dim e") auto
  have tc: "(CUDNN_SUPPORTS_TENSOR_OPS e \<and> (is_half_v T \<or> CUDNN_DEFAULT_MATH = CUDNN_TENSOR_OP_MATH)
              \<and> \<not> SupportsTensorCore e) = False"
    using a(2) by (auto simp add: CUDNN_DEFAULT_MATH_def CUDNN_TENSOR_OP_MATH_def)
  have calls: "IS_ERROR (api_status e ''cudnnCreateConvolutionDescriptor'' 0) = False"
    "IS_ERROR (api_status e ''cudnnSetConvolution2dDescriptor'' 0) = False"
    "IS_ERROR (api_status e ''cudnnCreateActivationDescriptor'' 0) = False"
    "IS_ERROR (api_status e ''cudnnSetActivationDescriptor'' 0) = False"
    "0 < sint (if range_arg st 13 = 0 then 1 else range_arg st 13)
       \<Longrightarrow> IS_ERROR (api_status e ''cudnnSetConvolutionGroupCount'' 0) = False"
    "IS_ERROR (api_status e ''cudnnGetConvolution2dForwardOutputDim'' 0) = False"
    using a(3) by (auto simp add: conv_bias_activation_setup_calls_def calls_succeed_simps)
  have tensors: "tensor_result e ''x_tensor'' = Valid" "tensor_result e ''w_filter'' = Valid"
    "tensor_result e ''y_tensor'' = Valid" "tensor_result e ''bias_tensor'' = Valid"
    using a(4) by (simp_all add: tensors_valid_def)
  have "\<exists>s. iLAYER_CUDNN_CONV_BIAS_ACTIVATION_FWD_Impl T fwd_algorithm activation_mode math_type e st
               = Thrown x s \<and> error_occurred s = error_occurred st"
    by (simp add: iLAYER_CUDNN_CONV_BIAS_ACTIVATION_FWD_Impl_def a(1,5) tc calls tensors od
        stmt_ok with_vector_def defer_call_def Let_def state_proj if_proj
        split del: if_split cong: if_cong)
  then obtain s where inner:
    "iLAYER_CUDNN_CONV_BIAS_ACTIVATION_FWD_Impl T fwd_algorithm activation_mode math_type e st
       = Thrown x s" and s: "error_occurred s = error_occurred st"
    by blast
  show ?thesis
    using a(6)
    by (cases x)
       (simp_all add: LAYER_CUDNN_CONV_BIAS_ACTIVATION_FWD_Impl_def inner s
         CONV_BIAS_ACTIVATION_FWD_NAME_def state_proj)
qed

text \<open>
  Claim C9. The inner function of a benchmark throws what the construction of one of
  its host vectors throws. In the backward pooling, let the device be there, the two
  tensors be valid and the three descriptor calls succeed, and let the construction of
  the vector \<open>input\<close> throw. Then the dispatcher returns, the case is skipped, and the
  timed call has not been made. The message of the skip, however, is built from the
  name the file gives itself, which is \<open>CUDNN/POOLING_FWD\<close>: it names the forward
  pooling, and not the backward pooling that was run. In the scaling of a tensor and in
  the fused convolution, the same exception gives a message with the benchmark's own
  name. In all three the text of the exception follows the name without a separator.
\<close>

theorem backward_pooling_exception_names_forward_pooling:
  "(has_cuda e \<and> tensor_result e ''x_tensor'' = Valid \<and> tensor_result e ''y_tensor'' = Valid
    \<and> calls_succeed e [(''cudnnCreatePoolingDescriptor'', 0), (''cudnnSetPooling2dDescriptor'', 0),
                        (''cudnnGetPooling2dForwardOutputDim'', 0)]
    \<and> vector_exn e ''input''
         (range_arg st 0 * range_arg st 3 * range_arg st 2 * range_arg st 1 * sizeof T div sizeof T)
       = Some x
    \<and> \<not> error_occurred st \<longrightarrow>
      \<not> returns_normally (iLAYER_CUDNN_POOLING_BWD_Impl T pooling_mode e st)
      \<and> error_occurred (LAYER_CUDNN_POOLING_BWD_Impl T pooling_mode e st)
      \<and> error_message (LAYER_CUDNN_POOLING_BWD_Impl T pooling_mode e st)
        = (case x of
             Std_exception what \<Rightarrow> ''Exception in CUDNN/POOLING_FWD'' @ what
           | Std_string text \<Rightarrow> ''Exception in CUDNN/POOLING_FWD'' @ text
           | Other_exception \<Rightarrow> ''unknown exception in CUDNN/POOLING_FWD'')
      \<and> filter (is_call_of ''cudnnPoolingBackward'')
           (trace (LAYER_CUDNN_POOLING_BWD_Impl T pooling_mode e st))
        = filter (is_call_of ''cudnnPoolingBackward'') (trace st))
   \<and> \<not> sublist ''POOLING_BWD'' ''Exception in CUDNN/POOLING_FWD''
   \<and> \<not> sublist ''POOLING_BWD'' ''unknown exception in CUDNN/POOLING_FWD''
   \<and> (has_cuda e \<and> tensor_result e ''input_tensor'' = Valid
       \<and> vector_exn e ''input''
            (sizeof T * range_arg st 0 * range_arg st 3 * range_arg st 2 * range_arg st 1 div sizeof T)
          = Some x
       \<and> \<not> error_occurred st \<longrightarrow>
      \<not> returns_normally (iLAYER_CUDNN_SCALE_TENSOR_Impl T e st)
      \<and> error_occurred (LAYER_CUDNN_SCALE_TENSOR_Impl T e st)
      \<and> error_message (LAYER_CUDNN_SCALE_TENSOR_Impl T e st)
        = (case x of
             Std_exception what \<Rightarrow> ''Exception in CUDNN/SCALE_TENSOR'' @ what
           | Std_string text \<Rightarrow> ''Exception in CUDNN/SCALE_TENSOR'' @ text
           | Other_exception \<Rightarrow> ''unknown exception in CUDNN/SCALE_TENSOR'')
      \<and> filter (is_call_of ''cudnnScaleTensor'') (trace (LAYER_CUDNN_SCALE_TENSOR_Impl T e st))
        = filter (is_call_of ''cudnnScaleTensor'') (trace st))
   \<and> (has_cuda e
       \<and> \<not> (CUDNN_SUPPORTS_TENSOR_OPS e \<and> is_half_v T \<and> \<not> SupportsTensorCore e)
       \<and> calls_succeed e (conv_bias_activation_setup_calls st)
       \<and> tensors_valid e [''x_tensor'', ''w_filter'', ''y_tensor'', ''bias_tensor'']
       \<and> vector_exn e ''input'' = (\<lambda>n. Some x)
       \<and> \<not> error_occurred st \<longrightarrow>
      \<not> returns_normally
           (iLAYER_CUDNN_CONV_BIAS_ACTIVATION_FWD_Impl T fwd_algorithm activation_mode math_type e st)
      \<and> error_occurred
          (LAYER_CUDNN_CONV_BIAS_ACTIVATION_FWD_Impl T fwd_algorithm activation_mode math_type e st)
      \<and> error_message
          (LAYER_CUDNN_CONV_BIAS_ACTIVATION_FWD_Impl T fwd_algorithm activation_mode math_type e st)
        = (case x of
             Std_exception what \<Rightarrow> ''Exception in CUDNN/CONV_BIAS_ACTIVATION_FWD'' @ what
           | Std_string text \<Rightarrow> ''Exception in CUDNN/CONV_BIAS_ACTIVATION_FWD'' @ text
           | Other_exception \<Rightarrow> ''unknown exception in CUDNN/CONV_BIAS_ACTIVATION_FWD''))"
proof -
  have c1: "\<not> sublist ''POOLING_BWD'' ''Exception in CUDNN/POOLING_FWD''"
    by code_simp
  have c2: "\<not> sublist ''POOLING_BWD'' ''unknown exception in CUDNN/POOLING_FWD''"
    by code_simp
  show ?thesis
    by (intro conjI;
        (rule c1 | rule c2
         | (rule impI, elim conjE,
            rule pooling_bwd_throws scale_tensor_throws conv_bias_activation_throws; assumption)))
qed

theorem backward_pooling_exception_names_forward_pooling_witness:
  "has_cuda (env_input_throws (Std_exception ''std::bad_alloc''))
   \<and> vector_exn (env_input_throws (Std_exception ''std::bad_alloc'')) ''input'' 120
       = Some (Std_exception ''std::bad_alloc'')
   \<and> error_occurred
       (LAYER_CUDNN_POOLING_BWD_Impl Float 0 (env_input_throws (Std_exception ''std::bad_alloc''))
          (fresh_state 3 [2, 3, 4, 5, 2, 2, 0, 0, 2, 2]))
   \<and> error_message
       (LAYER_CUDNN_POOLING_BWD_Impl Float 0 (env_input_throws (Std_exception ''std::bad_alloc''))
          (fresh_state 3 [2, 3, 4, 5, 2, 2, 0, 0, 2, 2]))
     = ''Exception in CUDNN/POOLING_FWDstd::bad_alloc''
   \<and> \<not> sublist ''POOLING_BWD'' ''Exception in CUDNN/POOLING_FWDstd::bad_alloc''
   \<and> filter (is_call_of ''cudnnPoolingBackward'')
       (trace
          (LAYER_CUDNN_POOLING_BWD_Impl Float 0 (env_input_throws (Std_exception ''std::bad_alloc''))
             (fresh_state 3 [2, 3, 4, 5, 2, 2, 0, 0, 2, 2])))
     = []"
proof -
  let ?e = "env_input_throws (Std_exception ''std::bad_alloc'')"
  let ?st = "fresh_state 3 [2, 3, 4, 5, 2, 2, 0, 0, 2, 2]"
  have r: "range_arg (fresh_state n xs) i = args_of xs i" for n xs i
    by (simp add: fresh_state_def range_arg_def)
  have s: "\<not> error_occurred ?st" "trace ?st = []"
    by (simp_all add: fresh_state_def)
  have h: "has_cuda ?e \<and> tensor_result ?e ''x_tensor'' = Valid \<and> tensor_result ?e ''y_tensor'' = Valid
    \<and> calls_succeed ?e [(''cudnnCreatePoolingDescriptor'', 0), (''cudnnSetPooling2dDescriptor'', 0),
                         (''cudnnGetPooling2dForwardOutputDim'', 0)]
    \<and> vector_exn ?e ''input''
         (range_arg ?st 0 * range_arg ?st 3 * range_arg ?st 2 * range_arg ?st 1 * sizeof Float
          div sizeof Float)
       = Some (Std_exception ''std::bad_alloc'')
    \<and> \<not> error_occurred ?st"
    by (simp add: env_input_throws_def env_ok_def calls_succeed_simps IS_ERROR_def s)
  have v: "has_cuda ?e" "vector_exn ?e ''input'' 120 = Some (Std_exception ''std::bad_alloc'')"
    by (simp_all add: env_input_throws_def env_ok_def)
  have ns: "\<not> sublist ''POOLING_BWD'' ''Exception in CUDNN/POOLING_FWDstd::bad_alloc''"
    by code_simp
  show ?thesis
    using v ns
      backward_pooling_exception_names_forward_pooling
        [where e = ?e and st = ?st and T = Float and pooling_mode = 0
           and x = "Std_exception ''std::bad_alloc''", THEN conjunct1, THEN mp, OF h]
    by (simp add: s)
qed

subsection \<open>What the convolutions do when a vendor call fails\<close>

text \<open>
  Claim C2, amended. In the three convolution benchmarks with a timed loop, when the
  helper objects are valid and the case has not been skipped before, the case ends
  skipped exactly when one of the calls whose status the benchmark checks returns an
  error: the setup calls it checks, the timed call with the synchronisation and the
  reading of the time of an iteration, and \<open>cudnnFind...Algorithm\<close> after the loop. The
  query of the workspace size and the query of the advised algorithm are not among these
  calls: when the query of the workspace size fails, the forward convolution goes on
  with a workspace of 1073741824 bytes, which it allocates, passes to the timed call and
  records in the counter \<open>workspace_bytes\<close>; when the query of the advised algorithm
  fails, it goes on with \<open>-1\<close> as the advised algorithm. (The fused convolution does not
  look at the status of \<open>cudnnSetConvolutionMathType\<close> either.)
\<close>

theorem convolutions_skip_iff_a_checked_call_fails:
  "(conv_fwd_helpers_ok T math_type e \<and> \<not> error_occurred st \<longrightarrow>
      error_occurred (LAYER_CUDNN_CONV_FWD_Impl T fwd_algorithm math_type e st)
        = (\<not> conv_fwd_checked_calls_succeed e st))
   \<and> (conv_bwd_data_helpers_ok math_type e \<and> \<not> error_occurred st \<longrightarrow>
      error_occurred (LAYER_CUDNN_CONV_BWD_DATA_Impl T bwd_algorithm math_type e st)
        = (\<not> conv_bwd_data_checked_calls_succeed e st))
   \<and> (conv_bias_activation_helpers_ok T e \<and> \<not> error_occurred st \<longrightarrow>
      error_occurred
        (LAYER_CUDNN_CONV_BIAS_ACTIVATION_FWD_Impl T fwd_algorithm activation_mode math_type e st)
        = (\<not> conv_bias_activation_checked_calls_succeed e st))
   \<and> (conv_fwd_setup_ok T math_type e st \<and> \<not> error_occurred st \<and> counters st = Map.empty
       \<and> trace st = [] \<and> T \<noteq> Int8
       \<and> IS_ERROR (api_status e ''cudnnGetConvolutionForwardWorkspaceSize'' 0) \<longrightarrow>
      counter_is (LAYER_CUDNN_CONV_FWD_Impl T fwd_algorithm math_type e st) ''workspace_bytes''
        (double_of_size_t fallback_workspace_bytes)
      \<and> filter (is_call_of ''cudnnConvolutionForward'')
           (trace (LAYER_CUDNN_CONV_FWD_Impl T fwd_algorithm math_type e st))
         = replicate
             (iterations_begun (iteration_fails e ''cudnnConvolutionForward'') 0 (max_iterations st))
             (Call ''cudnnConvolutionForward'' [fwd_algorithm, uint fallback_workspace_bytes]))
   \<and> (conv_fwd_setup_ok T math_type e st \<and> counters st = Map.empty
       \<and> api_status e ''cudnnGetConvolutionForwardAlgorithm'' 0 \<noteq> 0 \<longrightarrow>
      counter_is (LAYER_CUDNN_CONV_FWD_Impl T fwd_algorithm math_type e st)
        ''advised_convolution_algorithm'' (- 1))"
  by (intro conjI impI)
     (simp_all add: conv_fwd_skipped_iff conv_bwd_data_skipped_iff conv_bias_activation_skipped_iff
       counter_is_def conv_fwd_workspace_counter conv_fwd_advised_counter conv_fwd_compute_calls)

theorem convolutions_skip_iff_a_checked_call_fails_witness:
  "conv_fwd_helpers_ok Float CUDNN_DEFAULT_MATH env_ok
   \<and> conv_fwd_checked_calls_succeed env_ok (fresh_state 2 [2, 3, 4, 5, 6, 3, 3, 1, 1, 1, 1, 1, 1, 1])
   \<and> \<not> error_occurred
         (LAYER_CUDNN_CONV_FWD_Impl Float CUDNN_CONVOLUTION_FWD_ALGO_GEMM CUDNN_DEFAULT_MATH env_ok
            (fresh_state 2 [2, 3, 4, 5, 6, 3, 3, 1, 1, 1, 1, 1, 1, 1]))
   \<and> conv_bwd_data_helpers_ok CUDNN_DEFAULT_MATH (env_call_fails ''cudnnSetConvolution2dDescriptor'')
   \<and> \<not> conv_bwd_data_checked_calls_succeed (env_call_fails ''cudnnSetConvolution2dDescriptor'')
           (fresh_state 2 [2, 3, 4, 5, 6, 3, 3, 1, 1, 1, 1, 1, 1, 1])
   \<and> error_occurred
       (LAYER_CUDNN_CONV_BWD_DATA_Impl Float CUDNN_CONVOLUTION_BWD_DATA_ALGO_1 CUDNN_DEFAULT_MATH
          (env_call_fails ''cudnnSetConvolution2dDescriptor'')
          (fresh_state 2 [2, 3, 4, 5, 6, 3, 3, 1, 1, 1, 1, 1, 1, 1]))
   \<and> conv_bias_activation_helpers_ok Float (env_call_fails ''cudnnSetConvolutionMathType'')
   \<and> \<not> error_occurred
         (LAYER_CUDNN_CONV_BIAS_ACTIVATION_FWD_Impl Float CUDNN_CONVOLUTION_FWD_ALGO_GEMM
            CUDNN_ACTIVATION_RELU CUDNN_DEFAULT_MATH (env_call_fails ''cudnnSetConvolutionMathType'')
            (fresh_state 2 [2, 3, 4, 5, 6, 3, 3, 1, 1, 1, 1, 1, 1, 1]))
   \<and> api_status (env_call_fails ''cudnnGetConvolutionForwardAlgorithm'')
         ''cudnnGetConvolutionForwardAlgorithm'' 0 = 9
   \<and> counter_is
       (LAYER_CUDNN_CONV_FWD_Impl Float CUDNN_CONVOLUTION_FWD_ALGO_GEMM CUDNN_DEFAULT_MATH
          (env_call_fails ''cudnnGetConvolutionForwardAlgorithm'')
          (fresh_state 2 [2, 3, 4, 5, 6, 3, 3, 1, 1, 1, 1, 1, 1, 1]))
       ''advised_convolution_algorithm'' (- 1)"
proof -
  let ?st = "fresh_state 2 [2, 3, 4, 5, 6, 3, 3, 1, 1, 1, 1, 1, 1, 1]"
  have r: "range_arg (fresh_state n xs) i = args_of xs i" for n xs i
    by (simp add: fresh_state_def range_arg_def)
  have s: "\<not> error_occurred ?st" "counters ?st = Map.empty" "max_iterations ?st = Suc (Suc 0)"
    by (simp_all add: fresh_state_def)
  have a1: "conv_fwd_helpers_ok Float CUDNN_DEFAULT_MATH env_ok"
    by (simp add: conv_fwd_helpers_ok_def setup_defs env_ok_def)
  have a2: "conv_fwd_checked_calls_succeed env_ok ?st"
    by (simp add: conv_fwd_checked_calls_succeed_def conv_fwd_setup_calls_def calls_succeed_simps
        s iteration_fails_def env_ok_def IS_ERROR_def)
  have b1: "conv_bwd_data_helpers_ok CUDNN_DEFAULT_MATH (env_call_fails ''cudnnSetConvolution2dDescriptor'')"
    by (simp add: conv_bwd_data_helpers_ok_def setup_defs env_call_fails_def env_ok_def)
  have b2: "\<not> conv_bwd_data_checked_calls_succeed (env_call_fails ''cudnnSetConvolution2dDescriptor'') ?st"
    by (simp add: conv_bwd_data_checked_calls_succeed_def conv_bwd_data_setup_calls_def
        calls_succeed_simps env_call_fails_def env_ok_def IS_ERROR_def)
  have c1: "conv_bias_activation_helpers_ok Float (env_call_fails ''cudnnSetConvolutionMathType'')"
    by (simp add: conv_bias_activation_helpers_ok_def setup_defs env_call_fails_def env_ok_def)
  have c2: "conv_bias_activation_checked_calls_succeed (env_call_fails ''cudnnSetConvolutionMathType'') ?st"
    by (simp add: conv_bias_activation_checked_calls_succeed_def conv_bias_activation_setup_calls_def
        calls_succeed_simps s iteration_fails_def env_call_fails_def env_ok_def IS_ERROR_def)
  have d1: "conv_fwd_setup_ok Float CUDNN_DEFAULT_MATH (env_call_fails ''cudnnGetConvolutionForwardAlgorithm'') ?st
            \<and> counters ?st = Map.empty
            \<and> api_status (env_call_fails ''cudnnGetConvolutionForwardAlgorithm'')
                 ''cudnnGetConvolutionForwardAlgorithm'' 0 \<noteq> 0"
    by (simp add: conv_fwd_setup_ok_def conv_fwd_helpers_ok_def conv_fwd_setup_calls_def
        calls_succeed_simps setup_defs s env_call_fails_def env_ok_def IS_ERROR_def)
  note A = convolutions_skip_iff_a_checked_call_fails
             [where e = env_ok and st = ?st and T = Float and math_type = CUDNN_DEFAULT_MATH
                and fwd_algorithm = CUDNN_CONVOLUTION_FWD_ALGO_GEMM
                and bwd_algorithm = CUDNN_CONVOLUTION_BWD_DATA_ALGO_1
                and activation_mode = CUDNN_ACTIVATION_RELU,
              THEN conjunct1, THEN mp, OF conjI [OF a1 s(1)]]
  note B = convolutions_skip_iff_a_checked_call_fails
             [where e = "env_call_fails ''cudnnSetConvolution2dDescriptor''" and st = ?st
                and T = Float and math_type = CUDNN_DEFAULT_MATH
                and fwd_algorithm = CUDNN_CONVOLUTION_FWD_ALGO_GEMM
                and bwd_algorithm = CUDNN_CONVOLUTION_BWD_DATA_ALGO_1
                and activation_mode = CUDNN_ACTIVATION_RELU,
              THEN conjunct2, THEN conjunct1, THEN mp, OF conjI [OF b1 s(1)]]
  note C = convolutions_skip_iff_a_checked_call_fails
             [where e = "env_call_fails ''cudnnSetConvolutionMathType''" and st = ?st
                and T = Float and math_type = CUDNN_DEFAULT_MATH
                and fwd_algorithm = CUDNN_CONVOLUTION_FWD_ALGO_GEMM
                and bwd_algorithm = CUDNN_CONVOLUTION_BWD_DATA_ALGO_1
                and activation_mode = CUDNN_ACTIVATION_RELU,
              THEN conjunct2, THEN conjunct2, THEN conjunct1, THEN mp, OF conjI [OF c1 s(1)]]
  note D = convolutions_skip_iff_a_checked_call_fails
             [where e = "env_call_fails ''cudnnGetConvolutionForwardAlgorithm''" and st = ?st
                and T = Float and math_type = CUDNN_DEFAULT_MATH
                and fwd_algorithm = CUDNN_CONVOLUTION_FWD_ALGO_GEMM
                and bwd_algorithm = CUDNN_CONVOLUTION_BWD_DATA_ALGO_1
                and activation_mode = CUDNN_ACTIVATION_RELU,
              THEN conjunct2, THEN conjunct2, THEN conjunct2, THEN conjunct2, THEN mp, OF d1]
  have e1: "api_status (env_call_fails ''cudnnGetConvolutionForwardAlgorithm'')
              ''cudnnGetConvolutionForwardAlgorithm'' 0 = 9"
    by (simp add: env_call_fails_def env_ok_def)
  show ?thesis
    using a1 a2 b1 b2 c1 c2 A B C D e1 by simp
qed

text \<open>
  Claim C2 as the spec has it fails on the forward convolution when the query of the
  workspace size returns an error: the case is not skipped. It runs both of its
  iterations, with the workspace of 1073741824 bytes it substituted for the answer the
  query did not give (1024 bytes is what the query answers when it succeeds), and
  records that size.
\<close>

theorem workspace_query_failure_is_answered_by_a_fallback:
  "IS_ERROR (api_status (env_call_fails ''cudnnGetConvolutionForwardWorkspaceSize'')
               ''cudnnGetConvolutionForwardWorkspaceSize'' 0)
   \<and> queried_bytes (env_call_fails ''cudnnGetConvolutionForwardWorkspaceSize'') ''workspace_bytes''
       = 1024
   \<and> \<not> error_occurred
         (LAYER_CUDNN_CONV_FWD_Impl Float CUDNN_CONVOLUTION_FWD_ALGO_GEMM CUDNN_DEFAULT_MATH
            (env_call_fails ''cudnnGetConvolutionForwardWorkspaceSize'')
            (fresh_state 2 [2, 3, 4, 5, 6, 3, 3, 1, 1, 1, 1, 1, 1, 1]))
   \<and> counter_is
       (LAYER_CUDNN_CONV_FWD_Impl Float CUDNN_CONVOLUTION_FWD_ALGO_GEMM CUDNN_DEFAULT_MATH
          (env_call_fails ''cudnnGetConvolutionForwardWorkspaceSize'')
          (fresh_state 2 [2, 3, 4, 5, 6, 3, 3, 1, 1, 1, 1, 1, 1, 1]))
       ''workspace_bytes'' 1073741824
   \<and> filter (is_call_of ''cudnnConvolutionForward'')
       (trace
          (LAYER_CUDNN_CONV_FWD_Impl Float CUDNN_CONVOLUTION_FWD_ALGO_GEMM CUDNN_DEFAULT_MATH
             (env_call_fails ''cudnnGetConvolutionForwardWorkspaceSize'')
             (fresh_state 2 [2, 3, 4, 5, 6, 3, 3, 1, 1, 1, 1, 1, 1, 1])))
     = [Call ''cudnnConvolutionForward'' [2, 1073741824],
        Call ''cudnnConvolutionForward'' [2, 1073741824]]"
proof -
  let ?e = "env_call_fails ''cudnnGetConvolutionForwardWorkspaceSize''"
  let ?st = "fresh_state 2 [2, 3, 4, 5, 6, 3, 3, 1, 1, 1, 1, 1, 1, 1]"
  have s: "\<not> error_occurred ?st" "counters ?st = Map.empty" "max_iterations ?st = Suc (Suc 0)"
    "trace ?st = []"
    by (simp_all add: fresh_state_def)
  have a: "conv_fwd_setup_ok Float CUDNN_DEFAULT_MATH ?e ?st"
    by (simp add: conv_fwd_setup_ok_def conv_fwd_helpers_ok_def conv_fwd_setup_calls_def
        calls_succeed_simps setup_defs env_call_fails_def env_ok_def IS_ERROR_def)
  then have h: "conv_fwd_helpers_ok Float CUDNN_DEFAULT_MATH ?e"
    by (simp add: conv_fwd_setup_ok_def)
  have c: "conv_fwd_checked_calls_succeed ?e ?st"
    by (simp add: conv_fwd_checked_calls_succeed_def conv_fwd_setup_calls_def calls_succeed_simps
        s iteration_fails_def env_call_fails_def env_ok_def IS_ERROR_def)
  have f: "\<not> iteration_fails ?e ''cudnnConvolutionForward'' i" for i
    by (simp add: iteration_fails_def env_call_fails_def env_ok_def IS_ERROR_def)
  have q: "IS_ERROR (api_status ?e ''cudnnGetConvolutionForwardWorkspaceSize'' 0)"
    "queried_bytes ?e ''workspace_bytes'' = 1024"
    by (simp_all add: env_call_fails_def env_ok_def IS_ERROR_def)
  show ?thesis
    using q c
    by (simp add: conv_fwd_skipped_iff [OF h s(1)] counter_is_def
        conv_fwd_workspace_counter [OF a] conv_fwd_compute_calls [OF a s(1)] s f
        fallback_workspace_bytes_def double_of_size_t_def CUDNN_CONVOLUTION_FWD_ALGO_GEMM_def)
qed

subsection \<open>The message of a failed timed call\<close>

text \<open>
  Claim C1. In the scaling of a tensor, let the setup succeed and let iteration \<open>k\<close> be
  the first one that fails, through an error of the timed call \<open>cudnnScaleTensor\<close>.
  Then the case is skipped and the loop is left in that iteration: the call has been
  made \<open>k + 1\<close> times and \<open>k\<close> times have been reported. The message of the skip,
  however, is the name of the benchmark followed by
  \<open>failed to perform cudnnAddTensor because of\<close> and the text of the status: the
  text the source writes names \<open>cudnnAddTensor\<close>, and nowhere \<open>cudnnScaleTensor\<close>, the
  call that was made and that failed.
\<close>

theorem scale_tensor_failure_names_another_call:
  "scale_tensor_setup_ok e \<and> \<not> error_occurred st
   \<and> first_failure (iteration_fails e ''cudnnScaleTensor'') 0 (max_iterations st) = Some k
   \<and> IS_ERROR (api_status e ''cudnnScaleTensor'' k) \<longrightarrow>
     error_occurred (LAYER_CUDNN_SCALE_TENSOR_Impl T e st)
     \<and> error_message (LAYER_CUDNN_SCALE_TENSOR_Impl T e st)
       = ''CUDNN/SCALE_TENSOR failed to perform cudnnAddTensor because of ''
         @ error_string e CUDNN (api_status e ''cudnnScaleTensor'' k)
     \<and> \<not> sublist ''cudnnScaleTensor''
           ''CUDNN/SCALE_TENSOR failed to perform cudnnAddTensor because of ''
     \<and> filter (is_call_of ''cudnnScaleTensor'') (trace (LAYER_CUDNN_SCALE_TENSOR_Impl T e st))
       = filter (is_call_of ''cudnnScaleTensor'') (trace st)
         @ replicate (Suc k) (Call ''cudnnScaleTensor'' [])
     \<and> manual_times (LAYER_CUDNN_SCALE_TENSOR_Impl T e st)
       = manual_times st @ map (\<lambda>i. elapsed_msec e i / 1000) [0..<k]"
proof (intro impI)
  assume a: "scale_tensor_setup_ok e \<and> \<not> error_occurred st
   \<and> first_failure (iteration_fails e ''cudnnScaleTensor'') 0 (max_iterations st) = Some k
   \<and> IS_ERROR (api_status e ''cudnnScaleTensor'' k)"
  then have ok: "scale_tensor_setup_ok e" and ne: "\<not> error_occurred st"
    and ff: "first_failure (iteration_fails e ''cudnnScaleTensor'') 0 (max_iterations st) = Some k"
    and er: "IS_ERROR (api_status e ''cudnnScaleTensor'' k)"
    by simp_all
  have it: "iterations_begun (iteration_fails e ''cudnnScaleTensor'') 0 (max_iterations st) = Suc k"
    "iterations_timed (iteration_fails e ''cudnnScaleTensor'') 0 (max_iterations st) = k"
    using first_failure_iterations [OF ff] by simp_all
  have run: "iterations_to_run st = max_iterations st"
    using ne by (simp add: iterations_to_run_def)
  have nt: "''cudnnScaleTensor'' \<notin> set timing_calls"
    by (simp add: timing_calls_def)
  have c1: "error_occurred (LAYER_CUDNN_SCALE_TENSOR_Impl T e st)"
    by (simp add: scale_tensor_error_occurred [OF ok] it)
  have c2: "error_message (LAYER_CUDNN_SCALE_TENSOR_Impl T e st)
       = ''CUDNN/SCALE_TENSOR failed to perform cudnnAddTensor because of ''
         @ error_string e CUDNN (api_status e ''cudnnScaleTensor'' k)"
    by (simp add: scale_tensor_error_message [OF ok ne] ff failure_message_def er
        SCALE_TENSOR_NAME_def)
  have c3: "\<not> sublist ''cudnnScaleTensor''
           ''CUDNN/SCALE_TENSOR failed to perform cudnnAddTensor because of ''"
    by code_simp
  have c4: "filter (is_call_of ''cudnnScaleTensor'') (trace (LAYER_CUDNN_SCALE_TENSOR_Impl T e st))
       = filter (is_call_of ''cudnnScaleTensor'') (trace st)
         @ replicate (Suc k) (Call ''cudnnScaleTensor'' [])"
    by (simp add: scale_tensor_trace [OF ok] run loop_events_compute_calls [OF nt] it
        scale_tensor_setup_events_def is_call_of_def del: replicate.simps)
  have c5: "manual_times (LAYER_CUDNN_SCALE_TENSOR_Impl T e st)
       = manual_times st @ map (\<lambda>i. elapsed_msec e i / 1000) [0..<k]"
    by (simp add: scale_tensor_manual_times [OF ok] run loop_times_def it)
  from c1 c2 c3 c4 c5
  show "error_occurred (LAYER_CUDNN_SCALE_TENSOR_Impl T e st)
     \<and> error_message (LAYER_CUDNN_SCALE_TENSOR_Impl T e st)
       = ''CUDNN/SCALE_TENSOR failed to perform cudnnAddTensor because of ''
         @ error_string e CUDNN (api_status e ''cudnnScaleTensor'' k)
     \<and> \<not> sublist ''cudnnScaleTensor''
           ''CUDNN/SCALE_TENSOR failed to perform cudnnAddTensor because of ''
     \<and> filter (is_call_of ''cudnnScaleTensor'') (trace (LAYER_CUDNN_SCALE_TENSOR_Impl T e st))
       = filter (is_call_of ''cudnnScaleTensor'') (trace st)
         @ replicate (Suc k) (Call ''cudnnScaleTensor'' [])
     \<and> manual_times (LAYER_CUDNN_SCALE_TENSOR_Impl T e st)
       = manual_times st @ map (\<lambda>i. elapsed_msec e i / 1000) [0..<k]"
    by (intro conjI)
qed

theorem scale_tensor_failure_names_another_call_witness:
  "scale_tensor_setup_ok (env_second_call_fails ''cudnnScaleTensor'')
   \<and> first_failure (iteration_fails (env_second_call_fails ''cudnnScaleTensor'') ''cudnnScaleTensor'')
        0 3 = Some 1
   \<and> IS_ERROR (api_status (env_second_call_fails ''cudnnScaleTensor'') ''cudnnScaleTensor'' 1)
   \<and> error_occurred
       (LAYER_CUDNN_SCALE_TENSOR_Impl Float (env_second_call_fails ''cudnnScaleTensor'')
          (fresh_state 3 [2, 3, 4, 5, 1]))
   \<and> error_message
       (LAYER_CUDNN_SCALE_TENSOR_Impl Float (env_second_call_fails ''cudnnScaleTensor'')
          (fresh_state 3 [2, 3, 4, 5, 1]))
     = ''CUDNN/SCALE_TENSOR failed to perform cudnnAddTensor because of CUDNN_STATUS_EXECUTION_FAILED''
   \<and> filter (is_call_of ''cudnnScaleTensor'')
       (trace
          (LAYER_CUDNN_SCALE_TENSOR_Impl Float (env_second_call_fails ''cudnnScaleTensor'')
             (fresh_state 3 [2, 3, 4, 5, 1])))
     = [Call ''cudnnScaleTensor'' [], Call ''cudnnScaleTensor'' []]
   \<and> manual_times
       (LAYER_CUDNN_SCALE_TENSOR_Impl Float (env_second_call_fails ''cudnnScaleTensor'')
          (fresh_state 3 [2, 3, 4, 5, 1]))
     = [2 / 1000]"
proof -
  let ?e = "env_second_call_fails ''cudnnScaleTensor''"
  let ?st = "fresh_state 3 [2, 3, 4, 5, 1]"
  have ok: "scale_tensor_setup_ok ?e"
    by (simp add: scale_tensor_setup_ok_def setup_defs env_second_call_fails_def env_ok_def)
  have s: "\<not> error_occurred ?st" "max_iterations ?st = 3" "trace ?st = []" "manual_times ?st = []"
    by (simp_all add: fresh_state_def)
  have ff: "first_failure (iteration_fails ?e ''cudnnScaleTensor'') 0 3 = Some 1"
    by (simp add: numeral_3_eq_3 iteration_fails_def env_second_call_fails_def env_ok_def IS_ERROR_def)
  have er: "IS_ERROR (api_status ?e ''cudnnScaleTensor'' 1)"
    by (simp add: env_second_call_fails_def env_ok_def IS_ERROR_def)
  have h: "scale_tensor_setup_ok ?e \<and> \<not> error_occurred ?st
   \<and> first_failure (iteration_fails ?e ''cudnnScaleTensor'') 0 (max_iterations ?st) = Some 1
   \<and> IS_ERROR (api_status ?e ''cudnnScaleTensor'' 1)"
    using ok s ff er by simp
  have es: "error_string ?e l k = ''CUDNN_STATUS_EXECUTION_FAILED''" "elapsed_msec ?e i = 2" for l k i
    by (simp_all add: env_second_call_fails_def env_ok_def)
  have u: "[0..<1] = [0]" "replicate (Suc 1) x = [x, x]" for x :: event
    by simp_all
  show ?thesis
    using ok ff er
      scale_tensor_failure_names_another_call [where e = ?e and st = ?st and k = 1 and T = Float,
        THEN mp, OF h]
    by (simp add: s es)
qed

end
